(* ===== verification/Prelude.thy ===== *)
theory Prelude
  imports Complex_Main "HOL-Library.Sublist"
begin

text \<open>
  Shared vocabulary of the development: Python exceptions as a datatype, Python's
  substring test \<open>k in s\<close> and \<open>os.path.dirname\<close>, and a tensor as a shape
  together with its flattened values (a TensorFlow variable or NumPy array as the
  code sees it), with the generic list lemmas the components share.
  Floating-point values are modelled by \<open>real\<close>: rounding is not modelled.
\<close>

named_theorems tensor_simps "shape and size facts of tensor operations"

section \<open>Python exceptions\<close>

datatype py_exc =
    ValueError
  | NameError int
  | NotImplementedError string
  | FileNotFoundError string
  | ZeroDivisionError
  | KeyboardInterrupt
  | RaisedBy string  \<comment> \<open>any other exception raised by a dispatched module\<close>

section \<open>Strings and paths\<close>

fun startswith :: "string \<Rightarrow> string \<Rightarrow> bool" where
  "startswith [] s = True"
| "startswith (c # k) [] = False"
| "startswith (c # k) (d # s) = (c = d \<and> startswith k s)"

text \<open>Python's \<open>k in s\<close> on strings: \<open>k\<close> occurs contiguously in \<open>s\<close>.\<close>

fun str_in :: "string \<Rightarrow> string \<Rightarrow> bool" where
  "str_in k [] = (k = [])"
| "str_in k (c # s) = (startswith k (c # s) \<or> str_in k s)"

text \<open>\<open>os.path.dirname\<close> (posixpath): the text up to the last slash, trailing slashes
  removed unless it is all slashes.\<close>

definition dirname :: "string \<Rightarrow> string" where
  "dirname p =
     (let head = rev (dropWhile (\<lambda>c. c \<noteq> CHR ''/'') (rev p)) in
      if head \<noteq> [] \<and> \<not> list_all (\<lambda>c. c = CHR ''/'') head
      then rev (dropWhile (\<lambda>c. c = CHR ''/'') (rev head)) else head)"

section \<open>Files and directories\<close>

text \<open>
  The file system the scripts write to: the files, a map from path to content, and
  the set of directories, every ancestor of a directory being a directory too.
  Paths are compared as strings, so two spellings of one path (a \<open>.\<close> or \<open>..\<close>
  component, a repeated slash, a symbolic link) are two files of the model.
  \<open>ancestors p\<close> are the proper prefixes of \<open>p\<close> that end before a slash.
\<close>

definition ancestors :: "string \<Rightarrow> string list" where
  "ancestors p = [take k p. k \<leftarrow> [1..<length p], p ! k = CHR ''/'']"

definition is_dir :: "string set \<Rightarrow> string \<Rightarrow> bool" where
  "is_dir ds p \<longleftrightarrow> (\<exists>d\<in>ds. d = p \<or> p \<in> set (ancestors d))"

text \<open>
  \<open>os.makedirs(d, exist_ok=True)\<close>: an existing directory is no error; a file at
  \<open>d\<close> raises \<open>FileExistsError\<close> and a file at an ancestor \<open>NotADirectoryError\<close>;
  otherwise \<open>d\<close> and its ancestors are directories afterwards.
\<close>

definition makedirs :: "(string \<Rightarrow> 'b option) \<Rightarrow> string set \<Rightarrow> string \<Rightarrow> py_exc + string set" where
  "makedirs fs ds d =
     (if \<not> is_dir ds d \<and> fs d \<noteq> None then Inl (RaisedBy ''FileExistsError'')
      else if \<not> is_dir ds d \<and> list_ex (\<lambda>q. fs q \<noteq> None) (ancestors d) then Inl (RaisedBy ''NotADirectoryError'')
      else Inr (insert d ds))"

text \<open>
  \<open>if dirpath := os.path.dirname(path): os.makedirs(dirpath, exist_ok=True)\<close>, the
  idiom both \<^verbatim>\<open>run.py\<close> and \<^verbatim>\<open>tools.py\<close> use before writing a file.
\<close>

definition ensure_parent :: "(string \<Rightarrow> 'b option) \<Rightarrow> string set \<Rightarrow> string \<Rightarrow> py_exc + string set" where
  "ensure_parent fs ds path = (if dirname path \<noteq> [] then makedirs fs ds (dirname path) else Inr ds)"

text \<open>
  The errors of \<open>open(path, "a")\<close> or \<open>open(path, "wb")\<close> once the parent exists:
  the empty path raises \<open>FileNotFoundError\<close>, and a directory, or a path ending in a
  slash, \<open>IsADirectoryError\<close>.
\<close>

definition open_write_error :: "string set \<Rightarrow> string \<Rightarrow> py_exc option" where
  "open_write_error ds path =
     (if path = [] then Some (FileNotFoundError path)
      else if last path = CHR ''/'' \<or> is_dir ds path then Some (RaisedBy ''IsADirectoryError'')
      else None)"

text \<open>
  \<open>open(path, "rb")\<close>: a directory raises \<open>IsADirectoryError\<close>, a path that names no
  file \<open>FileNotFoundError\<close>.
\<close>

definition open_read :: "(string \<Rightarrow> 'b option) \<Rightarrow> string set \<Rightarrow> string \<Rightarrow> py_exc + 'b" where
  "open_read fs ds path =
     (if path \<noteq> [] \<and> is_dir ds path then Inl (RaisedBy ''IsADirectoryError'')
      else case fs path of Some b \<Rightarrow> Inr b | None \<Rightarrow> Inl (FileNotFoundError path))"

section \<open>Tensors\<close>

text \<open>
  A tensor is its shape and its values in row-major order. Every TensorFlow
  elementwise operation the sources call maps over the values and keeps the shape.
\<close>

record tensor =
  shape :: "nat list"
  vals :: "real list"

definition num_elements :: "nat list \<Rightarrow> nat" where
  "num_elements s = prod_list s"

definition wf_tensor :: "tensor \<Rightarrow> bool" where
  "wf_tensor t \<longleftrightarrow> length (vals t) = num_elements (shape t)"

definition tmap :: "(real \<Rightarrow> real) \<Rightarrow> tensor \<Rightarrow> tensor" where
  "tmap f t = t\<lparr>vals := map f (vals t)\<rparr>"

definition tmap2 :: "(real \<Rightarrow> real \<Rightarrow> real) \<Rightarrow> tensor \<Rightarrow> tensor \<Rightarrow> tensor" where
  "tmap2 f a b = a\<lparr>vals := map2 f (vals a) (vals b)\<rparr>"

text \<open>\<open>tf.reduce_sum\<close>.\<close>

definition reduce_sum :: "tensor \<Rightarrow> real" where
  "reduce_sum t = sum_list (vals t)"

definition same_shape :: "tensor \<Rightarrow> tensor \<Rightarrow> bool" where
  "same_shape a b \<longleftrightarrow> shape a = shape b"

definition all_vals :: "(real \<Rightarrow> bool) \<Rightarrow> tensor \<Rightarrow> bool" where
  "all_vals P t \<longleftrightarrow> list_all P (vals t)"

section \<open>Lemmas\<close>

lemma startswith_prefix [simp]: "startswith k s = prefix k s"
  by (induction k s rule: startswith.induct) auto

lemma str_in_sublist: "str_in k s = sublist k s"
  by (induction s) (auto simp: sublist_Cons_right)

lemma str_in_self [simp]: "str_in k (p @ k @ q)"
  by (simp add: str_in_sublist)

lemma shape_tmap [simp, tensor_simps]: "shape (tmap f t) = shape t"
  by (simp add: tmap_def)

lemma vals_tmap [simp, tensor_simps]: "vals (tmap f t) = map f (vals t)"
  by (simp add: tmap_def)

lemma shape_tmap2 [simp, tensor_simps]: "shape (tmap2 f a b) = shape a"
  by (simp add: tmap2_def)

lemma vals_tmap2 [simp, tensor_simps]: "vals (tmap2 f a b) = map2 f (vals a) (vals b)"
  by (simp add: tmap2_def)

lemma wf_tmap [intro, tensor_simps]: "wf_tensor t \<Longrightarrow> wf_tensor (tmap f t)"
  by (simp add: wf_tensor_def)

lemma wf_tmap2 [intro, tensor_simps]:
  "wf_tensor a \<Longrightarrow> same_shape a b \<Longrightarrow> wf_tensor b \<Longrightarrow> wf_tensor (tmap2 f a b)"
  by (simp add: wf_tensor_def same_shape_def)

lemma all_vals_tmap [simp]: "all_vals P (tmap f t) = list_all (\<lambda>x. P (f x)) (vals t)"
  by (simp add: all_vals_def list_all_iff)

lemma all_valsI: "(\<And>x. x \<in> set (vals t) \<Longrightarrow> P x) \<Longrightarrow> all_vals P t"
  by (simp add: all_vals_def list_all_iff)

lemma map2_times_map:
  "length xs = length ys \<Longrightarrow> map2 (*) (map2 f xs ys) (map g ys) = map2 (\<lambda>x y. f x y * g y) xs ys"
  by (induction xs ys rule: list_induct2) auto

lemma list_all_map2I:
  "list_all A xs \<Longrightarrow> list_all B ys \<Longrightarrow> (\<And>a b. A a \<Longrightarrow> B b \<Longrightarrow> P (h a b)) \<Longrightarrow>
   list_all P (map2 h xs ys)"
proof (induction xs arbitrary: ys)
  case (Cons a xs)
  then show ?case by (cases ys) auto
qed simp

lemma is_dir_insert [simp]: "is_dir (insert d ds) p \<longleftrightarrow> d = p \<or> p \<in> set (ancestors d) \<or> is_dir ds p"
  by (auto simp: is_dir_def)

lemma is_dir_Un [simp]: "is_dir (A \<union> B) p \<longleftrightarrow> is_dir A p \<or> is_dir B p"
  by (auto simp: is_dir_def)

lemma ensure_parent_Inr: "ensure_parent fs ds path = Inr ds' \<Longrightarrow> ds' = ds \<union> set [dirname path. dirname path \<noteq> []]"
  by (auto simp: ensure_parent_def makedirs_def split: if_splits)

lemma tensor_eqI: "shape a = shape b \<Longrightarrow> vals a = vals b \<Longrightarrow> a = (b :: tensor)"
  by simp

end
