(* ===== verification/Tools.thy ===== *)
theory Tools
  imports Prelude
begin

text \<open>
  The model-manipulation helpers of \<^verbatim>\<open>src/modules/tfhi/tools.py\<close>: precision and
  loss-function selection (errors as values), kernel extraction, copying weights
  between models, resetting weights to a checkpoint with a skip keyword, clipping
  and flattening. A Keras model is seen through the lists the code reads:
  \<open>model.layers\<close> (a \<open>layer\<close> list) and \<open>model.weights\<close> (a \<open>weight\<close> list).
  TensorFlow's own operations (\<open>Variable.assign\<close>, \<open>load_weights\<close>,
  \<open>clip_by_value\<close>) are modelled by their documented behaviour.
\<close>

section \<open>Library operations the helpers call\<close>

record weight =
  wname :: string
  wval :: tensor

datatype layer_class = Dense | Conv2D | BatchNormalization | Dropout | OtherLayer

record layer =
  lclasses :: "layer_class list"  \<comment> \<open>the classes \<open>isinstance\<close> accepts\<close>
  lkernel :: "tensor option"     \<comment> \<open>\<open>None\<close>: no attribute \<open>kernel\<close>\<close>
  lbias :: "tensor option"
  lbeta :: "tensor option"
  lgamma :: "tensor option"

text \<open>\<open>Variable.assign\<close>: a value of another shape raises \<open>ValueError\<close>.\<close>

definition assign :: "tensor \<Rightarrow> tensor \<Rightarrow> py_exc + tensor" where
  "assign v x = (if shape v = shape x then Inr x else Inl ValueError)"

text \<open>
  \<open>Model.load_weights(path)\<close>: the checkpoint store maps a path to the tensors it
  holds; a missing file or a checkpoint of another architecture raises.
\<close>

type_synonym ckp_store = "string \<Rightarrow> tensor list option"

definition load_weights :: "ckp_store \<Rightarrow> string \<Rightarrow> weight list \<Rightarrow> py_exc + weight list" where
  "load_weights store p ws =
     (case store p of
        None \<Rightarrow> Inl (FileNotFoundError p)
      | Some vs \<Rightarrow>
          if list_all2 (\<lambda>w v. shape (wval w) = shape v) ws vs
          then Inr (map2 (\<lambda>w v. w\<lparr>wval := v\<rparr>) ws vs)
          else Inl ValueError)"

text \<open>\<open>tf.clip_by_value(t, lo, hi)\<close> computes \<open>maximum(minimum(t, hi), lo)\<close>.\<close>

definition clip_value :: "real \<Rightarrow> real \<Rightarrow> real \<Rightarrow> real" where
  "clip_value lo hi x = max (min x hi) lo"

definition clip_by_value :: "tensor \<Rightarrow> real \<Rightarrow> real \<Rightarrow> tensor" where
  "clip_by_value t lo hi = tmap (clip_value lo hi) t"

section \<open>Precision and loss aliases\<close>

datatype policy = Mixed_float16 | Float32 | Float64

definition set_precision :: "int \<Rightarrow> py_exc + policy" where
  "set_precision precision =
     (if precision = 16 then Inr Mixed_float16
      else if precision = 32 then Inr Float32
      else if precision = 64 then Inr Float64
      else Inl (NameError precision))"

datatype loss_fn = SparseCategoricalCrossentropy_from_logits

definition get_loss_fn_from_alias :: "string \<Rightarrow> py_exc + loss_fn" where
  "get_loss_fn_from_alias alias =
     (if alias = ''crossentropy'' then Inr SparseCategoricalCrossentropy_from_logits
      else Inl (NotImplementedError (''Unknown alias '' @ alias)))"

section \<open>Kernels and weight copies\<close>

fun get_kernels :: "layer list \<Rightarrow> tensor list" where
  "get_kernels [] = []"
| "get_kernels (l # ls) =
     (case lkernel l of Some k \<Rightarrow> k # get_kernels ls | None \<Rightarrow> get_kernels ls)"

text \<open>
  \<open>set_all_weights_from_model(model, source_model)\<close>: walk both weight lists in
  step (\<open>zip\<close> stops at the shorter), copy where the shapes agree, warn (by name)
  where they do not. The result is the updated weights and the warnings printed.
\<close>

fun set_all_weights_from_model ::
  "weight list \<Rightarrow> weight list \<Rightarrow> weight list \<times> string list" where
  "set_all_weights_from_model [] src = ([], [])"
| "set_all_weights_from_model ws [] = (ws, [])"
| "set_all_weights_from_model (w1 # ws) (w2 # src) =
     (let (rest, warns) = set_all_weights_from_model ws src in
      if shape (wval w1) = shape (wval w2)
      then (w1\<lparr>wval := wval w2\<rparr> # rest, warns)
      else (w1 # rest, wname w1 # warns))"

text \<open>
  \<open>clone_model(model)\<close>: \<open>tf.keras.models.clone_model\<close> builds the same
  architecture with fresh values (the argument \<open>fresh\<close>), then the weights are copied.
\<close>

definition clone_model :: "weight list \<Rightarrow> weight list \<Rightarrow> weight list" where
  "clone_model fresh ws = fst (set_all_weights_from_model fresh ws)"

definition same_arch :: "weight list \<Rightarrow> weight list \<Rightarrow> bool" where
  "same_arch ws vs \<longleftrightarrow> list_all2 (\<lambda>a b. shape (wval a) = shape (wval b)) ws vs"

section \<open>Reset to a checkpoint\<close>

text \<open>The test \<open>skip_keyword and skip_keyword in w1.name\<close>.\<close>

definition kw_match :: "string option \<Rightarrow> string \<Rightarrow> bool" where
  "kw_match kw n = (case kw of None \<Rightarrow> False | Some k \<Rightarrow> k \<noteq> [] \<and> str_in k n)"

text \<open>The loop over \<open>zip(model.weights, temp.weights)\<close>, counting the skipped ones.\<close>

fun reset_loop :: "string option \<Rightarrow> weight list \<Rightarrow> weight list \<Rightarrow> py_exc + weight list \<times> nat" where
  "reset_loop kw [] ts = Inr ([], 0)"
| "reset_loop kw ws [] = Inr (ws, 0)"
| "reset_loop kw (w1 # ws) (w2 # ts) =
     (if kw_match kw (wname w1)
      then (case reset_loop kw ws ts of
              Inl e \<Rightarrow> Inl e
            | Inr (rest, n) \<Rightarrow> Inr (w1 # rest, Suc n))
      else (case assign (wval w1) (wval w2) of
              Inl e \<Rightarrow> Inl e
            | Inr v \<Rightarrow> (case reset_loop kw ws ts of
                          Inl e \<Rightarrow> Inl e
                        | Inr (rest, n) \<Rightarrow> Inr (w1\<lparr>wval := v\<rparr> # rest, n))))"

text \<open>
  \<open>reset_weights_to_checkpoint(model, ckp, skip_keyword)\<close>: \<open>temp\<close> is
  \<open>tf.keras.models.clone_model(model)\<close>, the same architecture with fresh values
  (\<open>fresh\<close>), loaded from the checkpoint when \<open>ckp\<close> is truthy; the result
  is the reset weights and the number of skipped weights (the return value).
\<close>

definition reset_weights_to_checkpoint ::
  "ckp_store \<Rightarrow> weight list \<Rightarrow> weight list \<Rightarrow> string option \<Rightarrow> string option
   \<Rightarrow> py_exc + weight list \<times> nat" where
  "reset_weights_to_checkpoint store ws fresh ckp skip_keyword =
     (let temp = (case ckp of
                    Some p \<Rightarrow> if p \<noteq> [] then load_weights store p fresh else Inr fresh
                  | None \<Rightarrow> Inr fresh)
      in case temp of
           Inl e \<Rightarrow> Inl e
         | Inr t \<Rightarrow> reset_loop skip_keyword ws t)"

section \<open>Clipping and flattening\<close>

text \<open>
  \<open>clip_many(values, clip_at, clip_from=None, inplace=False)\<close>: the bounds are
  \<open>[clip_from, clip_at]\<close> with \<open>clip_from\<close> defaulting to \<open>-clip_at\<close>. In place,
  every variable is assigned its clipped value and the call returns \<open>None\<close>;
  otherwise the variables are untouched and the clipped list is returned. The
  result is the variables' new values and the return value.
\<close>

definition clip_many ::
  "tensor list \<Rightarrow> real \<Rightarrow> real option \<Rightarrow> bool \<Rightarrow> tensor list \<times> tensor list option" where
  "clip_many values clip_at clip_from inplace =
     (let lo = (case clip_from of None \<Rightarrow> - clip_at | Some c \<Rightarrow> c) in
      if inplace then (map (\<lambda>v. clip_by_value v lo clip_at) values, None)
      else (values, Some (map (\<lambda>v. clip_by_value v lo clip_at) values)))"

text \<open>
  \<open>concatenate_flattened(arrays)\<close>: \<open>np.concatenate\<close> of the flattened arrays;
  NumPy raises \<open>ValueError\<close> when there is nothing to concatenate.
\<close>

definition concatenate_flattened :: "tensor list \<Rightarrow> py_exc + real list" where
  "concatenate_flattened arrays =
     (if arrays = [] then Inl ValueError else Inr (concat (map vals arrays)))"

section \<open>What a reset promises\<close>

text \<open>
  The loop of \<open>reset_weights_to_checkpoint\<close> succeeds when every weight it does not
  skip has the shape of its partner, and then it is the closed form \<open>reset_spec\<close>:
  skipped weights are kept, the others take their partner's value, weights beyond the
  partner list are untouched, and the count is the number of skipped weights.
\<close>

definition reset_ok :: "string option \<Rightarrow> weight list \<Rightarrow> weight list \<Rightarrow> bool" where
  "reset_ok kw ws ts \<longleftrightarrow>
     list_all (\<lambda>(w, t). kw_match kw (wname w) \<or> shape (wval w) = shape (wval t)) (zip ws ts)"

definition reset_spec :: "string option \<Rightarrow> weight list \<Rightarrow> weight list \<Rightarrow> weight list \<times> nat" where
  "reset_spec kw ws ts =
     (map2 (\<lambda>w t. if kw_match kw (wname w) then w else w\<lparr>wval := wval t\<rparr>) ws ts
        @ drop (length ts) ws,
      length (filter (\<lambda>w. kw_match kw (wname w)) (take (length ts) ws)))"

section \<open>Lemmas\<close>

lemma kw_match_empty [simp]: "\<not> kw_match (Some []) n" and kw_match_None [simp]: "\<not> kw_match None n"
  by (simp_all add: kw_match_def)

lemma reset_loop_eq:
  "reset_loop kw ws ts = (if reset_ok kw ws ts then Inr (reset_spec kw ws ts) else Inl ValueError)"
  by (induction kw ws ts rule: reset_loop.induct)
     (auto simp: reset_ok_def reset_spec_def assign_def split: sum.splits)

lemma set_all_weights_from_model_eq:
  "set_all_weights_from_model ws src =
     (map2 (\<lambda>w1 w2. if shape (wval w1) = shape (wval w2) then w1\<lparr>wval := wval w2\<rparr> else w1) ws src
        @ drop (length src) ws,
      map (wname \<circ> fst) (filter (\<lambda>(w1, w2). shape (wval w1) \<noteq> shape (wval w2)) (zip ws src)))"
  by (induction ws src rule: set_all_weights_from_model.induct) auto

lemma reset_spec_loaded:
  "list_all2 (\<lambda>a b. shape (wval a) = shape (wval b)) fresh ws \<Longrightarrow>
   list_all2 (\<lambda>w v. shape (wval w) = shape v) fresh vs \<Longrightarrow>
   reset_ok kw ws (map2 (\<lambda>w v. w\<lparr>wval := v\<rparr>) fresh vs) \<and>
   reset_spec kw ws (map2 (\<lambda>w v. w\<lparr>wval := v\<rparr>) fresh vs) =
     (map2 (\<lambda>w v. if kw_match kw (wname w) then w else w\<lparr>wval := v\<rparr>) ws vs,
      length (filter (\<lambda>w. kw_match kw (wname w)) ws))"
proof (induction fresh arbitrary: ws vs)
  case Nil
  then show ?case by (simp add: reset_ok_def reset_spec_def)
next
  case (Cons f fresh)
  then obtain w ws' v vs' where "ws = w # ws'" "vs = v # vs'"
    by (auto simp: list_all2_Cons1)
  with Cons show ?case by (auto simp: reset_ok_def reset_spec_def)
qed

lemma reset_spec_fresh:
  "list_all2 (\<lambda>a b. shape (wval a) = shape (wval b)) fresh ws \<Longrightarrow>
   reset_ok kw ws fresh \<and>
   reset_spec kw ws fresh =
     (map2 (\<lambda>w t. if kw_match kw (wname w) then w else w\<lparr>wval := wval t\<rparr>) ws fresh,
      length (filter (\<lambda>w. kw_match kw (wname w)) ws))"
proof (induction fresh arbitrary: ws)
  case Nil
  then show ?case by (simp add: reset_ok_def reset_spec_def)
next
  case (Cons f fresh)
  then obtain w ws' where "ws = w # ws'"
    by (auto simp: list_all2_Cons1)
  with Cons show ?case by (auto simp: reset_ok_def reset_spec_def)
qed

text \<open>
  C5: resetting a model to a checkpoint of its
  own architecture succeeds; every weight whose name contains the skip keyword keeps
  its value, every other weight takes the checkpoint's value at its position, and the
  call returns the number of skipped weights.
\<close>

theorem reset_weights_to_checkpoint_loaded:
  assumes "store p = Some vs" and "p \<noteq> []"
    and "same_arch fresh ws"
    and "list_all2 (\<lambda>w v. shape (wval w) = shape v) fresh vs"
  shows "reset_weights_to_checkpoint store ws fresh (Some p) kw =
     Inr (map2 (\<lambda>w v. if kw_match kw (wname w) then w else w\<lparr>wval := v\<rparr>) ws vs,
          length (filter (\<lambda>w. kw_match kw (wname w)) ws))"
  using assms reset_spec_loaded [of fresh ws vs kw]
  by (simp add: reset_weights_to_checkpoint_def load_weights_def reset_loop_eq same_arch_def)

theorem reset_weights_to_checkpoint_loaded_witness:
  "let store = Map.empty(''c.h5'' \<mapsto> [\<lparr>shape = [2], vals = [1, 2]\<rparr>, \<lparr>shape = [1], vals = [9]\<rparr>]);
       ws = [\<lparr>wname = ''k'', wval = \<lparr>shape = [2], vals = [5, 6]\<rparr>\<rparr>,
             \<lparr>wname = ''k_mask'', wval = \<lparr>shape = [1], vals = [0]\<rparr>\<rparr>];
       fresh = [\<lparr>wname = ''k1'', wval = \<lparr>shape = [2], vals = [0, 0]\<rparr>\<rparr>,
                \<lparr>wname = ''k1_mask'', wval = \<lparr>shape = [1], vals = [1]\<rparr>\<rparr>]
   in store ''c.h5'' = Some [\<lparr>shape = [2], vals = [1, 2]\<rparr>, \<lparr>shape = [1], vals = [9]\<rparr>] \<and>
      same_arch fresh ws \<and>
      list_all2 (\<lambda>w v. shape (wval w) = shape v) fresh [\<lparr>shape = [2], vals = [1, 2]\<rparr>, \<lparr>shape = [1], vals = [9]\<rparr>] \<and>
      reset_weights_to_checkpoint store ws fresh (Some ''c.h5'') (Some ''mask'') =
        Inr ([\<lparr>wname = ''k'', wval = \<lparr>shape = [2], vals = [1, 2]\<rparr>\<rparr>,
              \<lparr>wname = ''k_mask'', wval = \<lparr>shape = [1], vals = [0]\<rparr>\<rparr>], 1)"
  unfolding Let_def
  using reset_weights_to_checkpoint_loaded [of "Map.empty(''c.h5'' \<mapsto> [\<lparr>shape = [2], vals = [1, 2]\<rparr>, \<lparr>shape = [1], vals = [9]\<rparr>])"
      "''c.h5''" "[\<lparr>shape = [2], vals = [1, 2]\<rparr>, \<lparr>shape = [1], vals = [9]\<rparr>]"
      "[\<lparr>wname = ''k1'', wval = \<lparr>shape = [2], vals = [0, 0]\<rparr>\<rparr>, \<lparr>wname = ''k1_mask'', wval = \<lparr>shape = [1], vals = [1]\<rparr>\<rparr>]"
      "[\<lparr>wname = ''k'', wval = \<lparr>shape = [2], vals = [5, 6]\<rparr>\<rparr>, \<lparr>wname = ''k_mask'', wval = \<lparr>shape = [1], vals = [0]\<rparr>\<rparr>]"
      "Some ''mask''"]
  by (simp add: same_arch_def kw_match_def)

text \<open>
  C18: the error paths of a reset. A checkpoint
  path that names no file raises \<open>FileNotFoundError\<close> and a checkpoint of another
  architecture raises \<open>ValueError\<close>, both before any weight is assigned; with no
  checkpoint (\<open>None\<close> or the empty path) the model is reset to the clone's fresh values.
\<close>

theorem reset_weights_to_checkpoint_errors:
  "(store p = None \<longrightarrow> p \<noteq> [] \<longrightarrow>
      reset_weights_to_checkpoint store ws fresh (Some p) kw = Inl (FileNotFoundError p)) \<and>
   (store p = Some vs \<longrightarrow> p \<noteq> [] \<longrightarrow> \<not> list_all2 (\<lambda>w v. shape (wval w) = shape v) fresh vs \<longrightarrow>
      reset_weights_to_checkpoint store ws fresh (Some p) kw = Inl ValueError) \<and>
   (same_arch fresh ws \<longrightarrow> ckp \<in> {None, Some []} \<longrightarrow>
      reset_weights_to_checkpoint store ws fresh ckp kw =
        Inr (map2 (\<lambda>w t. if kw_match kw (wname w) then w else w\<lparr>wval := wval t\<rparr>) ws fresh,
             length (filter (\<lambda>w. kw_match kw (wname w)) ws)))"
  using reset_spec_fresh [of fresh ws kw]
  by (auto simp: reset_weights_to_checkpoint_def load_weights_def reset_loop_eq same_arch_def)

theorem reset_weights_to_checkpoint_errors_witness:
  "Map.empty ''c.h5'' = (None :: tensor list option) \<and>
   reset_weights_to_checkpoint Map.empty [] [] (Some ''c.h5'') (Some ''mask'') = Inl (FileNotFoundError ''c.h5'') \<and>
   reset_weights_to_checkpoint (Map.empty(''c.h5'' \<mapsto> [])) [\<lparr>wname = ''k'', wval = \<lparr>shape = [1], vals = [1]\<rparr>\<rparr>]
      [\<lparr>wname = ''k'', wval = \<lparr>shape = [1], vals = [0]\<rparr>\<rparr>] (Some ''c.h5'') None = Inl ValueError \<and>
   same_arch [\<lparr>wname = ''k'', wval = \<lparr>shape = [1], vals = [0]\<rparr>\<rparr>] [\<lparr>wname = ''k'', wval = \<lparr>shape = [1], vals = [1]\<rparr>\<rparr>] \<and>
   reset_weights_to_checkpoint Map.empty [\<lparr>wname = ''k'', wval = \<lparr>shape = [1], vals = [1]\<rparr>\<rparr>]
      [\<lparr>wname = ''k'', wval = \<lparr>shape = [1], vals = [0]\<rparr>\<rparr>] None None =
      Inr ([\<lparr>wname = ''k'', wval = \<lparr>shape = [1], vals = [0]\<rparr>\<rparr>], 0)"
proof -
  note e = reset_weights_to_checkpoint_errors
  have a: "reset_weights_to_checkpoint Map.empty [] [] (Some ''c.h5'') (Some ''mask'') = Inl (FileNotFoundError ''c.h5'')"
    using e [of Map.empty "''c.h5''" "[]" "[]" "Some ''mask''"] by simp
  have b: "reset_weights_to_checkpoint (Map.empty(''c.h5'' \<mapsto> [])) [\<lparr>wname = ''k'', wval = \<lparr>shape = [1], vals = [1]\<rparr>\<rparr>]
      [\<lparr>wname = ''k'', wval = \<lparr>shape = [1], vals = [0]\<rparr>\<rparr>] (Some ''c.h5'') None = Inl ValueError"
    using e [of "Map.empty(''c.h5'' \<mapsto> [])" "''c.h5''" "[\<lparr>wname = ''k'', wval = \<lparr>shape = [1], vals = [1]\<rparr>\<rparr>]"
        "[\<lparr>wname = ''k'', wval = \<lparr>shape = [1], vals = [0]\<rparr>\<rparr>]" None "[]"] by simp
  have s: "same_arch [\<lparr>wname = ''k'', wval = \<lparr>shape = [1], vals = [0]\<rparr>\<rparr>] [\<lparr>wname = ''k'', wval = \<lparr>shape = [1], vals = [1]\<rparr>\<rparr>]"
    by (simp add: same_arch_def)
  have c: "reset_weights_to_checkpoint Map.empty [\<lparr>wname = ''k'', wval = \<lparr>shape = [1], vals = [1]\<rparr>\<rparr>]
      [\<lparr>wname = ''k'', wval = \<lparr>shape = [1], vals = [0]\<rparr>\<rparr>] None None =
      Inr ([\<lparr>wname = ''k'', wval = \<lparr>shape = [1], vals = [0]\<rparr>\<rparr>], 0)"
    using e [of Map.empty "''x''" "[\<lparr>wname = ''k'', wval = \<lparr>shape = [1], vals = [1]\<rparr>\<rparr>]"
        "[\<lparr>wname = ''k'', wval = \<lparr>shape = [1], vals = [0]\<rparr>\<rparr>]" None "[]" None] s by simp
  from a b s c show ?thesis by simp
qed

text \<open>
  C36: copying weights between models never changes
  a weight's name or shape: a pair of different shapes is skipped with a warning
  naming the weight, and weights past the end of the source model are kept.
\<close>

theorem set_all_weights_from_model_shapes:
  assumes "set_all_weights_from_model ws src = (ws', warns)"
  shows "map wname ws' = map wname ws \<and> map (shape \<circ> wval) ws' = map (shape \<circ> wval) ws \<and>
         warns = map (wname \<circ> fst) (filter (\<lambda>(w1, w2). shape (wval w1) \<noteq> shape (wval w2)) (zip ws src))"
proof -
  have "map f (map2 (\<lambda>w1 w2. if shape (wval w1) = shape (wval w2) then w1\<lparr>wval := wval w2\<rparr> else w1)
                ws src @ drop (length src) ws) = map f ws"
    if "\<And>w v. shape v = shape (wval w) \<Longrightarrow> f (w\<lparr>wval := v\<rparr>) = f w" for f :: "weight \<Rightarrow> 'b"
    using that
  proof (induction ws src rule: list_induct2')
    case (4 x xs y ys)
    then show ?case by auto
  qed simp_all
  from this [of wname] this [of "shape \<circ> wval"] assms show ?thesis
    by (auto simp: set_all_weights_from_model_eq)
qed

theorem set_all_weights_from_model_shapes_witness:
  "set_all_weights_from_model
     [\<lparr>wname = ''a'', wval = \<lparr>shape = [1], vals = [1]\<rparr>\<rparr>, \<lparr>wname = ''b'', wval = \<lparr>shape = [2], vals = [1, 2]\<rparr>\<rparr>]
     [\<lparr>wname = ''x'', wval = \<lparr>shape = [1], vals = [7]\<rparr>\<rparr>, \<lparr>wname = ''y'', wval = \<lparr>shape = [3], vals = [0, 0, 0]\<rparr>\<rparr>] =
     ([\<lparr>wname = ''a'', wval = \<lparr>shape = [1], vals = [7]\<rparr>\<rparr>, \<lparr>wname = ''b'', wval = \<lparr>shape = [2], vals = [1, 2]\<rparr>\<rparr>], [''b'']) \<and>
   map wname [\<lparr>wname = ''a'', wval = \<lparr>shape = [1], vals = [7]\<rparr>\<rparr>, \<lparr>wname = ''b'', wval = \<lparr>shape = [2], vals = [1::real, 2]\<rparr>\<rparr>] = [''a'', ''b'']"
proof -
  have eq: "set_all_weights_from_model
     [\<lparr>wname = ''a'', wval = \<lparr>shape = [1], vals = [1]\<rparr>\<rparr>, \<lparr>wname = ''b'', wval = \<lparr>shape = [2], vals = [1, 2]\<rparr>\<rparr>]
     [\<lparr>wname = ''x'', wval = \<lparr>shape = [1], vals = [7]\<rparr>\<rparr>, \<lparr>wname = ''y'', wval = \<lparr>shape = [3], vals = [0, 0, 0]\<rparr>\<rparr>] =
     ([\<lparr>wname = ''a'', wval = \<lparr>shape = [1], vals = [7]\<rparr>\<rparr>, \<lparr>wname = ''b'', wval = \<lparr>shape = [2], vals = [1, 2]\<rparr>\<rparr>], [''b''])"
    by simp
  from set_all_weights_from_model_shapes [OF eq] eq show ?thesis by simp
qed

text \<open>
  \<open>clone_model\<close> of a model returns a model with the
  clone's names and exactly the original's values, when the clone has the
  original's architecture.
\<close>

theorem clone_model_copies:
  assumes "same_arch fresh ws"
  shows "map wval (clone_model fresh ws) = map wval ws \<and>
         map wname (clone_model fresh ws) = map wname fresh"
  using assms unfolding same_arch_def clone_model_def
proof (induction fresh ws rule: list_all2_induct)
  case (Cons x xs y ys)
  then show ?case by (auto split: prod.splits)
qed simp

theorem clone_model_copies_witness:
  "same_arch [\<lparr>wname = ''k_1'', wval = \<lparr>shape = [1], vals = [0]\<rparr>\<rparr>] [\<lparr>wname = ''k'', wval = \<lparr>shape = [1], vals = [3]\<rparr>\<rparr>] \<and>
   clone_model [\<lparr>wname = ''k_1'', wval = \<lparr>shape = [1], vals = [0]\<rparr>\<rparr>] [\<lparr>wname = ''k'', wval = \<lparr>shape = [1], vals = [3]\<rparr>\<rparr>] =
     [\<lparr>wname = ''k_1'', wval = \<lparr>shape = [1], vals = [3]\<rparr>\<rparr>]"
proof -
  have s: "same_arch [\<lparr>wname = ''k_1'', wval = \<lparr>shape = [1], vals = [0]\<rparr>\<rparr>] [\<lparr>wname = ''k'', wval = \<lparr>shape = [1], vals = [3]\<rparr>\<rparr>]"
    by (simp add: same_arch_def)
  from clone_model_copies [OF s] have "map wval (clone_model [\<lparr>wname = ''k_1'', wval = \<lparr>shape = [1], vals = [0]\<rparr>\<rparr>]
      [\<lparr>wname = ''k'', wval = \<lparr>shape = [1], vals = [3]\<rparr>\<rparr>]) = [\<lparr>shape = [1], vals = [3]\<rparr>]" by simp
  with s show ?thesis by (simp add: clone_model_def)
qed

lemma clip_value_bounds:
  "lo \<le> hi \<Longrightarrow> lo \<le> clip_value lo hi x \<and> clip_value lo hi x \<le> hi"
  by (simp add: clip_value_def)

lemma clip_value_id: "lo \<le> x \<Longrightarrow> x \<le> hi \<Longrightarrow> clip_value lo hi x = x"
  by (simp add: clip_value_def)

lemma shape_clip_by_value [simp, tensor_simps]: "shape (clip_by_value t lo hi) = shape t"
  by (simp add: clip_by_value_def)

lemma clip_by_value_bounds:
  "lo \<le> hi \<Longrightarrow> all_vals (\<lambda>x. lo \<le> x \<and> x \<le> hi) (clip_by_value t lo hi)"
  by (simp add: clip_by_value_def list_all_iff clip_value_bounds)


end
