(* ===== verification/Runner.thy ===== *)
theory Runner
  imports Prelude
begin

text \<open>
  The experiment-queue runner of \<^verbatim>\<open>src/run.py\<close>. An experiment is the ordered
  dictionary the YAML parser expands (\<open>tools.utils.Experiment\<close>, not under src/, is
  modelled from the spec as an association list with Python's insertion order).
  What a dispatched module does is an oracle: for each queue index it returns the
  experiment it mutated and the elapsed time, or raises. The state is what outlives
  one experiment: the YAML log files (each a list of documents, appended to), the
  directories present, the modules run, the console messages, the Slack batch and
  whether the queue and the Slack threads were closed.
\<close>

section \<open>Experiments\<close>

datatype yval = YStr string | YInt int | YReal real | YBool bool | YNone | YList "yval list"

type_synonym exp_dict = "(string \<times> yval) list"

text \<open>Python truthiness of a YAML value; a missing attribute reads as \<open>None\<close>.\<close>

fun py_truthy :: "yval \<Rightarrow> bool" where
  "py_truthy (YStr s) = (s \<noteq> [])"
| "py_truthy (YInt i) = (i \<noteq> 0)"
| "py_truthy (YReal r) = (r \<noteq> 0)"
| "py_truthy (YBool b) = b"
| "py_truthy YNone = False"
| "py_truthy (YList xs) = (xs \<noteq> [])"

definition exp_attr :: "exp_dict \<Rightarrow> string \<Rightarrow> yval" where
  "exp_attr e k = (case map_of e k of Some v \<Rightarrow> v | None \<Rightarrow> YNone)"

text \<open>\<open>exp.K = v\<close>: an existing key keeps its position, a new key goes last.\<close>

fun dict_set :: "exp_dict \<Rightarrow> string \<Rightarrow> yval \<Rightarrow> exp_dict" where
  "dict_set [] k v = [(k, v)]"
| "dict_set ((k', v') # d) k v = (if k' = k then (k, v) # d else (k', v') # dict_set d k v)"

section \<open>Files\<close>

type_synonym log_store = "string \<Rightarrow> exp_dict list option"

text \<open>\<open>open(path, "a")\<close> and \<open>yaml.safe_dump(d, f, explicit_start=True)\<close>:
  one more document at the end of the file, the file created if missing.\<close>

definition append_doc :: "log_store \<Rightarrow> string \<Rightarrow> exp_dict \<Rightarrow> log_store" where
  "append_doc logs p d =
     logs(p \<mapsto> (case logs p of None \<Rightarrow> [d] | Some ds \<Rightarrow> ds @ [d]))"

section \<open>The runner's state\<close>

record run_args =
  dry :: bool
  pick :: "int list option"  \<comment> \<open>\<open>None\<close>: no \<open>--pick\<close>; \<open>Some []\<close>: \<open>--pick\<close> without values\<close>

datatype outcome = Returned exp_dict real | Raises py_exc

datatype console_msg =
    Skip_not_picked nat | Skip_name nat | New_experiment nat
  | Saved string | Skip_interrupted nat | Removing_queue

record run_state =
  logs :: log_store
  dirs :: "string set"
  executed :: "nat list"
  console :: "console_msg list"
  slack_pending :: "exp_dict list"
  slack_sent :: "exp_dict list"
  slack_closed :: bool
  queue_closed :: bool

datatype run_result = Finished run_state | Aborted py_exc run_state

section \<open>One entry of the queue\<close>

definition not_picked :: "run_args \<Rightarrow> nat \<Rightarrow> bool" where
  "not_picked args i = (case pick args of None \<Rightarrow> False | Some ps \<Rightarrow> ps \<noteq> [] \<and> int i \<notin> set ps)"

definition name_skipped :: "exp_dict \<Rightarrow> bool" where
  "name_skipped e \<longleftrightarrow> \<not> py_truthy (exp_attr e ''Name'') \<or> exp_attr e ''Name'' = YStr ''skip''"

text \<open>
  After \<open>module.main(exp)\<close> returns (lines 61-70): record the elapsed time, create
  the log's directory (\<open>os.makedirs\<close>, which raises for a file in the way), open the
  log for appending (which raises for the empty path and for a directory), append
  the experiment, and queue a Slack report. A \<open>YamlLog\<close> that is not a string
  makes \<open>os.path.dirname\<close> raise \<open>TypeError\<close>. An exception leaves with the state
  reached, the directories already made included.
\<close>

definition log_experiment ::
  "bool \<Rightarrow> exp_dict \<Rightarrow> real \<Rightarrow> run_state \<Rightarrow> (py_exc \<times> run_state) + run_state" where
  "log_experiment us ex dt st =
     (let ex' = dict_set ex ''TIME_ELAPSED'' (YReal dt) in
      case exp_attr ex' ''YamlLog'' of
        YStr path \<Rightarrow>
          (case ensure_parent (logs st) (dirs st) path of
             Inl e \<Rightarrow> Inl (e, st)
           | Inr ds \<Rightarrow>
               let st1 = st\<lparr>dirs := ds\<rparr> in
               (case open_write_error ds path of
                  Some e \<Rightarrow> Inl (e, st1)
                | None \<Rightarrow>
                    let st2 = st1\<lparr>logs := append_doc (logs st1) path ex',
                                  console := console st1 @ [Saved path]\<rparr>
                    in Inr (if us then st2\<lparr>slack_pending := slack_pending st2 @ [ex']\<rparr> else st2)))
      | _ \<Rightarrow> Inl (RaisedBy ''TypeError'', st))"

text \<open>
  The body of \<open>for exp_idx, ex in enumerate(experiment_queue)\<close>: the two skip
  tests, the dry run, then the module under \<open>try ... except KeyboardInterrupt\<close>.
  Any other exception leaves the loop: it is returned with the state reached.
\<close>

definition run_entry ::
  "run_args \<Rightarrow> bool \<Rightarrow> nat \<Rightarrow> exp_dict \<Rightarrow> outcome \<Rightarrow> run_state \<Rightarrow> (py_exc \<times> run_state) + run_state" where
  "run_entry args us i ex out st =
     (if not_picked args i then Inr (st\<lparr>console := console st @ [Skip_not_picked i]\<rparr>)
      else if name_skipped ex then Inr (st\<lparr>console := console st @ [Skip_name i]\<rparr>)
      else
        let st0 = st\<lparr>console := console st @ [New_experiment i]\<rparr> in
        if dry args then Inr st0
        else
          let st1 = st0\<lparr>executed := executed st0 @ [i]\<rparr> in
          (case out of
             Raises KeyboardInterrupt \<Rightarrow> Inr (st1\<lparr>console := console st1 @ [Skip_interrupted i]\<rparr>)
           | Raises e \<Rightarrow> Inl (e, st1)
           | Returned ex' dt \<Rightarrow> log_experiment us ex' dt st1))"

fun run_loop ::
  "run_args \<Rightarrow> bool \<Rightarrow> (nat \<Rightarrow> outcome) \<Rightarrow> nat \<Rightarrow> exp_dict list \<Rightarrow> run_state
   \<Rightarrow> (py_exc \<times> run_state) + run_state" where
  "run_loop args us out i [] st = Inr st"
| "run_loop args us out i (e # es) st =
     (case run_entry args us i e (out i) st of
        Inl r \<Rightarrow> Inl r
      | Inr st' \<Rightarrow> run_loop args us out (Suc i) es st')"

section \<open>The script\<close>

text \<open>\<open>use_slack = 'slack' in Global and Global.slack\<close>.\<close>

definition use_slack :: "exp_dict \<Rightarrow> bool" where
  "use_slack global \<longleftrightarrow> py_truthy (exp_attr global ''slack'')"

definition init_state :: "log_store \<Rightarrow> string set \<Rightarrow> run_state" where
  "init_state logs0 dirs0 =
     \<lparr>logs = logs0, dirs = dirs0, executed = [], console = [], slack_pending = [],
      slack_sent = [], slack_closed = False, queue_closed = False\<rparr>"

text \<open>
  The whole of \<open>run.py\<close> after parsing: the loop, then closing a YAML-backed queue,
  then flushing and closing Slack. An exception out of the loop ends the script.
  \<open>logs0\<close> and \<open>dirs0\<close> are the files and directories present when it starts.
\<close>

definition run_main ::
  "run_args \<Rightarrow> exp_dict \<Rightarrow> exp_dict list \<Rightarrow> bool \<Rightarrow> (nat \<Rightarrow> outcome) \<Rightarrow> log_store \<Rightarrow> string set
   \<Rightarrow> run_result" where
  "run_main args global queue yaml_queue out logs0 dirs0 =
     (let us = use_slack global in
      case run_loop args us out 0 queue (init_state logs0 dirs0) of
        Inl (e, st) \<Rightarrow> Aborted e st
      | Inr st \<Rightarrow>
          let st1 = (if yaml_queue
                     then st\<lparr>console := console st @ [Removing_queue], queue_closed := True\<rparr>
                     else st);
              st2 = (if us
                     then st1\<lparr>slack_sent := slack_sent st1 @ slack_pending st1,
                              slack_pending := [], slack_closed := True\<rparr>
                     else st1)
          in Finished st2)"

section \<open>What the runner promises\<close>

text \<open>
  An entry is \<open>selected\<close> when the module is run for it: it is picked (or nothing
  is picked), its \<open>Name\<close> is truthy and not \<open>skip\<close>, and the run is not dry.
  \<open>completed_docs\<close> lists, in queue order, the log path and the document of every
  selected entry whose module returned; \<open>extend_log\<close> is a log file with documents
  appended at its end, and \<open>logs_after\<close> and \<open>dirs_after\<close> the file system after
  such documents were logged. \<open>log_error\<close> is the exception, if any, of
  creating a log's directory and opening it on a given file system. An outcome
  \<open>entry_aborts\<close> the queue on a file system when it is an exception other than
  \<open>KeyboardInterrupt\<close>, or a returned experiment whose \<open>YamlLog\<close> is not a string
  or cannot be written there; \<open>aborts_at\<close> judges entry \<open>j\<close> on the file system
  the earlier entries leave.
\<close>

definition selected :: "run_args \<Rightarrow> nat \<Rightarrow> exp_dict \<Rightarrow> bool" where
  "selected args i e \<longleftrightarrow> \<not> not_picked args i \<and> \<not> name_skipped e \<and> \<not> dry args"

definition log_error :: "log_store \<Rightarrow> string set \<Rightarrow> string \<Rightarrow> py_exc option" where
  "log_error fs ds path =
     (case ensure_parent fs ds path of Inl e \<Rightarrow> Some e | Inr ds' \<Rightarrow> open_write_error ds' path)"

definition entry_aborts :: "outcome \<Rightarrow> log_store \<Rightarrow> string set \<Rightarrow> bool" where
  "entry_aborts out fs ds = (case out of
       Raises e \<Rightarrow> e \<noteq> KeyboardInterrupt
     | Returned ex dt \<Rightarrow> (case exp_attr ex ''YamlLog'' of YStr p \<Rightarrow> log_error fs ds p \<noteq> None | _ \<Rightarrow> True))"

definition completed_docs ::
  "run_args \<Rightarrow> (nat \<Rightarrow> outcome) \<Rightarrow> nat \<Rightarrow> exp_dict list \<Rightarrow> (string \<times> exp_dict) list" where
  "completed_docs args out i es =
     [(p, dict_set ex ''TIME_ELAPSED'' (YReal dt)).
        (j, e) \<leftarrow> enumerate i es, selected args j e,
        Returned ex dt \<leftarrow> [out j], YStr p \<leftarrow> [exp_attr ex ''YamlLog'']]"

definition extend_log :: "exp_dict list option \<Rightarrow> exp_dict list \<Rightarrow> exp_dict list option" where
  "extend_log old ds =
     (case old of None \<Rightarrow> if ds = [] then None else Some ds | Some xs \<Rightarrow> Some (xs @ ds))"

definition logs_after :: "log_store \<Rightarrow> (string \<times> exp_dict) list \<Rightarrow> log_store" where
  "logs_after fs cs p = extend_log (fs p) [d. (q, d) \<leftarrow> cs, q = p]"

definition dirs_after :: "string set \<Rightarrow> (string \<times> exp_dict) list \<Rightarrow> string set" where
  "dirs_after ds cs = ds \<union> set [dirname q. (q, d) \<leftarrow> cs, dirname q \<noteq> []]"

definition aborts_at ::
  "run_args \<Rightarrow> (nat \<Rightarrow> outcome) \<Rightarrow> exp_dict list \<Rightarrow> log_store \<Rightarrow> string set \<Rightarrow> nat \<Rightarrow> bool" where
  "aborts_at args out queue logs0 dirs0 j =
     (let cs = completed_docs args out 0 (take j queue) in
      entry_aborts (out j) (logs_after logs0 cs) (dirs_after dirs0 cs))"

definition run_frame :: "run_state \<Rightarrow> run_state \<Rightarrow> bool" where
  "run_frame st st' \<longleftrightarrow> slack_sent st' = slack_sent st \<and> slack_closed st' = slack_closed st \<and>
     queue_closed st' = queue_closed st"

section \<open>Lemmas\<close>

lemma exp_attr_dict_set [simp]:
  "exp_attr (dict_set d k v) k' = (if k' = k then v else exp_attr d k')"
  by (induction d k v rule: dict_set.induct) (auto simp: exp_attr_def)

lemma completed_docs_Cons:
  "completed_docs args out i (e # es) =
     (if selected args i e then
        (case out i of
           Returned ex dt \<Rightarrow>
             (case exp_attr ex ''YamlLog'' of
                YStr p \<Rightarrow> [(p, dict_set ex ''TIME_ELAPSED'' (YReal dt))] | _ \<Rightarrow> [])
         | Raises _ \<Rightarrow> [])
      else []) @ completed_docs args out (Suc i) es"
  by (auto simp: completed_docs_def split: outcome.splits yval.splits)

lemma completed_docs_Nil [simp]: "completed_docs args out i [] = []"
  by (simp add: completed_docs_def)

lemma extend_log_append:
  "extend_log (extend_log old ds) ds' = extend_log old (ds @ ds')"
  by (simp add: extend_log_def split: option.splits)

lemma append_doc_extend:
  "append_doc lg q d p = extend_log (lg p) (if q = p then [d] else [])"
  by (simp add: append_doc_def extend_log_def split: option.splits)

lemma extend_log_Nil [simp]: "extend_log old [] = old"
  by (simp add: extend_log_def split: option.splits)

lemma logs_after_Nil [simp]: "logs_after fs [] = fs"
  by (simp add: logs_after_def fun_eq_iff)

lemma dirs_after_Nil [simp]: "dirs_after ds [] = ds"
  by (simp add: dirs_after_def)

lemma logs_after_append: "logs_after (logs_after fs cs) cs' = logs_after fs (cs @ cs')"
  by (simp add: logs_after_def fun_eq_iff extend_log_append)

lemma dirs_after_append: "dirs_after (dirs_after ds cs) cs' = dirs_after ds (cs @ cs')"
  by (auto simp: dirs_after_def)

lemma log_experiment_isl:
  "isl (log_experiment us ex dt st) \<longleftrightarrow>
   (case exp_attr ex ''YamlLog'' of YStr p \<Rightarrow> log_error (logs st) (dirs st) p \<noteq> None | _ \<Rightarrow> True)"
  by (auto simp: log_experiment_def log_error_def Let_def split: yval.splits sum.splits option.splits)

lemma log_experiment_Inr:
  assumes "log_experiment us ex dt st = Inr st'"
  obtains p where "exp_attr ex ''YamlLog'' = YStr p" and "log_error (logs st) (dirs st) p = None"
    and "logs st' = append_doc (logs st) p (dict_set ex ''TIME_ELAPSED'' (YReal dt))"
    and "dirs st' = dirs st \<union> set [dirname p. dirname p \<noteq> []]"
    and "executed st' = executed st"
    and "slack_pending st' = slack_pending st @ (if us then [dict_set ex ''TIME_ELAPSED'' (YReal dt)] else [])"
    and "run_frame st st'"
  using assms
  by (auto simp: log_experiment_def log_error_def run_frame_def Let_def
      dest: ensure_parent_Inr split: yval.splits sum.splits option.splits if_splits)

lemma run_entry_Inr:
  assumes "run_entry args us i e out st = Inr st'"
  shows "executed st' = executed st @ (if selected args i e then [i] else []) \<and>
         logs st' = logs_after (logs st) (completed_docs args (\<lambda>_. out) i [e]) \<and>
         dirs st' = dirs_after (dirs st) (completed_docs args (\<lambda>_. out) i [e]) \<and>
         slack_pending st' = slack_pending st @
            (if us then map snd (completed_docs args (\<lambda>_. out) i [e]) else []) \<and>
         \<not> (selected args i e \<and> entry_aborts out (logs st) (dirs st))"
proof (cases "selected args i e")
  case False
  with assms show ?thesis
    by (auto simp: run_entry_def selected_def completed_docs_Cons split: if_splits)
next
  case sel: True
  show ?thesis
  proof (cases out)
    case (Raises x)
    with sel assms show ?thesis
      by (auto simp: run_entry_def selected_def completed_docs_Cons entry_aborts_def Let_def
          split: if_splits py_exc.splits)
  next
    case (Returned ex dt)
    with sel assms have l: "log_experiment us ex dt
        (st\<lparr>console := console st @ [New_experiment i], executed := executed st @ [i]\<rparr>) = Inr st'"
      by (simp add: run_entry_def selected_def Let_def)
    from log_experiment_Inr [OF l] obtain p where p: "exp_attr ex ''YamlLog'' = YStr p"
      and ok: "log_error (logs st) (dirs st) p = None"
      and "logs st' = append_doc (logs st) p (dict_set ex ''TIME_ELAPSED'' (YReal dt))"
      and "dirs st' = dirs st \<union> set [dirname p. dirname p \<noteq> []]"
      and "executed st' = executed st @ [i]"
      and "slack_pending st' = slack_pending st @ (if us then [dict_set ex ''TIME_ELAPSED'' (YReal dt)] else [])"
      by auto
    with sel Returned show ?thesis
      by (simp add: completed_docs_Cons entry_aborts_def logs_after_def dirs_after_def fun_eq_iff append_doc_extend)
  qed
qed

lemma completed_docs_single:
  "completed_docs args out i (e # es) = completed_docs args (\<lambda>_. out i) i [e] @ completed_docs args out (Suc i) es"
  by (simp add: completed_docs_Cons)

lemma run_entry_isl:
  "isl (run_entry args us i e out st) \<longleftrightarrow> selected args i e \<and> entry_aborts out (logs st) (dirs st)"
  by (auto simp: run_entry_def log_experiment_isl selected_def entry_aborts_def Let_def
        split: outcome.splits py_exc.splits yval.splits)

lemma run_entry_frame:
  "run_entry args us i e out st \<in> {Inl (x, st'), Inr st'} \<Longrightarrow> run_frame st st'"
  by (auto simp: run_entry_def log_experiment_def Let_def run_frame_def
        split: if_splits outcome.splits py_exc.splits yval.splits sum.splits option.splits)

lemma run_loop_Inr:
  "run_loop args us out i es st = Inr st' \<Longrightarrow>
   executed st' = executed st @ [j. (j, e) \<leftarrow> enumerate i es, selected args j e] \<and>
   logs st' = logs_after (logs st) (completed_docs args out i es) \<and>
   dirs st' = dirs_after (dirs st) (completed_docs args out i es) \<and>
   slack_pending st' = slack_pending st @ (if us then map snd (completed_docs args out i es) else [])"
proof (induction es arbitrary: i st)
  case Nil
  then show ?case by simp
next
  case (Cons e es)
  then obtain st1 where e: "run_entry args us i e (out i) st = Inr st1"
    and rest: "run_loop args us out (Suc i) es st1 = Inr st'"
    by (auto split: sum.splits)
  from run_entry_Inr [OF e] Cons.IH [OF rest] show ?case
    by (simp add: completed_docs_single [of args out i e es] logs_after_append dirs_after_append)
qed

lemma run_loop_succeeds:
  "(\<exists>st'. run_loop args us out i es st = Inr st') \<longleftrightarrow>
   (\<forall>k < length es. selected args (i + k) (es ! k) \<longrightarrow>
      \<not> entry_aborts (out (i + k)) (logs_after (logs st) (completed_docs args out i (take k es)))
          (dirs_after (dirs st) (completed_docs args out i (take k es))))"
proof (induction es arbitrary: i st)
  case Nil
  then show ?case by simp
next
  case (Cons e es)
  let ?P = "\<lambda>i st k es. selected args (i + k) (es ! k) \<longrightarrow>
      \<not> entry_aborts (out (i + k)) (logs_after (logs st) (completed_docs args out i (take k es)))
          (dirs_after (dirs st) (completed_docs args out i (take k es)))"
  have split: "(\<forall>k < length (e # es). ?P i st k (e # es)) \<longleftrightarrow>
      ?P i st 0 (e # es) \<and> (\<forall>k < length es. ?P i st (Suc k) (e # es))"
    by (simp only: length_Cons All_less_Suc2)
  show ?case
  proof (cases "run_entry args us i e (out i) st")
    case (Inl r)
    with run_entry_isl [of args us i e "out i" st] show ?thesis
      unfolding split by auto
  next
    case (Inr st1)
    from run_entry_isl [of args us i e "out i" st] Inr
    have ok: "?P i st 0 (e # es)" by auto
    from run_entry_Inr [OF Inr]
    have st1: "logs st1 = logs_after (logs st) (completed_docs args (\<lambda>_. out i) i [e])"
      "dirs st1 = dirs_after (dirs st) (completed_docs args (\<lambda>_. out i) i [e])" by simp_all
    have "?P i st (Suc k) (e # es) \<longleftrightarrow> ?P (Suc i) st1 k es" for k
      by (simp add: st1 completed_docs_single [of args out i e] logs_after_append dirs_after_append)
    with Inr ok Cons.IH [of "Suc i" st1] show ?thesis
      unfolding split by simp
  qed
qed

lemma run_loop_frame:
  "run_loop args us out i es st \<in> {Inl (x, st'), Inr st'} \<Longrightarrow> run_frame st st'"
proof (induction es arbitrary: i st)
  case Nil
  then show ?case by (auto simp: run_frame_def)
next
  case (Cons e es)
  show ?case
  proof (cases "run_entry args us i e (out i) st")
    case (Inl r')
    with Cons.prems run_entry_frame [of args us i e "out i" st] show ?thesis by (cases r') auto
  next
    case (Inr st1)
    with Cons.prems Cons.IH [of "Suc i" st1] run_entry_frame [of args us i e "out i" st _ st1]
    show ?thesis by (auto simp: run_frame_def)
  qed
qed

lemma run_main_cases:
  "run_main args global queue yq out logs0 dirs0 =
     (case run_loop args (use_slack global) out 0 queue (init_state logs0 dirs0) of
        Inl (e, st) \<Rightarrow> Aborted e st
      | Inr st \<Rightarrow> Finished
          (let st1 = (if yq then st\<lparr>console := console st @ [Removing_queue], queue_closed := True\<rparr> else st)
           in if use_slack global
              then st1\<lparr>slack_sent := slack_sent st1 @ slack_pending st1, slack_pending := [], slack_closed := True\<rparr>
              else st1))"
  by (simp add: run_main_def Let_def split: sum.splits)

text \<open>
  C1: after a run of the queue that finishes, the modules were run
  for exactly the selected entries, in queue order, and every log file is its old
  content followed by the documents of the selected entries whose module returned,
  in the order they ran. An entry that is not picked, or whose \<open>Name\<close> is empty or
  \<open>skip\<close>, is never run and never logged.
\<close>

theorem run_main_logs:
  assumes "run_main args global queue yq out logs0 dirs0 = Finished st"
  shows "executed st = [j. (j, e) \<leftarrow> enumerate 0 queue, selected args j e] \<and>
         (\<forall>p. logs st p = extend_log (logs0 p) [d. (q, d) \<leftarrow> completed_docs args out 0 queue, q = p])"
proof -
  from assms obtain st' where loop: "run_loop args (use_slack global) out 0 queue (init_state logs0 dirs0) = Inr st'"
    and st: "executed st = executed st' \<and> logs st = logs st'"
    by (auto simp: run_main_cases Let_def split: sum.splits)
  show ?thesis
    using run_loop_Inr [OF loop] st by (simp add: init_state_def logs_after_def)
qed

theorem run_main_logs_witness:
  "case run_main \<lparr>dry = False, pick = Some [0, 2]\<rparr> []
         [[(''Name'', YStr ''a''), (''YamlLog'', YStr ''l.yaml'')],
          [(''Name'', YStr ''b''), (''YamlLog'', YStr ''l.yaml'')],
          [(''Name'', YStr ''c''), (''YamlLog'', YStr ''l.yaml'')]]
         False (\<lambda>j. Returned [(''Name'', YStr ''x''), (''YamlLog'', YStr ''l.yaml'')] (of_nat j)) Map.empty {} of
     Finished st \<Rightarrow> executed st = [0, 2] \<and>
        logs st ''l.yaml'' =
          Some [[(''Name'', YStr ''x''), (''YamlLog'', YStr ''l.yaml''), (''TIME_ELAPSED'', YReal 0)],
                [(''Name'', YStr ''x''), (''YamlLog'', YStr ''l.yaml''), (''TIME_ELAPSED'', YReal 2)]]
   | Aborted e st \<Rightarrow> False"
proof -
  let ?args = "\<lparr>dry = False, pick = Some [0, 2]\<rparr>"
  let ?q = "[[(''Name'', YStr ''a''), (''YamlLog'', YStr ''l.yaml'')],
          [(''Name'', YStr ''b''), (''YamlLog'', YStr ''l.yaml'')],
          [(''Name'', YStr ''c''), (''YamlLog'', YStr ''l.yaml'')]]"
  let ?out = "\<lambda>j. Returned [(''Name'', YStr ''x''), (''YamlLog'', YStr ''l.yaml'')] (of_nat j)"
  have "case run_main ?args [] ?q False ?out Map.empty {} of Finished st \<Rightarrow> True | Aborted e st \<Rightarrow> False"
    by code_simp
  then obtain st where r: "run_main ?args [] ?q False ?out Map.empty {} = Finished st"
    by (auto split: run_result.splits)
  from run_main_logs [OF r] show ?thesis
    by (simp add: r selected_def not_picked_def name_skipped_def exp_attr_def completed_docs_def extend_log_def)
qed

lemma run_loop_args_cong:
  "not_picked args = not_picked args' \<Longrightarrow> dry args = dry args' \<Longrightarrow>
   run_loop args us out i es st = run_loop args' us out i es st"
proof (induction es arbitrary: i st)
  case (Cons e es)
  have "run_entry args us i e (out i) st = run_entry args' us i e (out i) st"
    using Cons.prems by (simp add: run_entry_def)
  with Cons show ?case by (simp split: sum.splits)
qed simp

text \<open>
  C2: the script reaches its end exactly when no selected entry
  aborts on the file system the earlier entries leave: a \<open>KeyboardInterrupt\<close>
  only skips its own entry, while any other exception of the module, and any
  failure to create the log's directory or open the log, ends the whole queue.
\<close>

theorem run_main_finishes:
  "(\<exists>st. run_main args global queue yq out logs0 dirs0 = Finished st) \<longleftrightarrow>
   (\<forall>j < length queue. selected args j (queue ! j) \<longrightarrow> \<not> aborts_at args out queue logs0 dirs0 j)"
  using run_loop_succeeds [of args "use_slack global" out 0 queue "init_state logs0 dirs0"]
  by (auto simp: run_main_cases init_state_def aborts_at_def split: sum.splits)

theorem run_main_finishes_witness:
  "\<not> (\<exists>st. run_main \<lparr>dry = False, pick = None\<rparr> []
         [[(''Name'', YStr ''a''), (''YamlLog'', YStr ''logs/a.yaml'')], [(''Name'', YStr ''b''), (''YamlLog'', YStr ''logs'')]]
         False (\<lambda>j. if j = 0 then Returned [(''YamlLog'', YStr ''logs/a.yaml'')] 1 else Returned [(''YamlLog'', YStr ''logs'')] 1)
         Map.empty {} = Finished st) \<and>
   (\<exists>st. run_main \<lparr>dry = False, pick = None\<rparr> []
         [[(''Name'', YStr ''a''), (''YamlLog'', YStr ''l'')], [(''Name'', YStr ''b''), (''YamlLog'', YStr ''l'')]]
         False (\<lambda>j. if j = 0 then Raises KeyboardInterrupt else Returned [(''YamlLog'', YStr ''l'')] 1)
         Map.empty {} = Finished st)"
proof -
  have a: "aborts_at \<lparr>dry = False, pick = None\<rparr>
      (\<lambda>j. if j = 0 then Returned [(''YamlLog'', YStr ''logs/a.yaml'')] 1 else Returned [(''YamlLog'', YStr ''logs'')] 1)
      [[(''Name'', YStr ''a''), (''YamlLog'', YStr ''logs/a.yaml'')], [(''Name'', YStr ''b''), (''YamlLog'', YStr ''logs'')]]
      Map.empty {} 1"
    by code_simp
  have s: "selected \<lparr>dry = False, pick = None\<rparr> 1 [(''Name'', YStr ''b''), (''YamlLog'', YStr ''logs'')]"
    by code_simp
  have "case run_main \<lparr>dry = False, pick = None\<rparr> []
         [[(''Name'', YStr ''a''), (''YamlLog'', YStr ''l'')], [(''Name'', YStr ''b''), (''YamlLog'', YStr ''l'')]]
         False (\<lambda>j. if j = 0 then Raises KeyboardInterrupt else Returned [(''YamlLog'', YStr ''l'')] 1)
         Map.empty {} of Finished st \<Rightarrow> True | Aborted e st \<Rightarrow> False"
    by code_simp
  then have b: "\<exists>st. run_main \<lparr>dry = False, pick = None\<rparr> []
         [[(''Name'', YStr ''a''), (''YamlLog'', YStr ''l'')], [(''Name'', YStr ''b''), (''YamlLog'', YStr ''l'')]]
         False (\<lambda>j. if j = 0 then Raises KeyboardInterrupt else Returned [(''YamlLog'', YStr ''l'')] 1)
         Map.empty {} = Finished st"
    by (auto split: run_result.splits)
  show ?thesis
    unfolding run_main_finishes [where queue = "[[(''Name'', YStr ''a''), (''YamlLog'', YStr ''logs/a.yaml'')],
        [(''Name'', YStr ''b''), (''YamlLog'', YStr ''logs'')]]"]
    using a s b by auto
qed

text \<open>
  C14: when the queue drains, a YAML-backed queue is closed, and with
  Slack on every accumulated report (one per logged experiment, in order) is sent
  and the Slack threads are closed.
\<close>

theorem run_main_flush:
  assumes "run_main args global queue yq out logs0 dirs0 = Finished st"
  shows "queue_closed st = yq \<and> slack_closed st = use_slack global \<and> slack_pending st = [] \<and>
         slack_sent st = (if use_slack global then map snd (completed_docs args out 0 queue) else [])"
proof -
  from assms obtain st' where loop: "run_loop args (use_slack global) out 0 queue (init_state logs0 dirs0) = Inr st'"
    and st: "st = (let st1 = (if yq then st'\<lparr>console := console st' @ [Removing_queue], queue_closed := True\<rparr> else st')
           in if use_slack global
              then st1\<lparr>slack_sent := slack_sent st1 @ slack_pending st1, slack_pending := [], slack_closed := True\<rparr>
              else st1)"
    by (auto simp: run_main_cases split: sum.splits)
  from run_loop_Inr [OF loop] run_loop_frame [of args "use_slack global" out 0 queue "init_state logs0 dirs0" _ st']
  show ?thesis using loop by (auto simp: st run_frame_def init_state_def Let_def)
qed


theorem run_main_flush_witness:
  "case run_main \<lparr>dry = False, pick = None\<rparr> [(''slack'', YBool True)]
         [[(''Name'', YStr ''a''), (''YamlLog'', YStr ''l'')]] True
         (\<lambda>j. Returned [(''Name'', YStr ''a''), (''YamlLog'', YStr ''l'')] 3) Map.empty {} of
     Finished st \<Rightarrow> queue_closed st \<and> slack_closed st \<and>
        slack_sent st = [[(''Name'', YStr ''a''), (''YamlLog'', YStr ''l''), (''TIME_ELAPSED'', YReal 3)]]
   | Aborted e st \<Rightarrow> False"
proof -
  let ?r = "run_main \<lparr>dry = False, pick = None\<rparr> [(''slack'', YBool True)]
         [[(''Name'', YStr ''a''), (''YamlLog'', YStr ''l'')]] True
         (\<lambda>j. Returned [(''Name'', YStr ''a''), (''YamlLog'', YStr ''l'')] 3) Map.empty {}"
  have "case ?r of Finished st \<Rightarrow> True | Aborted e st \<Rightarrow> False"
    by code_simp
  then obtain st where r: "?r = Finished st"
    by (auto split: run_result.splits)
  from run_main_flush [OF r] show ?thesis
    by (simp add: r use_slack_def exp_attr_def selected_def not_picked_def name_skipped_def completed_docs_def)
qed
text \<open>
  C13: when an experiment raises an exception other than
  \<open>KeyboardInterrupt\<close>, the script stops without sending the accumulated Slack
  reports, without closing the Slack threads and without closing the queue.
\<close>

theorem run_main_abort_no_flush:
  assumes "run_main args global queue yq out logs0 dirs0 = Aborted e st"
  shows "slack_sent st = [] \<and> \<not> slack_closed st \<and> \<not> queue_closed st"
proof -
  from assms have "run_loop args (use_slack global) out 0 queue (init_state logs0 dirs0) = Inl (e, st)"
    by (auto simp: run_main_cases split: sum.splits)
  then show ?thesis
    using run_loop_frame [of args "use_slack global" out 0 queue "init_state logs0 dirs0" e st]
    by (simp add: run_frame_def init_state_def)
qed


theorem run_main_abort_no_flush_witness:
  "case run_main \<lparr>dry = False, pick = None\<rparr> [(''slack'', YBool True)]
         [[(''Name'', YStr ''a''), (''YamlLog'', YStr ''l'')], [(''Name'', YStr ''b''), (''YamlLog'', YStr ''l'')]] True
         (\<lambda>j. if j = 0 then Returned [(''YamlLog'', YStr ''l'')] 1 else Raises ValueError) Map.empty {} of
     Finished st \<Rightarrow> False
   | Aborted e st \<Rightarrow> e = ValueError \<and> slack_pending st \<noteq> [] \<and> slack_sent st = [] \<and>
        \<not> slack_closed st \<and> \<not> queue_closed st"
proof -
  let ?r = "run_main \<lparr>dry = False, pick = None\<rparr> [(''slack'', YBool True)]
         [[(''Name'', YStr ''a''), (''YamlLog'', YStr ''l'')], [(''Name'', YStr ''b''), (''YamlLog'', YStr ''l'')]] True
         (\<lambda>j. if j = 0 then Returned [(''YamlLog'', YStr ''l'')] 1 else Raises ValueError) Map.empty {}"
  have "case ?r of Finished st \<Rightarrow> False | Aborted e st \<Rightarrow> e = ValueError \<and> slack_pending st \<noteq> []"
    by code_simp
  then obtain st where r: "?r = Aborted ValueError st" and "slack_pending st \<noteq> []"
    by (auto split: run_result.splits)
  with run_main_abort_no_flush [OF r] show ?thesis by simp
qed
text \<open>
  C34: a dry run always finishes, runs no module and leaves every log
  file as it was.
\<close>

theorem run_main_dry:
  assumes "dry args"
  shows "\<exists>st. run_main args global queue yq out logs0 dirs0 = Finished st \<and> executed st = [] \<and> logs st = logs0"
proof -
  have none: "\<not> selected args j e" for j e using assms by (simp add: selected_def)
  then obtain st' where loop: "run_loop args (use_slack global) out 0 queue (init_state logs0 dirs0) = Inr st'"
    using run_loop_succeeds [of args "use_slack global" out 0 queue "init_state logs0 dirs0"] by auto
  have "completed_docs args out 0 queue = []"
    by (simp add: completed_docs_def none)
  with run_loop_Inr [OF loop] have "executed st' = [] \<and> logs st' = logs0"
    by (auto simp: none init_state_def)
  with loop show ?thesis
    by (auto simp: run_main_cases Let_def)
qed

theorem run_main_dry_witness:
  "dry \<lparr>dry = True, pick = None\<rparr> \<and>
   (\<exists>st. run_main \<lparr>dry = True, pick = None\<rparr> [] [[(''Name'', YStr ''a''), (''YamlLog'', YStr ''l'')]] False
           (\<lambda>j. Returned [] 0) Map.empty {} = Finished st \<and> executed st = [] \<and> logs st = Map.empty)"
  using run_main_dry [of "\<lparr>dry = True, pick = None\<rparr>" "[]" "[[(''Name'', YStr ''a''), (''YamlLog'', YStr ''l'')]]"
      False "\<lambda>j. Returned [] 0" Map.empty "{}"]
  by simp

text \<open>
  C35: \<open>--pick\<close> given with no index behaves exactly like no
  \<open>--pick\<close>: every entry is run.
\<close>

theorem run_main_pick_empty:
  assumes "pick args = Some []"
  shows "run_main args global queue yq out logs0 dirs0 = run_main (args\<lparr>pick := None\<rparr>) global queue yq out logs0 dirs0"
proof -
  have "not_picked args = not_picked (args\<lparr>pick := None\<rparr>)"
    using assms by (auto simp: not_picked_def)
  then have "run_loop args us out 0 queue st0 = run_loop (args\<lparr>pick := None\<rparr>) us out 0 queue st0"
    for us st0
    by (rule run_loop_args_cong) simp
  then show ?thesis unfolding run_main_def by simp
qed

theorem run_main_pick_empty_witness:
  "pick \<lparr>dry = False, pick = Some []\<rparr> = Some [] \<and>
   run_main \<lparr>dry = False, pick = Some []\<rparr> [] [[(''Name'', YStr ''a''), (''YamlLog'', YStr ''l'')]] False
     (\<lambda>j. Raises KeyboardInterrupt) Map.empty {} =
   run_main \<lparr>dry = False, pick = None\<rparr> [] [[(''Name'', YStr ''a''), (''YamlLog'', YStr ''l'')]] False
     (\<lambda>j. Raises KeyboardInterrupt) Map.empty {}"
  using run_main_pick_empty [of "\<lparr>dry = False, pick = Some []\<rparr>" "[]" "[[(''Name'', YStr ''a''), (''YamlLog'', YStr ''l'')]]"
      False "\<lambda>j. Raises KeyboardInterrupt" Map.empty "{}"]
  by simp


end
