(* ===== verification/Masks.thy ===== *)
theory Masks
  imports Tools
begin

text \<open>
  Mask sampling, the mask regulariser and the two optimisation steps of
  \<^verbatim>\<open>src/experimental/truning/train_for_robustness.py\<close>. The forward and backward
  passes belong to TensorFlow: a step receives the gradients the tape computed as
  an argument. The optimiser is left abstract here: \<open>upd\<close> is any function from the
  optimiser's state (type \<open>'o\<close>), the index of the variable (Keras keys its slot
  variables by the variable), a gradient and the variable's value to the new
  state and value, so every lemma about a step holds for any rule; theory
  \<open>Optimizers\<close> instantiates it with the script's two SGD optimisers. Random draws come from a generator
  \<open>rng\<close> read at a position that each call to \<open>tf.random.uniform\<close> advances.
\<close>

section \<open>Activations and the regulariser\<close>

definition maybe_abs :: "tensor \<Rightarrow> tensor" where
  "maybe_abs m = m"  \<comment> \<open>\<open>tf.identity\<close>; \<open>tf.abs\<close> is commented out\<close>

definition mask_activation :: "tensor \<Rightarrow> tensor" where
  "mask_activation m = m"  \<comment> \<open>\<open>tf.identity\<close>\<close>

text \<open>\<open>regularize(values)\<close>, with the global \<open>mask_regularization\<close> as argument.\<close>

definition regularize :: "real \<Rightarrow> tensor list \<Rightarrow> real" where
  "regularize mask_regularization values =
     fold (\<lambda>value loss. loss + reduce_sum (maybe_abs value) * mask_regularization) values 0"

section \<open>Sampling kernel masks\<close>

text \<open>\<open>tf.random.uniform(shape=s)\<close>: the next \<open>num_elements s\<close> draws.\<close>

definition uniform :: "(nat \<Rightarrow> real) \<Rightarrow> nat \<Rightarrow> nat list \<Rightarrow> tensor \<times> nat" where
  "uniform rng pos s =
     (\<lparr>shape = s, vals = map rng [pos..<pos + num_elements s]\<rparr>, pos + num_elements s)"

text \<open>
  One mask from its distribution: \<open>sign = cast(probs >= 0) * 2 - 1\<close> and
  \<open>cast(rnd <= abs(probs)) * sign\<close>.
\<close>

definition sampled_mask :: "tensor \<Rightarrow> tensor \<Rightarrow> tensor" where
  "sampled_mask probs rnd =
     (let sign = tmap (\<lambda>p. (if 0 \<le> p then 1 else 0) * 2 - 1) probs
      in tmap2 (*) (tmap2 (\<lambda>r p. if r \<le> \<bar>p\<bar> then 1 else 0) rnd probs) sign)"

fun set_kernel_masks_from_distributions ::
  "tensor list \<Rightarrow> tensor list \<Rightarrow> (tensor \<Rightarrow> tensor) \<Rightarrow> (nat \<Rightarrow> real) \<Rightarrow> nat
   \<Rightarrow> py_exc + tensor list \<times> nat" where
  "set_kernel_masks_from_distributions [] ds act rng pos = Inr ([], pos)"
| "set_kernel_masks_from_distributions kms [] act rng pos = Inr (kms, pos)"
| "set_kernel_masks_from_distributions (km # kms) (d # ds) act rng pos =
     (let probs = act d;
          (rnd, pos') = uniform rng pos (shape probs)
      in case assign km (sampled_mask probs rnd) of
           Inl e \<Rightarrow> Inl e
         | Inr km' \<Rightarrow>
             (case set_kernel_masks_from_distributions kms ds act rng pos' of
                Inl e \<Rightarrow> Inl e
              | Inr (kms', pos'') \<Rightarrow> Inr (km' # kms', pos'')))"

section \<open>Applying gradients\<close>

text \<open>
  \<open>optimizer.apply_gradients(zip(grads, variables))\<close>: each pair updates the variable
  it names (an index into the variable list), in order; a variable named twice is
  updated twice.
\<close>

fun apply_gradients ::
  "('o \<Rightarrow> nat \<Rightarrow> tensor \<Rightarrow> tensor \<Rightarrow> 'o \<times> tensor) \<Rightarrow> 'o \<Rightarrow> (tensor \<times> nat) list \<Rightarrow> tensor list
   \<Rightarrow> 'o \<times> tensor list" where
  "apply_gradients upd os [] vs = (os, vs)"
| "apply_gradients upd os ((g, i) # gvs) vs =
     (let (os', v') = upd os i g (vs ! i) in apply_gradients upd os' gvs (vs[i := v']))"

datatype learning_rate = Const_lr real | Schedule_lr "nat \<Rightarrow> real"

definition lr_at :: "learning_rate \<Rightarrow> nat \<Rightarrow> real" where
  "lr_at lr iterations = (case lr of Const_lr r \<Rightarrow> r | Schedule_lr f \<Rightarrow> f iterations)"

text \<open>The gradients clipped to \<open>0.1 / lr\<close> before the mask optimiser sees them.\<close>

definition clip_mask_gradients :: "learning_rate \<Rightarrow> nat \<Rightarrow> tensor list \<Rightarrow> tensor list" where
  "clip_mask_gradients lr iterations grads =
     (case snd (clip_many grads (0.1 / lr_at lr iterations) None False) of
        Some gs \<Rightarrow> gs | None \<Rightarrow> grads)"

text \<open>
  \<open>update_masks\<close>: the tape differentiates with respect to
  \<open>mask_differentiable = kernel_masks + mask_distributions\<close> (the argument \<open>grads\<close>),
  and the clipped gradients are applied to \<open>mask_updatable =
  mask_distributions + mask_distributions\<close>: the gradient of kernel mask \<open>i\<close> and the
  gradient of distribution \<open>i\<close> both update distribution \<open>i\<close>. Then the
  distributions are clipped to \<open>[-10, 10]\<close> in place. The result is the optimiser's
  state and the new distributions; the kernel masks are not written.
\<close>

definition update_masks ::
  "('o \<Rightarrow> nat \<Rightarrow> tensor \<Rightarrow> tensor \<Rightarrow> 'o \<times> tensor) \<Rightarrow> 'o \<Rightarrow> learning_rate \<Rightarrow> nat \<Rightarrow> tensor list
   \<Rightarrow> tensor list \<Rightarrow> 'o \<times> tensor list" where
  "update_masks upd os lr iterations grads mask_distributions =
     (let n = length mask_distributions;
          mask_gradients = clip_mask_gradients lr iterations grads;
          mask_updatable = [0..<n] @ [0..<n];
          (os', ds) = apply_gradients upd os (zip mask_gradients mask_updatable) mask_distributions
      in (os', fst (clip_many ds 10 None True)))"

text \<open>\<open>update_kernels\<close>: the gradients of \<open>net.trainable_weights\<close>, applied unclipped.\<close>

definition update_kernels ::
  "('o \<Rightarrow> nat \<Rightarrow> tensor \<Rightarrow> tensor \<Rightarrow> 'o \<times> tensor) \<Rightarrow> 'o \<Rightarrow> tensor list \<Rightarrow> tensor list \<Rightarrow> 'o \<times> tensor list" where
  "update_kernels upd os grads trainable_weights =
     apply_gradients upd os (zip grads [0..<length trainable_weights]) trainable_weights"

text \<open>The final masks: \<open>tf.cast(m >= 0, tf.float32)\<close> for every distribution.\<close>

definition final_masks :: "tensor list \<Rightarrow> tensor list" where
  "final_masks mask_distributions = map (tmap (\<lambda>m. if 0 \<le> m then 1 else 0)) mask_distributions"

section \<open>Lemmas\<close>

lemma regularize_fold:
  "fold (\<lambda>value loss. loss + reduce_sum (maybe_abs value) * c) vs acc = acc + c * sum_list (map reduce_sum vs)"
  by (induction vs arbitrary: acc) (simp_all add: maybe_abs_def algebra_simps)

text \<open>
  C21: the mask regulariser is the coefficient times the plain sum of all
  distribution values (\<open>maybe_abs\<close> is the identity), so it is a signed sum, not an
  L1 penalty.
\<close>

theorem regularize_eq: "regularize c vs = c * sum_list (map reduce_sum vs)"
  by (simp add: regularize_def regularize_fold)

lemma vals_sampled_mask:
  "length (vals rnd) = length (vals probs) \<Longrightarrow>
   vals (sampled_mask probs rnd) =
     map2 (\<lambda>r p. if r \<le> \<bar>p\<bar> then (if 0 \<le> p then 1 else -1) else 0) (vals rnd) (vals probs)"
  by (auto simp: sampled_mask_def Let_def map2_times_map)

lemma shape_sampled_mask [simp]: "shape (sampled_mask probs rnd) = shape rnd"
  by (simp add: sampled_mask_def Let_def)

lemma uniform_shape [simp]: "shape (fst (uniform rng pos s)) = s"
  and uniform_length [simp]: "length (vals (fst (uniform rng pos s))) = num_elements s"
  and uniform_pos [simp]: "snd (uniform rng pos s) = pos + num_elements s"
  by (simp_all add: uniform_def)

lemma sampled_mask_ternary: "all_vals (\<lambda>x. x = -1 \<or> x = 0 \<or> x = 1) (sampled_mask probs rnd)"
proof -
  have "list_all (\<lambda>a. a = 0 \<or> a = 1) (map2 (\<lambda>r p. if r \<le> \<bar>p\<bar> then 1 else 0) (vals rnd) (vals probs))"
    by (rule list_all_map2I [where A = "\<lambda>_. True" and B = "\<lambda>_. True"]) (simp_all add: list_all_iff)
  moreover have "list_all (\<lambda>b. b = -1 \<or> b = (1::real))
      (map (\<lambda>p::real. (if 0 \<le> p then 1 else 0) * 2 - 1) (vals probs))"
    by (simp add: list_all_iff)
  ultimately show ?thesis
    unfolding sampled_mask_def Let_def all_vals_def vals_tmap2 vals_tmap
    by (rule list_all_map2I) auto
qed

text \<open>
  C9: resampling the kernel masks never changes a mask's
  shape, and every resampled mask holds only the values -1, 0 and 1: a negative
  distribution value yields -1, not a binary 0/1 mask.
\<close>

theorem set_kernel_masks_shapes:
  "set_kernel_masks_from_distributions kms ds act rng pos = Inr (kms', pos') \<Longrightarrow>
   map shape kms' = map shape kms \<and>
   (length kms \<le> length ds \<longrightarrow> list_all (all_vals (\<lambda>x. x = -1 \<or> x = 0 \<or> x = 1)) kms')"
proof (induction kms ds act rng pos arbitrary: kms' pos' rule: set_kernel_masks_from_distributions.induct)
  case (3 km kms d ds act rng pos)
  then show ?case
    by (auto simp: assign_def Let_def sampled_mask_ternary split: prod.splits if_splits sum.splits)
qed auto

theorem set_kernel_masks_shapes_witness:
  "set_kernel_masks_from_distributions [\<lparr>shape = [2], vals = [1, 1]\<rparr>] [\<lparr>shape = [2], vals = [-5, 1/2]\<rparr>]
      mask_activation (\<lambda>n. 1/4) 0 = Inr ([\<lparr>shape = [2], vals = [-1, 1]\<rparr>], 2) \<and>
   length [\<lparr>shape = [2], vals = [1::real, 1]\<rparr>] \<le> length [\<lparr>shape = [2], vals = [-5::real, 1/2]\<rparr>] \<and>
   list_all (all_vals (\<lambda>x. x = -1 \<or> x = 0 \<or> x = 1)) [\<lparr>shape = [2], vals = [-1, 1]\<rparr>]"
proof -
  have eq: "set_kernel_masks_from_distributions [\<lparr>shape = [2], vals = [1, 1]\<rparr>] [\<lparr>shape = [2], vals = [-5, 1/2]\<rparr>]
      mask_activation (\<lambda>n. 1/4) 0 = Inr ([\<lparr>shape = [2], vals = [-1, 1]\<rparr>], 2)"
    by (simp add: mask_activation_def uniform_def num_elements_def sampled_mask_def assign_def
          upt_rec tmap_def tmap2_def)
  from set_kernel_masks_shapes [OF eq] eq show ?thesis by simp
qed

text \<open>
  C19: resampling succeeds exactly when every kernel mask has
  the shape of its distribution; otherwise the assignment raises \<open>ValueError\<close>.
\<close>

theorem set_kernel_masks_succeeds:
  "(\<exists>r. set_kernel_masks_from_distributions kms ds mask_activation rng pos = Inr r) \<longleftrightarrow>
   list_all (\<lambda>(km, d). shape km = shape d) (zip kms ds)"
proof (induction kms arbitrary: ds pos)
  case Nil
  then show ?case by simp
next
  case (Cons km kms)
  show ?case
  proof (cases ds)
    case Nil
    then show ?thesis by simp
  next
    case (Cons d ds')
    with Cons.IH [of ds' "pos + num_elements (shape d)"] show ?thesis
      by (auto simp: assign_def Let_def mask_activation_def prod.case_eq_if split: sum.splits)
  qed
qed

lemma sampled_mask_sure:
  assumes "\<forall>n. 0 \<le> rng n \<and> rng n < 1" and "wf_tensor d" and "all_vals (\<lambda>x. 1 \<le> \<bar>x\<bar>) d"
  shows "sampled_mask d (fst (uniform rng pos (shape d))) = tmap (\<lambda>p. if 0 \<le> p then 1 else -1) d"
proof (rule tensor_eqI)
  let ?rnd = "fst (uniform rng pos (shape d))"
  have len: "length (vals ?rnd) = length (vals d)"
    using assms(2) by (simp add: wf_tensor_def)
  have "r \<le> \<bar>p\<bar>" if "r \<in> set (vals ?rnd)" "p \<in> set (vals d)" for r p
  proof -
    from that(1) have "r < 1" using assms(1) by (auto simp: uniform_def)
    moreover from that(2) have "1 \<le> \<bar>p\<bar>" using assms(3) by (simp add: all_vals_def list_all_iff)
    ultimately show ?thesis by simp
  qed
  then show "vals (sampled_mask d ?rnd) = vals (tmap (\<lambda>p. if 0 \<le> p then 1 else -1) d)"
    using len by (auto simp: vals_sampled_mask list_eq_iff_nth_eq dest: nth_mem)
qed (simp add: sampled_mask_def Let_def)

lemma set_kernel_masks_sure:
  assumes "\<forall>n. 0 \<le> rng n \<and> rng n < 1"
    and "list_all2 (\<lambda>km d. shape km = shape (act d)) kms ds"
    and "list_all (\<lambda>d. wf_tensor (act d) \<and> all_vals (\<lambda>x. 1 \<le> \<bar>x\<bar>) (act d)) ds"
  shows "\<exists>pos'. set_kernel_masks_from_distributions kms ds act rng pos =
           Inr (map (\<lambda>d. tmap (\<lambda>p. if 0 \<le> p then 1 else -1) (act d)) ds, pos')"
  using assms(2,3)
proof (induction kms ds arbitrary: pos rule: list_all2_induct)
  case Nil
  then show ?case by simp
next
  case (Cons km kms d ds)
  let ?rnd = "fst (uniform rng pos (shape (act d)))" and ?pos1 = "pos + num_elements (shape (act d))"
  let ?sgn = "tmap (\<lambda>p. if 0 \<le> p then 1 else -1)"
  from Cons.IH Cons.prems obtain pos' where
    rest: "set_kernel_masks_from_distributions kms ds act rng ?pos1 = Inr (map (\<lambda>d. ?sgn (act d)) ds, pos')"
    by auto
  from Cons.prems have m: "sampled_mask (act d) ?rnd = ?sgn (act d)"
    by (intro sampled_mask_sure [OF assms(1)]) simp_all
  from Cons.hyps have a: "assign km (?sgn (act d)) = Inr (?sgn (act d))"
    by (simp add: assign_def)
  have "set_kernel_masks_from_distributions (km # kms) (d # ds) act rng pos =
        (case assign km (sampled_mask (act d) ?rnd) of
           Inl e \<Rightarrow> Inl e
         | Inr km' \<Rightarrow> (case set_kernel_masks_from_distributions kms ds act rng ?pos1 of
                         Inl e \<Rightarrow> Inl e | Inr (kms', pos'') \<Rightarrow> Inr (km' # kms', pos'')))"
    by (simp add: Let_def prod.case_eq_if)
  with m a rest show ?case by simp
qed

text \<open>
  C15: when every distribution value has magnitude at
  least 1 (the initial value 5 does), sampling with uniform draws in \<open>[0, 1)\<close> is
  deterministic: each mask is the sign of its distribution.
\<close>

theorem set_kernel_masks_deterministic:
  assumes "\<forall>n. 0 \<le> rng n \<and> rng n < 1"
    and "list_all2 (\<lambda>km d. shape km = shape d) kms ds"
    and "list_all wf_tensor ds" and "list_all (all_vals (\<lambda>x. 1 \<le> \<bar>x\<bar>)) ds"
  shows "\<exists>pos'. set_kernel_masks_from_distributions kms ds mask_activation rng pos =
           Inr (map (tmap (\<lambda>p. if 0 \<le> p then 1 else -1)) ds, pos')"
  using set_kernel_masks_sure [OF assms(1), where act = mask_activation and kms = kms and ds = ds and pos = pos] assms(2-4)
  by (simp add: mask_activation_def list_all_iff)

theorem set_kernel_masks_deterministic_witness:
  "(\<forall>n. 0 \<le> (1/2::real) \<and> (1/2::real) < 1) \<and>
   list_all2 (\<lambda>km d. shape km = shape d) [\<lparr>shape = [1], vals = [0]\<rparr>] [\<lparr>shape = [1], vals = [5]\<rparr>] \<and>
   (\<exists>pos'. set_kernel_masks_from_distributions [\<lparr>shape = [1], vals = [0]\<rparr>] [\<lparr>shape = [1], vals = [5]\<rparr>]
      mask_activation (\<lambda>n. 1/2) 0 = Inr ([\<lparr>shape = [1], vals = [1]\<rparr>], pos'))"
  using set_kernel_masks_deterministic [of "\<lambda>n. 1/2" "[\<lparr>shape = [1], vals = [0]\<rparr>]" "[\<lparr>shape = [1], vals = [5]\<rparr>]" 0]
  by (simp add: wf_tensor_def num_elements_def all_vals_def tmap_def)

lemma length_apply_gradients [simp]: "length (snd (apply_gradients upd os gvs vs)) = length vs"
  by (induction upd os gvs vs rule: apply_gradients.induct) (simp_all split: prod.splits)

text \<open>
  C12: after a mask-update step, whatever the optimiser and the
  gradients, there are as many distributions as before and every value lies in
  \<open>[-10, 10]\<close>.
\<close>

theorem update_masks_clipped:
  "length (snd (update_masks upd os lr it grads ds)) = length ds \<and>
   list_all (all_vals (\<lambda>x. -10 \<le> x \<and> x \<le> 10)) (snd (update_masks upd os lr it grads ds))"
  by (simp add: update_masks_def clip_many_def Let_def list_all_iff clip_by_value_bounds prod.case_eq_if)

text \<open>
  C20: with a positive learning rate, the gradients handed
  to the mask optimiser lie within \<open>0.1 / lr\<close> of zero.
\<close>

theorem clip_mask_gradients_bounds:
  assumes "0 < lr_at lr it"
  shows "length (clip_mask_gradients lr it grads) = length grads \<and>
    list_all (all_vals (\<lambda>x. - (0.1 / lr_at lr it) \<le> x \<and> x \<le> 0.1 / lr_at lr it))
      (clip_mask_gradients lr it grads)"
  using assms by (simp add: clip_mask_gradients_def clip_many_def list_all_iff clip_by_value_bounds)

theorem clip_mask_gradients_bounds_witness:
  "0 < lr_at (Const_lr 10) 0 \<and>
   list_all (all_vals (\<lambda>x. - (0.1 / lr_at (Const_lr 10) 0) \<le> x \<and> x \<le> 0.1 / lr_at (Const_lr 10) 0))
      (clip_mask_gradients (Const_lr 10) 0 [\<lparr>shape = [2], vals = [5, -0.001]\<rparr>])"
  using clip_mask_gradients_bounds [of "Const_lr 10" 0 "[\<lparr>shape = [2], vals = [5, -0.001]\<rparr>]"]
  by (simp add: lr_at_def)

lemma apply_gradients_append:
  "apply_gradients upd os (xs @ ys) vs =
     (let (os', vs') = apply_gradients upd os xs vs in apply_gradients upd os' ys vs')"
  by (induction upd os xs vs rule: apply_gradients.induct) (simp_all add: split_beta)

lemma length_clip_mask_gradients: "length (clip_mask_gradients lr it grads) = length grads"
  by (simp add: clip_mask_gradients_def clip_many_def)

end
