(* ===== verification/Pruning.thy ===== *)
theory Pruning
  imports Tools Masks
begin

text \<open>
  The outer loop of \<^verbatim>\<open>src/experimental/truning/train_for_robustness.py\<close>: fifty
  times, train the kernels for \<open>EPOCHS\<close> epochs (assigning the scheduled regulariser
  coefficient at the start of a scheduled epoch), shrink the density by 0.8, prune
  with SNIP to sparsity \<open>1 - density\<close>, reset every weight but the kernel masks to the
  chosen checkpoint, and reapply the pruning masks. Training, SNIP pruning
  (\<open>tools.pruning.prune_SNIP\<close>), \<open>apply_pruning_for_model\<close> and the fresh values of
  the clone inside the reset are not under src/ or are TensorFlow's: they are the
  fields of an environment, indexed by the outer iteration. The reset is the model
  of \<open>Tools\<close>.
\<close>

section \<open>Configuration\<close>

definition mask_initial_value :: real where
  "mask_initial_value = 5"

definition EPOCHS :: nat where
  "EPOCHS = 4"

definition STEPS :: nat where
  "STEPS = 2000"

definition regularizer_schedule :: "nat \<Rightarrow> real option" where
  "regularizer_schedule = [0 \<mapsto> 4 / 10 ^ 8]"

definition checkpoint_lookup :: "(string \<times> string) list" where
  "checkpoint_lookup =
     [(''2k'', ''data/partial_training_checkpoints/VGG19_2000it/0.h5''),
      (''8k'', ''data/partial_training_checkpoints/VGG19_8000it/0.h5''),
      (''16k'', ''data/partial_training_checkpoints/VGG19_16000it/0.h5''),
      (''2k2'', ''data/partial_training_checkpoints/VGG19_2000it/1.h5''),
      (''8k2'', ''data/partial_training_checkpoints/VGG19_8000it/1.h5''),
      (''full_from_2k'', ''data/VGG19_IMP03_ticket/130735/0.h5''),
      (''unrl_full1'', ''data/VGG19_full_training/70754/0.h5''),
      (''unrl_full2'', ''data/VGG19_full_training/70754/1.h5''),
      (''perf'', ''data/VGG19_IMP03_ticket/770423/10.h5''),
      (''perf2'', ''data/VGG19_IMP03_ticket/775908/10.h5'')]"

definition choosen_checkpoint :: string where
  "choosen_checkpoint = (case map_of checkpoint_lookup ''2k'' of Some p \<Rightarrow> p | None \<Rightarrow> [])"

text \<open>The variables the loop writes, and what it does not compute itself.\<close>

record prune_state =
  net :: "weight list"
  mask_regularization :: real
  density :: real

record prune_env =
  ckp_files :: ckp_store
  train :: "nat \<Rightarrow> nat \<Rightarrow> weight list \<Rightarrow> weight list"  \<comment> \<open>iteration, epoch\<close>
  prune_SNIP :: "nat \<Rightarrow> real \<Rightarrow> weight list \<Rightarrow> weight list"  \<comment> \<open>iteration, sparsity\<close>
  apply_pruning_for_model :: "weight list \<Rightarrow> weight list"
  fresh_clone :: "nat \<Rightarrow> weight list"

section \<open>One outer iteration\<close>

text \<open>\<open>for epoch in range(EPOCHS)\<close>: the schedule, then \<open>train_epoch\<close> and validation.\<close>

definition train_epochs :: "prune_env \<Rightarrow> nat \<Rightarrow> prune_state \<Rightarrow> prune_state" where
  "train_epochs env k st =
     fold (\<lambda>epoch st.
             let st1 = (case regularizer_schedule epoch of
                          Some r \<Rightarrow> st\<lparr>mask_regularization := r\<rparr>
                        | None \<Rightarrow> st)
             in st1\<lparr>net := train env k epoch (net st1)\<rparr>)
          [0..<EPOCHS] st"

definition prune_iteration :: "prune_env \<Rightarrow> nat \<Rightarrow> prune_state \<Rightarrow> py_exc + prune_state" where
  "prune_iteration env k st =
     (let st1 = train_epochs env k st;
          d = density st1 * 0.8;
          pruned = prune_SNIP env k (1 - d) (net st1)
      in case reset_weights_to_checkpoint (ckp_files env) pruned (fresh_clone env k)
                (Some choosen_checkpoint) (Some ''kernel_mask'') of
           Inl e \<Rightarrow> Inl e
         | Inr (ws, skipped) \<Rightarrow> Inr (st1\<lparr>density := d, net := apply_pruning_for_model env ws\<rparr>))"

text \<open>\<open>for _ in range(n)\<close>, the iteration index passed to the environment.\<close>

fun prune_loop :: "prune_env \<Rightarrow> nat \<Rightarrow> nat \<Rightarrow> prune_state \<Rightarrow> py_exc + prune_state" where
  "prune_loop env k 0 st = Inr st"
| "prune_loop env k (Suc n) st =
     (case prune_iteration env k st of
        Inl e \<Rightarrow> Inl e
      | Inr st' \<Rightarrow> prune_loop env (Suc k) n st')"

definition prune_cycle :: "prune_env \<Rightarrow> weight list \<Rightarrow> py_exc + prune_state" where
  "prune_cycle env net0 =
     prune_loop env 0 50 \<lparr>net = net0, mask_regularization = 0, density = 1\<rparr>"

text \<open>
  The masks' start: \<open>mask_distributions = [tf.Variable(tf.ones_like(mask)) ...]\<close>
  then \<open>set_kernel_masks_values(mask_distributions, mask_initial_value)\<close>
  (\<open>experimental.toolkit\<close>, not under src/: every value set to 5).
\<close>

definition initial_distributions :: "tensor list \<Rightarrow> tensor list" where
  "initial_distributions kernel_masks = map (tmap (\<lambda>_. mask_initial_value)) kernel_masks"

definition shapes :: "weight list \<Rightarrow> nat list list" where
  "shapes ws = map (shape \<circ> wval) ws"

text \<open>
  The kernel masks: \<open>get_kernel_masks(net)\<close> and \<open>set_kernel_masks_values\<close> of
  \<open>experimental.toolkit\<close> (not under src/) read and assign, in network order, the
  weights of the masked layers, whose names contain \<open>kernel_mask\<close> (the keyword the
  reset skips). Assigning pairs masks and values as \<open>zip\<close> does.
\<close>

definition is_kernel_mask :: "weight \<Rightarrow> bool" where
  "is_kernel_mask w \<longleftrightarrow> str_in ''kernel_mask'' (wname w)"

definition get_kernel_masks :: "weight list \<Rightarrow> tensor list" where
  "get_kernel_masks ws = map wval (filter is_kernel_mask ws)"

fun set_kernel_masks_values :: "weight list \<Rightarrow> tensor list \<Rightarrow> py_exc + weight list" where
  "set_kernel_masks_values [] vs = Inr []"
| "set_kernel_masks_values (w # ws) vs =
     (if is_kernel_mask w
      then (case vs of
              [] \<Rightarrow> Inr (w # ws)
            | v # vs' \<Rightarrow> (case assign (wval w) v of
                           Inl e \<Rightarrow> Inl e
                         | Inr t \<Rightarrow> (case set_kernel_masks_values ws vs' of
                                       Inl e \<Rightarrow> Inl e
                                     | Inr ws' \<Rightarrow> Inr (w\<lparr>wval := t\<rparr> # ws'))))
      else (case set_kernel_masks_values ws vs of
              Inl e \<Rightarrow> Inl e
            | Inr ws' \<Rightarrow> Inr (w # ws')))"

text \<open>
  After the loop: \<open>EPOCHS\<close> more epochs of kernel training (the environment's
  iteration index 50), then every kernel mask set to \<open>tf.cast(m >= 0)\<close> of its
  distribution. The distributions are the ones set at the start: no step of the
  script updates them, since the \<open>update_masks\<close> phase is commented out.
\<close>

definition final_phase ::
  "prune_env \<Rightarrow> tensor list \<Rightarrow> prune_state \<Rightarrow> py_exc + prune_state" where
  "final_phase env mask_distributions st =
     (let st1 = train_epochs env 50 st
      in case set_kernel_masks_values (net st1) (final_masks mask_distributions) of
           Inl e \<Rightarrow> Inl e
         | Inr ws \<Rightarrow> Inr (st1\<lparr>net := ws\<rparr>))"

text \<open>
  The start of the script (lines 74 to 109): \<open>perf_net\<close>, a clone of the network
  loaded from the \<open>perf\<close> checkpoint (its masks are never used), the distributions
  \<open>ones_like\<close> each kernel mask set to \<open>mask_initial_value\<close>, the network loaded
  from the chosen checkpoint, and the masks sampled twice from the distributions.
  \<open>kernel_masks\<close> are the network's own variables, so loading the network changes
  them and sampling changes the network: the model reads them after the load and
  writes the sampled masks back. The clone's fresh values do not matter, since the
  load replaces them all.
\<close>

definition perf_checkpoint :: string where
  "perf_checkpoint = (case map_of checkpoint_lookup ''perf'' of Some p \<Rightarrow> p | None \<Rightarrow> [])"

definition recipe_start ::
  "ckp_store \<Rightarrow> (nat \<Rightarrow> real) \<Rightarrow> weight list \<Rightarrow> py_exc + weight list \<times> tensor list \<times> nat" where
  "recipe_start store rng net0 =
     (case load_weights store perf_checkpoint net0 of
        Inl e \<Rightarrow> Inl e
      | Inr perf_net \<Rightarrow>
          let mask_distributions = initial_distributions (get_kernel_masks net0) in
          (case load_weights store choosen_checkpoint net0 of
             Inl e \<Rightarrow> Inl e
           | Inr net1 \<Rightarrow>
               (case set_kernel_masks_from_distributions (get_kernel_masks net1) mask_distributions
                       mask_activation rng 0 of
                  Inl e \<Rightarrow> Inl e
                | Inr (kms1, pos1) \<Rightarrow>
                    (case set_kernel_masks_from_distributions kms1 mask_distributions mask_activation rng pos1 of
                       Inl e \<Rightarrow> Inl e
                     | Inr (kms2, pos2) \<Rightarrow>
                         (case set_kernel_masks_values net1 kms2 of
                            Inl e \<Rightarrow> Inl e
                          | Inr net2 \<Rightarrow> Inr (net2, mask_distributions, pos2))))))"

section \<open>Lemmas\<close>

lemma same_arch_shapes: "same_arch a b \<longleftrightarrow> shapes a = shapes b"
  by (auto simp: same_arch_def shapes_def list_all2_conv_all_nth list_eq_iff_nth_eq)

lemma shapes_vals: "list_all2 (\<lambda>w v. shape (wval w) = shape v) ws vs \<longleftrightarrow> shapes ws = map shape vs"
  by (auto simp: shapes_def list_all2_conv_all_nth list_eq_iff_nth_eq)

lemma choosen_checkpoint_eq: "choosen_checkpoint = ''data/partial_training_checkpoints/VGG19_2000it/0.h5''"
  by (simp add: choosen_checkpoint_def checkpoint_lookup_def)

lemma EPOCHS_upt: "[0..<EPOCHS] = [0, 1, 2, 3]"
  by (simp add: EPOCHS_def upt_rec)

lemma train_epochs_density [simp]: "density (train_epochs env k st) = density st"
  by (simp add: train_epochs_def EPOCHS_upt regularizer_schedule_def)

lemma train_epochs_shapes:
  "(\<And>e ws. shapes (train env k e ws) = shapes ws) \<Longrightarrow> shapes (net (train_epochs env k st)) = shapes (net st)"
  by (simp add: train_epochs_def EPOCHS_upt regularizer_schedule_def)

lemma map2_reset_shapes:
  "shapes ws = map shape vs \<Longrightarrow>
   shapes (map2 (\<lambda>w v. if kw_match kw (wname w) then w else w\<lparr>wval := v\<rparr>) ws vs) = shapes ws"
  by (simp add: shapes_def list_eq_iff_nth_eq)

lemma prune_iteration_eq:
  assumes pruned: "prune_SNIP env k (1 - density st * 0.8) (net (train_epochs env k st)) = pruned"
    and ckp: "ckp_files env choosen_checkpoint = Some vs"
    and arch: "shapes (fresh_clone env k) = shapes pruned" "shapes (fresh_clone env k) = map shape vs"
  shows "prune_iteration env k st =
           Inr ((train_epochs env k st)\<lparr>density := density st * 0.8,
              net := apply_pruning_for_model env
                (map2 (\<lambda>w v. if kw_match (Some ''kernel_mask'') (wname w) then w else w\<lparr>wval := v\<rparr>) pruned vs)\<rparr>)"
proof -
  have l1: "list_all2 (\<lambda>a b. shape (wval a) = shape (wval b)) (fresh_clone env k) pruned"
    and l2: "list_all2 (\<lambda>w v. shape (wval w) = shape v) (fresh_clone env k) vs"
    using arch by (simp_all add: same_arch_shapes [unfolded same_arch_def] shapes_vals)
  from reset_spec_loaded [OF l1 l2, of "Some ''kernel_mask''"] ckp l2
  have "reset_weights_to_checkpoint (ckp_files env) pruned (fresh_clone env k) (Some choosen_checkpoint) (Some ''kernel_mask'') =
        Inr (map2 (\<lambda>w v. if kw_match (Some ''kernel_mask'') (wname w) then w else w\<lparr>wval := v\<rparr>) pruned vs,
             length (filter (\<lambda>w. kw_match (Some ''kernel_mask'') (wname w)) pruned))"
    by (simp add: reset_weights_to_checkpoint_def load_weights_def reset_loop_eq choosen_checkpoint_eq)
  then show ?thesis
    unfolding prune_iteration_def Let_def train_epochs_density pruned by simp
qed

text \<open>
  C6: one pruning iteration, given a checkpoint of the network's
  architecture, trains, multiplies the density by 0.8, prunes to sparsity
  \<open>1 - density\<close>, resets, and hands to \<open>apply_pruning_for_model\<close> weights with the
  pruned network's names in which every weight whose name contains \<open>kernel_mask\<close>
  is the pruned one, unchanged by the reset, and every other weight holds the
  checkpoint's value at its position.
\<close>

theorem prune_iteration_reset:
  assumes pruned: "prune_SNIP env k (1 - density st * 0.8) (net (train_epochs env k st)) = pruned"
    and ckp: "ckp_files env choosen_checkpoint = Some vs"
    and arch: "shapes (fresh_clone env k) = shapes pruned" "shapes (fresh_clone env k) = map shape vs"
  shows "\<exists>ws. prune_iteration env k st =
           Inr ((train_epochs env k st)\<lparr>density := density st * 0.8, net := apply_pruning_for_model env ws\<rparr>) \<and>
         length ws = length pruned \<and>
         (\<forall>i < length ws. wname (ws ! i) = wname (pruned ! i) \<and>
            (str_in ''kernel_mask'' (wname (pruned ! i)) \<longrightarrow> ws ! i = pruned ! i) \<and>
            (\<not> str_in ''kernel_mask'' (wname (pruned ! i)) \<longrightarrow> wval (ws ! i) = vs ! i))"
proof -
  have len: "length vs = length pruned"
    using arch by (metis length_map shapes_def)
  show ?thesis
    using prune_iteration_eq [OF pruned ckp arch] len by (auto simp: kw_match_def)
qed

theorem prune_iteration_reset_witness:
  "let net0 = [\<lparr>wname = ''conv/kernel'', wval = \<lparr>shape = [1], vals = [3]\<rparr>\<rparr>,
               \<lparr>wname = ''conv/kernel_mask'', wval = \<lparr>shape = [1], vals = [0]\<rparr>\<rparr>];
       vs = [\<lparr>shape = [1], vals = [1]\<rparr>, \<lparr>shape = [1], vals = [1]\<rparr>];
       env = \<lparr>ckp_files = Map.empty(choosen_checkpoint \<mapsto> vs), train = \<lambda>k e ws. ws,
              prune_SNIP = \<lambda>k s ws. ws, apply_pruning_for_model = \<lambda>ws. ws, fresh_clone = \<lambda>k. net0\<rparr>;
       st = \<lparr>net = net0, mask_regularization = 0, density = 1\<rparr>
   in prune_SNIP env 0 (1 - density st * 0.8) (net (train_epochs env 0 st)) = net0 \<and>
      ckp_files env choosen_checkpoint = Some vs \<and>
      shapes (fresh_clone env 0) = shapes net0 \<and> shapes (fresh_clone env 0) = map shape vs \<and>
      (\<exists>ws. prune_iteration env 0 st =
           Inr ((train_epochs env 0 st)\<lparr>density := density st * 0.8, net := apply_pruning_for_model env ws\<rparr>) \<and>
         length ws = length net0 \<and>
         (\<forall>i < length ws. wname (ws ! i) = wname (net0 ! i) \<and>
            (str_in ''kernel_mask'' (wname (net0 ! i)) \<longrightarrow> ws ! i = net0 ! i) \<and>
            (\<not> str_in ''kernel_mask'' (wname (net0 ! i)) \<longrightarrow> wval (ws ! i) = vs ! i)))"
  unfolding Let_def
proof (intro conjI)
  let ?net0 = "[\<lparr>wname = ''conv/kernel'', wval = \<lparr>shape = [1], vals = [3::real]\<rparr>\<rparr>,
               \<lparr>wname = ''conv/kernel_mask'', wval = \<lparr>shape = [1], vals = [0]\<rparr>\<rparr>]"
  let ?vs = "[\<lparr>shape = [1::nat], vals = [1::real]\<rparr>, \<lparr>shape = [1], vals = [1]\<rparr>]"
  let ?env = "\<lparr>ckp_files = Map.empty(choosen_checkpoint \<mapsto> ?vs), train = \<lambda>k e ws. ws,
              prune_SNIP = \<lambda>k s ws. ws, apply_pruning_for_model = \<lambda>ws. ws, fresh_clone = \<lambda>k. ?net0\<rparr>"
  let ?st = "\<lparr>net = ?net0, mask_regularization = 0, density = 1\<rparr>"
  show h: "prune_SNIP ?env 0 (1 - density ?st * 0.8) (net (train_epochs ?env 0 ?st)) = ?net0"
    by (simp add: train_epochs_def EPOCHS_upt regularizer_schedule_def)
  show c: "ckp_files ?env choosen_checkpoint = Some ?vs" by simp
  show a1: "shapes (fresh_clone ?env 0) = shapes ?net0" by simp
  show a2: "shapes (fresh_clone ?env 0) = map shape ?vs" by (simp add: shapes_def)
  show "\<exists>ws. prune_iteration ?env 0 ?st =
           Inr ((train_epochs ?env 0 ?st)\<lparr>density := density ?st * 0.8, net := apply_pruning_for_model ?env ws\<rparr>) \<and>
         length ws = length ?net0 \<and>
         (\<forall>i < length ws. wname (ws ! i) = wname (?net0 ! i) \<and>
            (str_in ''kernel_mask'' (wname (?net0 ! i)) \<longrightarrow> ws ! i = ?net0 ! i) \<and>
            (\<not> str_in ''kernel_mask'' (wname (?net0 ! i)) \<longrightarrow> wval (ws ! i) = ?vs ! i))"
    by (rule prune_iteration_reset [OF h c a1 a2])
qed

lemma prune_iteration_step:
  assumes train: "\<And>e ws. shapes (train env k e ws) = shapes ws"
    and prune: "\<And>s ws. shapes (prune_SNIP env k s ws) = shapes ws"
    and app: "\<And>ws. shapes (apply_pruning_for_model env ws) = shapes ws"
    and shs: "shapes (fresh_clone env k) = shapes (net st)" "map shape vs = shapes (net st)"
    and ckp: "ckp_files env choosen_checkpoint = Some vs"
  shows "\<exists>st'. prune_iteration env k st = Inr st' \<and> shapes (net st') = shapes (net st) \<and>
           density st' = density st * 0.8"
proof -
  let ?pruned = "prune_SNIP env k (1 - density st * 0.8) (net (train_epochs env k st))"
  have sp: "shapes ?pruned = shapes (net st)"
    using prune train_epochs_shapes [OF train] by simp
  have "prune_iteration env k st =
           Inr ((train_epochs env k st)\<lparr>density := density st * 0.8,
              net := apply_pruning_for_model env
                (map2 (\<lambda>w v. if kw_match (Some ''kernel_mask'') (wname w) then w else w\<lparr>wval := v\<rparr>) ?pruned vs)\<rparr>)"
    using shs sp by (intro prune_iteration_eq [OF refl ckp]) simp_all
  moreover have "shapes (map2 (\<lambda>w v. if kw_match (Some ''kernel_mask'') (wname w) then w else w\<lparr>wval := v\<rparr>) ?pruned vs) =
                 shapes (net st)"
    using map2_reset_shapes [of ?pruned vs] shs sp by simp
  ultimately show ?thesis using app by simp
qed

text \<open>
  C7: when training, pruning and re-masking keep the weights'
  shapes and the checkpoint and the clones have the network's architecture, every
  one of \<open>n\<close> pruning iterations succeeds, the architecture is invariant, and the
  density after \<open>n\<close> iterations is the initial density times \<open>0.8 ^ n\<close>, never
  larger than the initial density.
\<close>

theorem prune_loop_completes:
  assumes train: "\<And>k e ws. shapes (train env k e ws) = shapes ws"
    and prune: "\<And>k s ws. shapes (prune_SNIP env k s ws) = shapes ws"
    and app: "\<And>ws. shapes (apply_pruning_for_model env ws) = shapes ws"
    and fresh: "\<And>k. shapes (fresh_clone env k) = shapes (net st)"
    and ckp: "ckp_files env choosen_checkpoint = Some vs" "map shape vs = shapes (net st)"
  shows "\<exists>st'. prune_loop env k n st = Inr st' \<and> shapes (net st') = shapes (net st) \<and>
           density st' = density st * 0.8 ^ n \<and> (0 \<le> density st \<longrightarrow> density st' \<le> density st)"
proof -
  have "\<exists>st'. prune_loop env k n st0 = Inr st' \<and> shapes (net st') = shapes (net st0) \<and>
           density st' = density st0 * 0.8 ^ n"
    if "shapes (net st0) = shapes (net st)" for st0
    using that
  proof (induction n arbitrary: k st0)
    case 0
    then show ?case by simp
  next
    case (Suc n)
    obtain st1 where it: "prune_iteration env k st0 = Inr st1" and s1: "shapes (net st1) = shapes (net st0)"
      and d1: "density st1 = density st0 * 0.8"
      using prune_iteration_step [OF train prune app, of k st0 vs] fresh ckp Suc.prems by auto
    from Suc.IH [of st1 "Suc k"] s1 Suc.prems obtain st' where
      "prune_loop env (Suc k) n st1 = Inr st'" "shapes (net st') = shapes (net st1)"
      "density st' = density st1 * 0.8 ^ n"
      by auto
    with it s1 d1 show ?case by (simp add: mult.assoc)
  qed
  then obtain st' where r: "prune_loop env k n st = Inr st'" "shapes (net st') = shapes (net st)"
    "density st' = density st * 0.8 ^ n" by blast
  have "density st * 0.8 ^ n \<le> density st" if "0 \<le> density st"
    using that by (simp add: mult_left_le power_le_one)
  with r show ?thesis by auto
qed

theorem prune_loop_completes_witness:
  "let net0 = [\<lparr>wname = ''conv/kernel'', wval = \<lparr>shape = [1], vals = [3]\<rparr>\<rparr>,
               \<lparr>wname = ''conv/kernel_mask'', wval = \<lparr>shape = [1], vals = [0]\<rparr>\<rparr>];
       vs = [\<lparr>shape = [1], vals = [1]\<rparr>, \<lparr>shape = [1], vals = [1]\<rparr>];
       env = \<lparr>ckp_files = Map.empty(choosen_checkpoint \<mapsto> vs), train = \<lambda>k e ws. ws,
              prune_SNIP = \<lambda>k s ws. ws, apply_pruning_for_model = \<lambda>ws. ws, fresh_clone = \<lambda>k. net0\<rparr>
   in \<exists>st'. prune_cycle env net0 = Inr st' \<and> shapes (net st') = shapes net0 \<and> density st' = 0.8 ^ 50"
proof -
  let ?net0 = "[\<lparr>wname = ''conv/kernel'', wval = \<lparr>shape = [1], vals = [3::real]\<rparr>\<rparr>,
               \<lparr>wname = ''conv/kernel_mask'', wval = \<lparr>shape = [1], vals = [0]\<rparr>\<rparr>]"
  let ?vs = "[\<lparr>shape = [1::nat], vals = [1::real]\<rparr>, \<lparr>shape = [1], vals = [1]\<rparr>]"
  let ?env = "\<lparr>ckp_files = Map.empty(choosen_checkpoint \<mapsto> ?vs), train = \<lambda>k e ws. ws,
              prune_SNIP = \<lambda>k s ws. ws, apply_pruning_for_model = \<lambda>ws. ws, fresh_clone = \<lambda>k. ?net0\<rparr>"
  let ?st = "\<lparr>net = ?net0, mask_regularization = 0, density = 1\<rparr>"
  have h1: "\<And>k e ws. shapes (train ?env k e ws) = shapes ws"
    and h2: "\<And>k s ws. shapes (prune_SNIP ?env k s ws) = shapes ws"
    and h3: "\<And>ws. shapes (apply_pruning_for_model ?env ws) = shapes ws"
    and h4: "\<And>k. shapes (fresh_clone ?env k) = shapes (net ?st)"
    and h5: "ckp_files ?env choosen_checkpoint = Some ?vs"
    and h6: "map shape ?vs = shapes (net ?st)"
    by (simp_all add: shapes_def)
  from prune_loop_completes [OF h1 h2 h3 h4 h5 h6, of 0 50] obtain st' where
    "prune_loop ?env 0 50 ?st = Inr st'" "shapes (net st') = shapes (net ?st)"
    "density st' = density ?st * 0.8 ^ 50"
    by blast
  then have "prune_cycle ?env ?net0 = Inr st' \<and> shapes (net st') = shapes ?net0 \<and> density st' = 0.8 ^ 50"
    by (simp only: prune_cycle_def prune_state.select_convs mult_1)
  then show ?thesis unfolding Let_def by blast
qed

lemma train_epochs_names:
  "(\<And>e ws. map wname (train env k e ws) = map wname ws) \<Longrightarrow>
   map wname (net (train_epochs env k st)) = map wname (net st)"
  by (simp add: train_epochs_def EPOCHS_upt regularizer_schedule_def)

lemma get_kernel_masks_shapes:
  "map wname a = map wname b \<Longrightarrow> shapes a = shapes b \<Longrightarrow>
   map shape (get_kernel_masks a) = map shape (get_kernel_masks b)"
proof (induction a arbitrary: b)
  case (Cons w a)
  then show ?case by (cases b) (auto simp: get_kernel_masks_def shapes_def is_kernel_mask_def)
qed (simp add: get_kernel_masks_def)

lemma set_kernel_masks_values_ok:
  "list_all2 (\<lambda>t v. shape t = shape v) (get_kernel_masks ws) vs \<Longrightarrow>
   \<exists>ws'. set_kernel_masks_values ws vs = Inr ws' \<and> get_kernel_masks ws' = vs \<and>
     filter (Not \<circ> is_kernel_mask) ws' = filter (Not \<circ> is_kernel_mask) ws"
proof (induction ws arbitrary: vs)
  case Nil
  then show ?case by (simp add: get_kernel_masks_def)
next
  case (Cons w ws)
  show ?case
  proof (cases "is_kernel_mask w")
    case True
    with Cons.prems obtain v vs' where vs: "vs = v # vs'" "shape (wval w) = shape v"
      and rest: "list_all2 (\<lambda>t v. shape t = shape v) (get_kernel_masks ws) vs'"
      by (auto simp: get_kernel_masks_def list_all2_Cons1)
    from Cons.IH [OF rest] True vs show ?thesis
      by (auto simp: assign_def get_kernel_masks_def is_kernel_mask_def)
  next
    case False
    with Cons.prems Cons.IH [of vs] show ?thesis
      by (auto simp: get_kernel_masks_def)
  qed
qed

lemma final_masks_initial:
  "final_masks (initial_distributions kms) = map (tmap (\<lambda>_. 1)) kms"
  by (simp add: final_masks_def initial_distributions_def mask_initial_value_def tmap_def)

text \<open>
  C8: the final phase undoes the pruning. When training
  keeps the weights' names and shapes and the distributions are the initial ones
  (no step updates them), every kernel mask of the network becomes all ones,
  whatever the pruning loop left in it, while every other weight keeps its trained
  value.
\<close>

theorem final_phase_resets_masks:
  assumes names: "\<And>e ws. map wname (train env 50 e ws) = map wname ws"
    and train: "\<And>e ws. shapes (train env 50 e ws) = shapes ws"
    and dist: "map shape kms = map shape (get_kernel_masks (net st))"
  shows "\<exists>st'. final_phase env (initial_distributions kms) st = Inr st' \<and>
           get_kernel_masks (net st') = map (tmap (\<lambda>_. 1)) kms \<and>
           filter (Not \<circ> is_kernel_mask) (net st') = filter (Not \<circ> is_kernel_mask) (net (train_epochs env 50 st))"
proof -
  let ?st1 = "train_epochs env 50 st"
  have "map shape (get_kernel_masks (net ?st1)) = map shape kms"
    using get_kernel_masks_shapes [OF train_epochs_names [OF names] train_epochs_shapes [OF train]] dist
    by simp
  then have "list_all2 (\<lambda>t v. shape t = shape v) (get_kernel_masks (net ?st1)) (map (tmap (\<lambda>_. 1)) kms)"
    by (simp add: list_all2_conv_all_nth list_eq_iff_nth_eq)
  from set_kernel_masks_values_ok [OF this] obtain ws' where
    "set_kernel_masks_values (net ?st1) (map (tmap (\<lambda>_. 1)) kms) = Inr ws'"
    "get_kernel_masks ws' = map (tmap (\<lambda>_. 1)) kms"
    "filter (Not \<circ> is_kernel_mask) ws' = filter (Not \<circ> is_kernel_mask) (net ?st1)"
    by blast
  then show ?thesis
    by (simp add: final_phase_def final_masks_initial)
qed
theorem final_phase_resets_masks_witness:
  "let net0 = [\<lparr>wname = ''conv/kernel'', wval = \<lparr>shape = [1], vals = [3]\<rparr>\<rparr>,
               \<lparr>wname = ''conv/kernel_mask'', wval = \<lparr>shape = [1], vals = [0]\<rparr>\<rparr>];
       env = \<lparr>ckp_files = Map.empty, train = \<lambda>k e ws. ws,
              prune_SNIP = \<lambda>k s ws. ws, apply_pruning_for_model = \<lambda>ws. ws, fresh_clone = \<lambda>k. net0\<rparr>;
       st = \<lparr>net = net0, mask_regularization = 0, density = 1\<rparr>;
       kms = [\<lparr>shape = [1], vals = [0]\<rparr>]
   in map shape kms = map shape (get_kernel_masks (net st)) \<and>
      (\<exists>st'. final_phase env (initial_distributions kms) st = Inr st' \<and>
         get_kernel_masks (net st') = [\<lparr>shape = [1], vals = [1]\<rparr>] \<and>
         filter (Not \<circ> is_kernel_mask) (net st') = [hd net0])"
  unfolding Let_def
proof -
  let ?net0 = "[\<lparr>wname = ''conv/kernel'', wval = \<lparr>shape = [1], vals = [3::real]\<rparr>\<rparr>,
               \<lparr>wname = ''conv/kernel_mask'', wval = \<lparr>shape = [1], vals = [0]\<rparr>\<rparr>]"
  let ?env = "\<lparr>ckp_files = Map.empty, train = \<lambda>k e ws. ws,
              prune_SNIP = \<lambda>k s ws. ws, apply_pruning_for_model = \<lambda>ws. ws, fresh_clone = \<lambda>k. ?net0\<rparr>"
  let ?st = "\<lparr>net = ?net0, mask_regularization = 0, density = 1\<rparr>"
  let ?kms = "[\<lparr>shape = [1::nat], vals = [0::real]\<rparr>]"
  have h1: "\<And>e ws. map wname (train ?env 50 e ws) = map wname ws"
    and h2: "\<And>e ws. shapes (train ?env 50 e ws) = shapes ws"
    by simp_all
  have h3: "map shape ?kms = map shape (get_kernel_masks (net ?st))"
    by (simp add: get_kernel_masks_def is_kernel_mask_def)
  have t: "net (train_epochs ?env 50 ?st) = ?net0"
    by (simp add: train_epochs_def EPOCHS_upt regularizer_schedule_def)
  have f: "filter (Not \<circ> is_kernel_mask) ?net0 = [hd ?net0]"
    by (simp add: is_kernel_mask_def)
  from final_phase_resets_masks [OF h1 h2 h3] h3 t f
  show "map shape ?kms = map shape (get_kernel_masks (net ?st)) \<and>
      (\<exists>st'. final_phase ?env (initial_distributions ?kms) ?st = Inr st' \<and>
         get_kernel_masks (net st') = [\<lparr>shape = [1], vals = [1]\<rparr>] \<and>
         filter (Not \<circ> is_kernel_mask) (net st') = [hd ?net0])"
    by (simp add: tmap_def)
qed
lemma initial_sampling_ones:
  assumes "\<forall>n. 0 \<le> rng n \<and> rng n < 1" and "list_all wf_tensor ks" and "map shape kms = map shape ks"
  shows "\<exists>pos'. set_kernel_masks_from_distributions kms (initial_distributions ks)
             mask_activation rng pos = Inr (map (tmap (\<lambda>_. 1)) ks, pos')"
proof -
  have l1: "list_all2 (\<lambda>km d. shape km = shape (mask_activation d)) kms (initial_distributions ks)"
    using assms(3) by (simp add: initial_distributions_def mask_activation_def list_all2_conv_all_nth list_eq_iff_nth_eq)
  have l2: "list_all (\<lambda>d. wf_tensor (mask_activation d) \<and> all_vals (\<lambda>x. 1 \<le> \<bar>x\<bar>) (mask_activation d))
                   (initial_distributions ks)"
    using assms(2) by (auto simp: initial_distributions_def mask_activation_def mask_initial_value_def list_all_iff)
  have l3: "map (\<lambda>d. tmap (\<lambda>p. if 0 \<le> p then 1 else -1) (mask_activation d))
                   (initial_distributions ks) = map (tmap (\<lambda>_. 1)) ks"
    by (simp add: initial_distributions_def mask_activation_def mask_initial_value_def tmap_def)
  show ?thesis
    using set_kernel_masks_sure [OF assms(1) l1 l2, where pos = pos] l3 by simp
qed

lemma load_weights_Inr:
  "list_all2 (\<lambda>w v. shape (wval w) = shape v) ws vs \<Longrightarrow> store p = Some vs \<Longrightarrow>
   load_weights store p ws = Inr (map2 (\<lambda>w v. w\<lparr>wval := v\<rparr>) ws vs)"
  by (simp add: load_weights_def)

lemma map2_wval_names_shapes:
  assumes "list_all2 (\<lambda>w v. shape (wval w) = shape v) ws vs"
  shows "map wname (map2 (\<lambda>w v. w\<lparr>wval := v\<rparr>) ws vs) = map wname ws \<and>
         shapes (map2 (\<lambda>w v. w\<lparr>wval := v\<rparr>) ws vs) = shapes ws"
  using assms by (induction rule: list_all2_induct) (simp_all add: shapes_def)

text \<open>
  C17: the script cannot start without the \<open>perf\<close>
  checkpoint: a missing file stops it with \<open>FileNotFoundError\<close> at the load of
  \<open>perf_net\<close>, although the masks read from that network are never used.
\<close>

theorem recipe_start_needs_perf:
  "store perf_checkpoint = None \<Longrightarrow> recipe_start store rng model = Inl (FileNotFoundError perf_checkpoint)"
  by (simp add: recipe_start_def load_weights_def)
theorem recipe_start_needs_perf_witness:
  "Map.empty perf_checkpoint = (None :: tensor list option) \<and>
   recipe_start Map.empty (\<lambda>n. 1/2) [\<lparr>wname = ''conv/kernel'', wval = \<lparr>shape = [1], vals = [3]\<rparr>\<rparr>] =
     Inl (FileNotFoundError ''data/VGG19_IMP03_ticket/770423/10.h5'')"
  using recipe_start_needs_perf [where store = Map.empty and rng = "\<lambda>n. 1/2"
      and model = "[\<lparr>wname = ''conv/kernel'', wval = \<lparr>shape = [1], vals = [3]\<rparr>\<rparr>]"]
  by (simp add: perf_checkpoint_def checkpoint_lookup_def)

end
