(* ===== verification/Persistence.thy ===== *)
theory Persistence
  imports Tools Masks
begin

text \<open>
  Saving and restoring of \<^verbatim>\<open>src/modules/tfhi/tools.py\<close>: \<open>save_optimizer\<close>,
  \<open>save_model\<close>, \<open>update_optimizer\<close>, \<open>build_optimizer\<close> and
  \<open>get_optimizer_lr_metric\<close>. The file system is a map from paths to blobs (a
  pickled list of arrays or an HDF5 weight file) and the set of directories
  \<open>os.makedirs\<close> created. A Keras optimiser is seen through its weight list
  (\<open>optimizer.weights\<close>: the iteration counter and the slot variables, empty until
  the first \<open>apply_gradients\<close> creates them), the variables that first call creates
  for given trainable weights, and its learning-rate schedule.
\<close>

section \<open>Files\<close>

datatype blob = Pickle "tensor list" | H5 "tensor list"

record fs_state =
  files :: "string \<Rightarrow> blob option"
  made_dirs :: "string set"

text \<open>
  \<open>if dirpath := os.path.dirname(path): os.makedirs(dirpath, exist_ok=True)\<close>, as
  \<open>ensure_parent\<close> of the prelude on this file system.
\<close>

definition ensure_dir :: "string \<Rightarrow> fs_state \<Rightarrow> py_exc + fs_state" where
  "ensure_dir path fs =
     (case ensure_parent (files fs) (made_dirs fs) path of
        Inl e \<Rightarrow> Inl e
      | Inr ds \<Rightarrow> Inr (fs\<lparr>made_dirs := ds\<rparr>))"

text \<open>
  Opening \<open>path\<close> for writing (\<open>open(path, "wb")\<close>, or the HDF5 file
  \<open>save_weights\<close> creates): the errors of \<open>open_write_error\<close>; otherwise the file
  is replaced.
\<close>

definition write_file :: "string \<Rightarrow> blob \<Rightarrow> fs_state \<Rightarrow> py_exc + fs_state" where
  "write_file path b fs =
     (case open_write_error (made_dirs fs) path of
        Some e \<Rightarrow> Inl e
      | None \<Rightarrow> Inr (fs\<lparr>files := (files fs)(path \<mapsto> b)\<rparr>))"

text \<open>The checkpoint store \<open>load_weights\<close> reads: the HDF5 files of the file system.\<close>

definition h5_store :: "fs_state \<Rightarrow> ckp_store" where
  "h5_store fs p = (case files fs p of Some (H5 vs) \<Rightarrow> Some vs | _ \<Rightarrow> None)"

section \<open>Optimisers\<close>

record optimizer =
  oweights :: "tensor list"
  slot_init :: "tensor list \<Rightarrow> tensor list"
  decayed_lr :: "(tensor list \<Rightarrow> real) option"

text \<open>
  \<open>OptimizerV2.set_weights\<close>: a list of another length, or a weight of another
  shape, raises \<open>ValueError\<close>.
\<close>

definition opt_set_weights :: "optimizer \<Rightarrow> tensor list \<Rightarrow> py_exc + optimizer" where
  "opt_set_weights opt ws =
     (if length ws \<noteq> length (oweights opt) then Inl ValueError
      else if list_all2 (\<lambda>p w. shape p = shape w) (oweights opt) ws then Inr (opt\<lparr>oweights := ws\<rparr>)
      else Inl ValueError)"

section \<open>The helpers\<close>

definition save_optimizer :: "optimizer \<Rightarrow> string \<Rightarrow> fs_state \<Rightarrow> py_exc + fs_state" where
  "save_optimizer optimizer path fs =
     (case ensure_dir path fs of
        Inl e \<Rightarrow> Inl e
      | Inr fs1 \<Rightarrow> write_file path (Pickle (oweights optimizer)) fs1)"

definition save_model :: "weight list \<Rightarrow> string \<Rightarrow> fs_state \<Rightarrow> py_exc + fs_state" where
  "save_model model path fs =
     (case ensure_dir path fs of
        Inl e \<Rightarrow> Inl e
      | Inr fs1 \<Rightarrow> write_file path (H5 (map wval model)) fs1)"

text \<open>
  \<open>update_optimizer\<close>: \<open>open(path, "rb")\<close> raises \<open>IsADirectoryError\<close> for a
  directory and \<open>FileNotFoundError\<close> for a missing file, and a file that is
  not a pickle raises \<open>UnpicklingError\<close>; the \<open>ValueError\<close> of \<open>set_weights\<close> is
  caught, a warning printed (the flag of the result) and the optimiser left as it
  was.
\<close>

definition update_optimizer :: "optimizer \<Rightarrow> string \<Rightarrow> fs_state \<Rightarrow> py_exc + optimizer \<times> bool" where
  "update_optimizer optimizer path fs =
     (case open_read (files fs) (made_dirs fs) path of
        Inl e \<Rightarrow> Inl e
      | Inr (H5 _) \<Rightarrow> Inl (RaisedBy ''UnpicklingError'')
      | Inr (Pickle weights) \<Rightarrow>
          (case opt_set_weights optimizer weights of
             Inr opt' \<Rightarrow> Inr (opt', False)
           | Inl ValueError \<Rightarrow> Inr (optimizer, True)
           | Inl e \<Rightarrow> Inl e))"

definition zeros_like :: "tensor \<Rightarrow> tensor" where
  "zeros_like t = tmap (\<lambda>_. 0) t"

text \<open>
  Keras ends every \<open>apply_gradients\<close> with \<open>iterations.assign_add(1)\<close>; the
  iteration counter is the first of the optimiser's weights.
\<close>

definition count_iteration :: "tensor list \<Rightarrow> tensor list" where
  "count_iteration ws = (case ws of [] \<Rightarrow> [] | it # rest \<Rightarrow> tmap (\<lambda>x. x + 1) it # rest)"

text \<open>
  \<open>build_optimizer\<close>: one \<open>apply_gradients\<close> of zero gradients, which on first use
  creates the optimiser's variables for the trainable weights, applies \<open>upd\<close>, the
  optimiser's step on one variable, to each pair, and counts the iteration.
\<close>

definition build_optimizer ::
  "(tensor list \<Rightarrow> nat \<Rightarrow> tensor \<Rightarrow> tensor \<Rightarrow> tensor list \<times> tensor) \<Rightarrow> optimizer \<Rightarrow> tensor list
   \<Rightarrow> optimizer \<times> tensor list" where
  "build_optimizer upd optimizer trainable_weights =
     (let opt1 = (if oweights optimizer = [] then optimizer\<lparr>oweights := slot_init optimizer trainable_weights\<rparr>
                  else optimizer);
          zero_grad = map zeros_like trainable_weights;
          (ow, tw) = apply_gradients upd (oweights opt1)
                       (zip zero_grad [0..<length trainable_weights]) trainable_weights
      in (opt1\<lparr>oweights := count_iteration ow\<rparr>, tw))"

text \<open>
  \<open>get_optimizer_lr_metric\<close>: the metric closes over the optimiser object, so it
  reports the decayed rate of the optimiser's state when it is called (\<open>now\<close>, the
  same optimiser later); an optimiser without \<open>_decayed_lr\<close> gives \<open>None\<close>.
\<close>

definition get_optimizer_lr_metric :: "optimizer \<Rightarrow> (optimizer \<Rightarrow> real) option" where
  "get_optimizer_lr_metric opt =
     (case decayed_lr opt of
        Some f \<Rightarrow> Some (\<lambda>now. f (oweights now))
      | None \<Rightarrow> None)"

section \<open>Lemmas\<close>

lemma map_shape_count_iteration [simp]: "map shape (count_iteration ws) = map shape ws"
  by (simp add: count_iteration_def split: list.splits)

lemma ensure_dir_files: "ensure_dir path fs = Inr fs1 \<Longrightarrow> files fs1 = files fs"
  by (auto simp: ensure_dir_def split: sum.splits)

lemma write_file_Inr:
  "write_file path b fs = Inr fs' \<longleftrightarrow>
   path \<noteq> [] \<and> last path \<noteq> CHR ''/'' \<and> \<not> is_dir (made_dirs fs) path \<and> fs' = fs\<lparr>files := (files fs)(path \<mapsto> b)\<rparr>"
  by (auto simp: write_file_def open_write_error_def split: option.splits)

lemma save_optimizer_files:
  "save_optimizer opt path fs = Inr fs' \<Longrightarrow>
   files fs' = (files fs)(path \<mapsto> Pickle (oweights opt)) \<and> \<not> is_dir (made_dirs fs') path"
  by (auto simp: save_optimizer_def write_file_Inr dest: ensure_dir_files split: sum.splits)

lemma open_read_file: "\<not> is_dir ds path \<Longrightarrow> open_read fs ds path = (case fs path of Some b \<Rightarrow> Inr b | None \<Rightarrow> Inl (FileNotFoundError path))"
  by (simp add: open_read_def)

lemma save_model_files:
  "save_model model path fs = Inr fs' \<Longrightarrow> path \<noteq> [] \<and> files fs' = (files fs)(path \<mapsto> H5 (map wval model))"
  by (auto simp: save_model_def write_file_Inr dest: ensure_dir_files split: sum.splits)

lemma list_all2_shape_length: "list_all2 (\<lambda>p w. shape p = shape w) xs ys \<Longrightarrow> length ys = length xs"
  by (simp add: list_all2_lengthD)

text \<open>
  C10: saving an optimiser and restoring the file into an
  optimiser whose weights have the same shapes gives that optimiser exactly the
  saved weights, with no warning.
\<close>

theorem update_optimizer_roundtrip:
  assumes "save_optimizer opt path fs = Inr fs'"
    and "list_all2 (\<lambda>p w. shape p = shape w) (oweights target) (oweights opt)"
  shows "update_optimizer target path fs' = Inr (target\<lparr>oweights := oweights opt\<rparr>, False)"
  using save_optimizer_files [OF assms(1)] assms(2) list_all2_shape_length [OF assms(2)]
  by (simp add: update_optimizer_def opt_set_weights_def open_read_file)

text \<open>
  Restoring a pickled weight list that does
  not fit the optimiser (an optimiser not built yet has no weights) is not fatal:
  the optimiser is left as it was and a warning is printed.
\<close>

theorem update_optimizer_tolerates_mismatch:
  assumes "files fs path = Some (Pickle ws)" and "\<not> is_dir (made_dirs fs) path"
    and "\<not> list_all2 (\<lambda>p w. shape p = shape w) (oweights opt) ws"
  shows "update_optimizer opt path fs = Inr (opt, True)"
  using assms by (simp add: update_optimizer_def opt_set_weights_def open_read_file)

text \<open>
  C23: the only exceptions \<open>update_optimizer\<close> lets out
  are \<open>IsADirectoryError\<close> for a directory, \<open>FileNotFoundError\<close> for a missing
  file and \<open>UnpicklingError\<close> for a file that is not a pickle; in particular it
  never raises \<open>ValueError\<close>.
\<close>

theorem update_optimizer_errors:
  "update_optimizer opt path fs = Inl e \<longleftrightarrow>
     path \<noteq> [] \<and> is_dir (made_dirs fs) path \<and> e = RaisedBy ''IsADirectoryError'' \<or>
     \<not> (path \<noteq> [] \<and> is_dir (made_dirs fs) path) \<and>
       (files fs path = None \<and> e = FileNotFoundError path \<or>
        (\<exists>vs. files fs path = Some (H5 vs)) \<and> e = RaisedBy ''UnpicklingError'')"
  by (auto simp: update_optimizer_def opt_set_weights_def open_read_def
      split: option.splits blob.splits sum.splits py_exc.splits)

lemma apply_gradients_fixed:
  "(\<And>g i os. (g, i) \<in> set gvs \<Longrightarrow> snd (upd os i g (vs ! i)) = vs ! i) \<Longrightarrow>
   snd (apply_gradients upd os gvs vs) = vs"
proof (induction gvs arbitrary: os)
  case (Cons p gvs)
  obtain g i where p: "p = (g, i)" by fastforce
  from Cons.prems [of g i] p have "snd (upd os i g (vs ! i)) = vs ! i" by simp
  with Cons p show ?case by (simp add: split_beta)
qed simp

text \<open>
  Building an optimiser with zero gradients does
  not change the model's trainable weights, for any optimiser step that leaves a
  variable unchanged under a zero gradient.
\<close>

theorem build_optimizer_keeps_weights:
  assumes "\<And>os i v. snd (upd os i (zeros_like v) v) = v"
  shows "snd (build_optimizer upd opt tw) = tw"
proof -
  have "snd (upd os i g (tw ! i)) = tw ! i" if "(g, i) \<in> set (zip (map zeros_like tw) [0..<length tw])" for g i os
    using that assms by (auto simp: set_zip)
  then show ?thesis
    by (simp add: build_optimizer_def Let_def split_beta apply_gradients_fixed)
qed

text \<open>
  C11: a model saved by \<open>save_model\<close> and read back by
  \<open>reset_weights_to_checkpoint\<close> into a model of the same architecture gets
  exactly the saved values, except the weights the skip keyword names.
\<close>

theorem save_model_reload:
  assumes "save_model model path fs = Inr fs'"
    and "same_arch fresh model" and "same_arch fresh ws"
  shows "reset_weights_to_checkpoint (h5_store fs') ws fresh (Some path) kw =
     Inr (map2 (\<lambda>w v. if kw_match kw (wname w) then w else w\<lparr>wval := v\<rparr>) ws (map wval model),
          length (filter (\<lambda>w. kw_match kw (wname w)) ws))"
proof -
  from save_model_files [OF assms(1)] have p: "path \<noteq> []" and st: "h5_store fs' path = Some (map wval model)"
    by (simp_all add: h5_store_def)
  have l1: "list_all2 (\<lambda>a b. shape (wval a) = shape (wval b)) fresh ws"
    using assms(3) by (simp add: same_arch_def)
  have l2: "list_all2 (\<lambda>w v. shape (wval w) = shape v) fresh (map wval model)"
    using assms(2) by (simp add: same_arch_def list_all2_map2)
  from reset_spec_loaded [OF l1 l2, of kw] st p l2 show ?thesis
    by (simp add: reset_weights_to_checkpoint_def load_weights_def reset_loop_eq)
qed
lemma list_all2_shape_iff: "list_all2 (\<lambda>p w. shape p = shape w) xs ys \<longleftrightarrow> map shape xs = map shape ys"
  by (auto simp: list_all2_conv_all_nth list_eq_iff_nth_eq)

lemma apply_gradients_state_shapes:
  "(\<And>os i g v. map shape (fst (upd os i g v)) = map shape os) \<Longrightarrow>
   map shape (fst (apply_gradients upd os gvs vs)) = map shape os"
proof (induction gvs arbitrary: os vs)
  case (Cons p gvs)
  obtain g i where "p = (g, i)" by fastforce
  with Cons show ?case by (simp add: split_beta)
qed simp

text \<open>
  C24: the intended order of the helpers works. An optimiser built
  by \<open>build_optimizer\<close>, whose variables have the layout of the saved ones, is
  restored from the file without warning; restoring a non-empty file into the
  same optimiser before building only warns and keeps it empty.
\<close>

theorem build_then_update:
  assumes upd: "\<And>os i g v. map shape (fst (upd os i g v)) = map shape os"
    and empty: "oweights opt = []"
    and saved: "save_optimizer src path fs = Inr fs'"
    and layout: "map shape (slot_init opt tw) = map shape (oweights src)"
  shows "update_optimizer (fst (build_optimizer upd opt tw)) path fs' =
           Inr ((fst (build_optimizer upd opt tw))\<lparr>oweights := oweights src\<rparr>, False) \<and>
         (oweights src \<noteq> [] \<longrightarrow> update_optimizer opt path fs' = Inr (opt, True))"
proof -
  let ?b = "fst (build_optimizer upd opt tw)"
  have "map shape (oweights ?b) = map shape (slot_init opt tw)"
    using empty apply_gradients_state_shapes [OF upd]
    by (simp add: build_optimizer_def Let_def split_beta)
  with layout have "list_all2 (\<lambda>p w. shape p = shape w) (oweights ?b) (oweights src)"
    by (simp add: list_all2_shape_iff)
  moreover have "length (oweights src) = length (oweights ?b)"
    using calculation by (rule list_all2_shape_length)
  ultimately have "update_optimizer ?b path fs' = Inr (?b\<lparr>oweights := oweights src\<rparr>, False)"
    using save_optimizer_files [OF saved] by (simp add: update_optimizer_def opt_set_weights_def open_read_file)
  moreover have "update_optimizer opt path fs' = Inr (opt, True)" if "oweights src \<noteq> []"
    using save_optimizer_files [OF saved] that empty by (simp add: update_optimizer_def opt_set_weights_def open_read_file)
  ultimately show ?thesis by blast
qed

theorem update_optimizer_roundtrip_witness:
  "save_optimizer \<lparr>oweights = [\<lparr>shape = [], vals = [3]\<rparr>], slot_init = \<lambda>tw. [], decayed_lr = None\<rparr> ''ckp/opt.pkl''
     \<lparr>files = Map.empty, made_dirs = {}\<rparr> =
     Inr \<lparr>files = Map.empty(''ckp/opt.pkl'' \<mapsto> Pickle [\<lparr>shape = [], vals = [3]\<rparr>]), made_dirs = {''ckp''}\<rparr> \<and>
   list_all2 (\<lambda>p w. shape p = shape w) [\<lparr>shape = [], vals = [0]\<rparr>] [\<lparr>shape = [], vals = [3]\<rparr>] \<and>
   update_optimizer \<lparr>oweights = [\<lparr>shape = [], vals = [0]\<rparr>], slot_init = \<lambda>tw. [], decayed_lr = None\<rparr> ''ckp/opt.pkl''
     \<lparr>files = Map.empty(''ckp/opt.pkl'' \<mapsto> Pickle [\<lparr>shape = [], vals = [3]\<rparr>]), made_dirs = {''ckp''}\<rparr> =
     Inr (\<lparr>oweights = [\<lparr>shape = [], vals = [3]\<rparr>], slot_init = \<lambda>tw. [], decayed_lr = None\<rparr>, False)"
proof -
  have s: "save_optimizer \<lparr>oweights = [\<lparr>shape = [], vals = [3]\<rparr>], slot_init = \<lambda>tw. [], decayed_lr = None\<rparr> ''ckp/opt.pkl''
     \<lparr>files = Map.empty, made_dirs = {}\<rparr> =
     Inr \<lparr>files = Map.empty(''ckp/opt.pkl'' \<mapsto> Pickle [\<lparr>shape = [], vals = [3]\<rparr>]), made_dirs = {''ckp''}\<rparr>"
    by (simp add: save_optimizer_def ensure_dir_def ensure_parent_def makedirs_def dirname_def write_file_def open_write_error_def is_dir_def ancestors_def)
  have l: "list_all2 (\<lambda>p w. shape p = shape w) [\<lparr>shape = [], vals = [0::real]\<rparr>] [\<lparr>shape = [], vals = [3]\<rparr>]"
    by simp
  from update_optimizer_roundtrip [where target = "\<lparr>oweights = [\<lparr>shape = [], vals = [0]\<rparr>], slot_init = \<lambda>tw. [], decayed_lr = None\<rparr>", OF s] s l
  show ?thesis by simp
qed

theorem update_optimizer_tolerates_mismatch_witness:
  "files \<lparr>files = Map.empty(''opt.pkl'' \<mapsto> Pickle [\<lparr>shape = [], vals = [3]\<rparr>]), made_dirs = {}\<rparr> ''opt.pkl'' =
     Some (Pickle [\<lparr>shape = [], vals = [3]\<rparr>]) \<and>
   \<not> list_all2 (\<lambda>p w. shape p = shape w) [] [\<lparr>shape = [], vals = [3::real]\<rparr>] \<and>
   update_optimizer \<lparr>oweights = [], slot_init = \<lambda>tw. [], decayed_lr = None\<rparr> ''opt.pkl''
     \<lparr>files = Map.empty(''opt.pkl'' \<mapsto> Pickle [\<lparr>shape = [], vals = [3]\<rparr>]), made_dirs = {}\<rparr> =
     Inr (\<lparr>oweights = [], slot_init = \<lambda>tw. [], decayed_lr = None\<rparr>, True)"
  using update_optimizer_tolerates_mismatch [where fs = "\<lparr>files = Map.empty(''opt.pkl'' \<mapsto> Pickle [\<lparr>shape = [], vals = [3]\<rparr>]), made_dirs = {}\<rparr>"
      and path = "''opt.pkl''" and ws = "[\<lparr>shape = [], vals = [3]\<rparr>]"
      and opt = "\<lparr>oweights = [], slot_init = \<lambda>tw. [], decayed_lr = None\<rparr>"]
  by (simp add: is_dir_def)

theorem build_optimizer_keeps_weights_witness:
  "(\<forall>os i v. snd ((\<lambda>os i g v. (os, tmap2 (\<lambda>x d. x - d / 10) v g)) os i (zeros_like v) v) = v) \<and>
   snd (build_optimizer (\<lambda>os i g v. (os, tmap2 (\<lambda>x d. x - d / 10) v g))
          \<lparr>oweights = [], slot_init = \<lambda>tw. [], decayed_lr = None\<rparr> [\<lparr>shape = [2], vals = [1, 2]\<rparr>]) =
     [\<lparr>shape = [2], vals = [1, 2]\<rparr>]"
proof -
  have h: "snd ((\<lambda>os i g v. (os, tmap2 (\<lambda>x d. x - d / 10) v g)) os i (zeros_like v) v) = v" for os :: "tensor list" and i v
    by (simp add: zeros_like_def tmap_def tmap2_def zip_map2 zip_same_conv_map comp_def)
  from build_optimizer_keeps_weights [where upd = "\<lambda>os i g v. (os, tmap2 (\<lambda>x d. x - d / 10) v g)", OF h,
      where opt = "\<lparr>oweights = [], slot_init = \<lambda>tw. [], decayed_lr = None\<rparr>" and tw = "[\<lparr>shape = [2], vals = [1, 2]\<rparr>]"] h
  show ?thesis by simp
qed

theorem build_then_update_witness:
  "(\<forall>os i g v. map shape (fst ((\<lambda>os i g v. (os, v)) os i g v)) = map shape os) \<and>
   oweights \<lparr>oweights = [], slot_init = \<lambda>tw. [\<lparr>shape = [], vals = [0]\<rparr>], decayed_lr = None\<rparr> = [] \<and>
   save_optimizer \<lparr>oweights = [\<lparr>shape = [], vals = [3]\<rparr>], slot_init = \<lambda>tw. [], decayed_lr = None\<rparr> ''opt.pkl''
     \<lparr>files = Map.empty, made_dirs = {}\<rparr> =
     Inr \<lparr>files = Map.empty(''opt.pkl'' \<mapsto> Pickle [\<lparr>shape = [], vals = [3]\<rparr>]), made_dirs = {}\<rparr> \<and>
   update_optimizer (fst (build_optimizer (\<lambda>os i g v. (os, v))
       \<lparr>oweights = [], slot_init = \<lambda>tw. [\<lparr>shape = [], vals = [0]\<rparr>], decayed_lr = None\<rparr> [])) ''opt.pkl''
       \<lparr>files = Map.empty(''opt.pkl'' \<mapsto> Pickle [\<lparr>shape = [], vals = [3]\<rparr>]), made_dirs = {}\<rparr> =
     Inr (\<lparr>oweights = [\<lparr>shape = [], vals = [3]\<rparr>], slot_init = \<lambda>tw. [\<lparr>shape = [], vals = [0]\<rparr>], decayed_lr = None\<rparr>, False) \<and>
   update_optimizer \<lparr>oweights = [], slot_init = \<lambda>tw. [\<lparr>shape = [], vals = [0]\<rparr>], decayed_lr = None\<rparr> ''opt.pkl''
       \<lparr>files = Map.empty(''opt.pkl'' \<mapsto> Pickle [\<lparr>shape = [], vals = [3]\<rparr>]), made_dirs = {}\<rparr> =
     Inr (\<lparr>oweights = [], slot_init = \<lambda>tw. [\<lparr>shape = [], vals = [0]\<rparr>], decayed_lr = None\<rparr>, True)"
proof -
  let ?opt = "\<lparr>oweights = [], slot_init = \<lambda>tw. [\<lparr>shape = [], vals = [0::real]\<rparr>], decayed_lr = None\<rparr>"
  let ?src = "\<lparr>oweights = [\<lparr>shape = [], vals = [3::real]\<rparr>], slot_init = \<lambda>tw. [], decayed_lr = None\<rparr>"
  let ?fs' = "\<lparr>files = Map.empty(''opt.pkl'' \<mapsto> Pickle [\<lparr>shape = [], vals = [3]\<rparr>]), made_dirs = {}\<rparr>"
  have u: "\<And>os i g v. map shape (fst ((\<lambda>os i g v. (os, v)) os i g v)) = map shape os" by simp
  have e: "oweights ?opt = []" by simp
  have s: "save_optimizer ?src ''opt.pkl'' \<lparr>files = Map.empty, made_dirs = {}\<rparr> = Inr ?fs'"
    by (simp add: save_optimizer_def ensure_dir_def ensure_parent_def makedirs_def dirname_def write_file_def open_write_error_def is_dir_def ancestors_def)
  have l: "map shape (slot_init ?opt []) = map shape (oweights ?src)" by simp
  have b: "fst (build_optimizer (\<lambda>os i g v. (os, v)) ?opt []) = ?opt\<lparr>oweights := [\<lparr>shape = [], vals = [1]\<rparr>]\<rparr>"
    by (simp add: build_optimizer_def count_iteration_def)
  from build_then_update [where upd = "\<lambda>os i g v. (os, v)", OF u e s l] s b show ?thesis by simp
qed

theorem save_model_reload_witness:
  "save_model [\<lparr>wname = ''k'', wval = \<lparr>shape = [1], vals = [7]\<rparr>\<rparr>] ''m.h5'' \<lparr>files = Map.empty, made_dirs = {}\<rparr> =
     Inr \<lparr>files = Map.empty(''m.h5'' \<mapsto> H5 [\<lparr>shape = [1], vals = [7]\<rparr>]), made_dirs = {}\<rparr> \<and>
   same_arch [\<lparr>wname = ''k'', wval = \<lparr>shape = [1], vals = [0]\<rparr>\<rparr>] [\<lparr>wname = ''k'', wval = \<lparr>shape = [1], vals = [7]\<rparr>\<rparr>] \<and>
   same_arch [\<lparr>wname = ''k'', wval = \<lparr>shape = [1], vals = [0]\<rparr>\<rparr>] [\<lparr>wname = ''k'', wval = \<lparr>shape = [1], vals = [2]\<rparr>\<rparr>] \<and>
   reset_weights_to_checkpoint (h5_store \<lparr>files = Map.empty(''m.h5'' \<mapsto> H5 [\<lparr>shape = [1], vals = [7]\<rparr>]), made_dirs = {}\<rparr>)
      [\<lparr>wname = ''k'', wval = \<lparr>shape = [1], vals = [2]\<rparr>\<rparr>] [\<lparr>wname = ''k'', wval = \<lparr>shape = [1], vals = [0]\<rparr>\<rparr>]
      (Some ''m.h5'') None =
     Inr ([\<lparr>wname = ''k'', wval = \<lparr>shape = [1], vals = [7]\<rparr>\<rparr>], 0)"
proof -
  let ?fs' = "\<lparr>files = Map.empty(''m.h5'' \<mapsto> H5 [\<lparr>shape = [1], vals = [7::real]\<rparr>]), made_dirs = {}\<rparr>"
  have s: "save_model [\<lparr>wname = ''k'', wval = \<lparr>shape = [1], vals = [7]\<rparr>\<rparr>] ''m.h5'' \<lparr>files = Map.empty, made_dirs = {}\<rparr> = Inr ?fs'"
    by (simp add: save_model_def ensure_dir_def ensure_parent_def makedirs_def dirname_def write_file_def open_write_error_def is_dir_def ancestors_def)
  have a1: "same_arch [\<lparr>wname = ''k'', wval = \<lparr>shape = [1], vals = [0::real]\<rparr>\<rparr>] [\<lparr>wname = ''k'', wval = \<lparr>shape = [1], vals = [7]\<rparr>\<rparr>]"
    and a2: "same_arch [\<lparr>wname = ''k'', wval = \<lparr>shape = [1], vals = [0::real]\<rparr>\<rparr>] [\<lparr>wname = ''k'', wval = \<lparr>shape = [1], vals = [2]\<rparr>\<rparr>]"
    by (simp_all add: same_arch_def)
  from save_model_reload [OF s a1 a2, where kw = None] s a1 a2 show ?thesis by simp
qed
end
