(* ===== verification/ModelInfo.thy ===== *)
theory ModelInfo
  imports Tools "HOL-Library.Multiset"
begin

text \<open>
  \<open>print_model_info\<close> of \<^verbatim>\<open>src/modules/tfhi/tools.py\<close>: a \<open>collections.Counter\<close> of the
  layer classes, the number of trainable parameters, and the parameters of the
  kernels, biases and batch-normalisation layers with their share of the trainable
  ones. The printed lines are the result; the divisions raise
  \<open>ZeroDivisionError\<close> after the first lines are printed. The Counter is an
  association list in insertion order (the order \<open>dict(layer_counts)\<close> prints),
  and the lemmas relate it to the multiset of the classes counted.
\<close>

section \<open>The counter\<close>

text \<open>\<open>layer_counts[k] += 1\<close>: a missing key starts at 0 and is appended.\<close>

fun counter_inc :: "string \<Rightarrow> (string \<times> nat) list \<Rightarrow> (string \<times> nat) list" where
  "counter_inc k [] = [(k, 1)]"
| "counter_inc k ((k', n) # c) = (if k = k' then (k', Suc n) # c else (k', n) # counter_inc k c)"

text \<open>The four \<open>isinstance\<close> tests of the first loop, in the code's order.\<close>

definition counted_classes :: "(layer_class \<times> string) list" where
  "counted_classes =
     [(Dense, ''Dense''), (Conv2D, ''Conv2D''), (BatchNormalization, ''BatchNorm''), (Dropout, ''Dropout'')]"

definition count_layer :: "layer \<Rightarrow> (string \<times> nat) list \<Rightarrow> (string \<times> nat) list" where
  "count_layer l c =
     fold (\<lambda>(cls, key) c. if cls \<in> set (lclasses l) then counter_inc key c else c) counted_classes c"

definition layer_counts :: "layer list \<Rightarrow> (string \<times> nat) list" where
  "layer_counts layers = fold count_layer layers []"

section \<open>Parameter counts\<close>

definition opt_elements :: "tensor option \<Rightarrow> nat" where
  "opt_elements t = (case t of Some v \<Rightarrow> num_elements (shape v) | None \<Rightarrow> 0)"

definition trainable_count :: "tensor list \<Rightarrow> nat" where
  "trainable_count trainable_weights = fold (\<lambda>w n. n + num_elements (shape w)) trainable_weights 0"

text \<open>
  The second loop: \<open>bn\<close>, \<open>biases\<close>, \<open>kernels\<close>. An attribute that is missing or
  \<open>None\<close> adds nothing (\<open>lkernel = None\<close> is a layer without \<open>kernel\<close>).
\<close>

definition param_counts :: "layer list \<Rightarrow> nat \<times> nat \<times> nat" where
  "param_counts layers =
     fold (\<lambda>l (bn, biases, kernels).
             (bn + opt_elements (lbeta l) + opt_elements (lgamma l),
              biases + opt_elements (lbias l),
              kernels + opt_elements (lkernel l)))
          layers (0, 0, 0)"

section \<open>The report\<close>

datatype info_line =
    Model_info
  | Layer_counts "(string \<times> nat) list"
  | Trainable_weights nat
  | Shares nat real nat real nat real  \<comment> \<open>kernels, %, biases, %, bn, %\<close>

text \<open>\<open>kernels / trainable_w * 100\<close>: Python's true division of ints.\<close>

definition percent :: "nat \<Rightarrow> nat \<Rightarrow> py_exc + real" where
  "percent a b = (if b = 0 then Inl ZeroDivisionError else Inr (real a / real b * 100))"

definition print_model_info ::
  "layer list \<Rightarrow> tensor list \<Rightarrow> (py_exc \<times> info_line list) + info_line list" where
  "print_model_info layers trainable_weights =
     (let out = [Model_info, Layer_counts (layer_counts layers)];
          trainable_w = trainable_count trainable_weights;
          (bn, biases, kernels) = param_counts layers;
          out1 = out @ [Trainable_weights trainable_w]
      in case (percent kernels trainable_w, percent biases trainable_w, percent bn trainable_w) of
           (Inr pk, Inr pb, Inr pn) \<Rightarrow> Inr (out1 @ [Shares kernels pk biases pb bn pn])
         | (Inl e, _, _) \<Rightarrow> Inl (e, out1)
         | (_, Inl e, _) \<Rightarrow> Inl (e, out1)
         | (_, _, Inl e) \<Rightarrow> Inl (e, out1))"

text \<open>
  The specification of the counter: the class keys of every layer, in order, and
  \<open>Counter.__getitem__\<close> (a missing key reads as 0).
\<close>

definition class_keys :: "layer list \<Rightarrow> string list" where
  "class_keys layers = concat (map (\<lambda>l. [key. (cls, key) \<leftarrow> counted_classes, cls \<in> set (lclasses l)]) layers)"

definition cnt :: "(string \<times> nat) list \<Rightarrow> string \<Rightarrow> nat" where
  "cnt c k = (case map_of c k of None \<Rightarrow> 0 | Some n \<Rightarrow> n)"

section \<open>Lemmas\<close>

lemma cnt_counter_inc: "cnt (counter_inc k c) k' = cnt c k' + (if k = k' then 1 else 0)"
  by (induction k c rule: counter_inc.induct) (auto simp: cnt_def)

lemma counter_inc_pos:
  "list_all (\<lambda>(_, n). 0 < n) c \<Longrightarrow> list_all (\<lambda>(_, n). 0 < n) (counter_inc k c)"
  by (induction k c rule: counter_inc.induct) auto

lemma fold_counter_inc:
  "cnt (fold counter_inc ks c) k = cnt c k + count (mset ks) k"
  by (induction ks arbitrary: c) (simp_all add: cnt_counter_inc)

lemma fold_counter_inc_pos:
  "list_all (\<lambda>(_, n). 0 < n) c \<Longrightarrow> list_all (\<lambda>(_, n). 0 < n) (fold counter_inc ks c)"
  by (induction ks arbitrary: c) (simp_all add: counter_inc_pos)

lemma count_layer_fold:
  "count_layer l = fold counter_inc [key. (cls, key) \<leftarrow> counted_classes, cls \<in> set (lclasses l)]"
  by (simp add: count_layer_def counted_classes_def fun_eq_iff)

lemma layer_counts_fold: "layer_counts layers = fold counter_inc (class_keys layers) []"
proof -
  have "fold count_layer ls c = fold counter_inc (class_keys ls) c" for ls c
    by (induction ls arbitrary: c) (simp_all add: class_keys_def count_layer_fold)
  then show ?thesis by (simp add: layer_counts_def)
qed

lemma map_of_pos:
  assumes "list_all (\<lambda>(_, n). 0 < n) c"
  shows "map_of c k = (if cnt c k = 0 then None else Some (cnt c k))"
proof (cases "map_of c k")
  case (Some n)
  then have "(k, n) \<in> set c" by (rule map_of_SomeD)
  with assms have "0 < n" by (auto simp: list_all_iff)
  with Some show ?thesis by (simp add: cnt_def)
qed (simp add: cnt_def)

lemma layer_counts_mset:
  "map_of (layer_counts layers) k =
     (if count (mset (class_keys layers)) k = 0 then None else Some (count (mset (class_keys layers)) k))"
proof -
  have "list_all (\<lambda>(_, n). 0 < n) (layer_counts layers)"
    unfolding layer_counts_fold by (rule fold_counter_inc_pos) simp
  then show ?thesis
    by (simp add: map_of_pos layer_counts_fold fold_counter_inc) (simp add: cnt_def)
qed

lemma counter_inc_keys: "fst ` set (counter_inc k c) = insert k (fst ` set c)"
  by (induction k c rule: counter_inc.induct) auto

lemma counter_inc_distinct: "distinct (map fst c) \<Longrightarrow> distinct (map fst (counter_inc k c))"
proof (induction k c rule: counter_inc.induct)
  case (2 k k' n c)
  then show ?case using counter_inc_keys [of k c] by force
qed simp

lemma fold_counter_inc_distinct: "distinct (map fst c) \<Longrightarrow> distinct (map fst (fold counter_inc ks c))"
  by (induction ks arbitrary: c) (simp_all add: counter_inc_distinct)

lemma count_class_keys:
  assumes "(cls, key) \<in> set counted_classes"
  shows "count (mset (class_keys layers)) key = length (filter (\<lambda>l. cls \<in> set (lclasses l)) layers)"
proof (induction layers)
  case (Cons l layers)
  have "count (mset [key. (cls, key) \<leftarrow> counted_classes, cls \<in> set (lclasses l)]) key =
        (if cls \<in> set (lclasses l) then 1 else 0)"
    using assms by (auto simp: counted_classes_def)
  with Cons show ?case by (simp add: class_keys_def)
qed (simp add: class_keys_def)

text \<open>
  C26: the printed layer counts have one entry per class key
  (a dictionary), and the entry of each of the four classes is the number of
  layers that are instances of it, absent when there is none.
\<close>

theorem layer_counts_class:
  assumes "(cls, key) \<in> set counted_classes"
  shows "distinct (map fst (layer_counts layers)) \<and>
    map_of (layer_counts layers) key =
      (if length (filter (\<lambda>l. cls \<in> set (lclasses l)) layers) = 0 then None
       else Some (length (filter (\<lambda>l. cls \<in> set (lclasses l)) layers)))"
proof
  show "distinct (map fst (layer_counts layers))"
    unfolding layer_counts_fold by (rule fold_counter_inc_distinct) simp
  show "map_of (layer_counts layers) key =
      (if length (filter (\<lambda>l. cls \<in> set (lclasses l)) layers) = 0 then None
       else Some (length (filter (\<lambda>l. cls \<in> set (lclasses l)) layers)))"
    by (simp add: layer_counts_mset count_class_keys [OF assms])
qed

theorem layer_counts_class_witness:
  "(Conv2D, ''Conv2D'') \<in> set counted_classes \<and>
   layer_counts [\<lparr>lclasses = [Conv2D], lkernel = None, lbias = None, lbeta = None, lgamma = None\<rparr>,
                 \<lparr>lclasses = [Dense], lkernel = None, lbias = None, lbeta = None, lgamma = None\<rparr>,
                 \<lparr>lclasses = [Conv2D], lkernel = None, lbias = None, lbeta = None, lgamma = None\<rparr>] =
     [(''Conv2D'', 2), (''Dense'', 1)] \<and>
   distinct (map fst [(''Conv2D'', 2::nat), (''Dense'', 1)]) \<and>
   map_of [(''Conv2D'', 2::nat), (''Dense'', 1)] ''Conv2D'' = Some 2"
proof -
  have m: "(Conv2D, ''Conv2D'') \<in> set counted_classes" by (simp add: counted_classes_def)
  have c: "layer_counts [\<lparr>lclasses = [Conv2D], lkernel = None, lbias = None, lbeta = None, lgamma = None\<rparr>,
                 \<lparr>lclasses = [Dense], lkernel = None, lbias = None, lbeta = None, lgamma = None\<rparr>,
                 \<lparr>lclasses = [Conv2D], lkernel = None, lbias = None, lbeta = None, lgamma = None\<rparr>] =
     [(''Conv2D'', 2), (''Dense'', 1)]"
    by (simp add: layer_counts_def count_layer_def counted_classes_def)
  from layer_counts_class [OF m, where layers = "[\<lparr>lclasses = [Conv2D], lkernel = None, lbias = None, lbeta = None, lgamma = None\<rparr>,
                 \<lparr>lclasses = [Dense], lkernel = None, lbias = None, lbeta = None, lgamma = None\<rparr>,
                 \<lparr>lclasses = [Conv2D], lkernel = None, lbias = None, lbeta = None, lgamma = None\<rparr>]"] m c
  show ?thesis by simp
qed

lemma param_counts_sum:
  "param_counts layers =
     (sum_list (map (\<lambda>l. opt_elements (lbeta l) + opt_elements (lgamma l)) layers),
      sum_list (map (\<lambda>l. opt_elements (lbias l)) layers),
      sum_list (map (\<lambda>l. opt_elements (lkernel l)) layers))"
proof -
  have "fold (\<lambda>l (bn, biases, kernels).
             (bn + opt_elements (lbeta l) + opt_elements (lgamma l),
              biases + opt_elements (lbias l),
              kernels + opt_elements (lkernel l))) ls (a, b, c) =
        (a + sum_list (map (\<lambda>l. opt_elements (lbeta l) + opt_elements (lgamma l)) ls),
         b + sum_list (map (\<lambda>l. opt_elements (lbias l)) ls),
         c + sum_list (map (\<lambda>l. opt_elements (lkernel l)) ls))" for ls a b c
    by (induction ls arbitrary: a b c) (simp_all add: algebra_simps)
  from this [of layers 0 0 0] show ?thesis by (simp add: param_counts_def)
qed

text \<open>
  C27: \<open>print_model_info\<close> fails exactly for a model with
  no trainable parameter (no trainable weight, or only empty ones): the share
  computation raises \<open>ZeroDivisionError\<close> after the model info, the layer
  counts and \<open>TRAINABLE WEIGHTS: 0\<close> are printed.
\<close>

theorem print_model_info_error:
  "print_model_info layers trainable_weights = Inl (e, out) \<longleftrightarrow>
     trainable_count trainable_weights = 0 \<and> e = ZeroDivisionError \<and>
     out = [Model_info, Layer_counts (layer_counts layers), Trainable_weights 0]"
  by (auto simp: print_model_info_def percent_def Let_def split: prod.splits)

text \<open>
  C28: with trainable parameters, the report gives the
  kernel, bias and batch-normalisation parameter counts of all layers and each as
  a percentage of the trainable parameters; the counts include frozen layers, so
  a share can exceed 100 percent.
\<close>

theorem print_model_info_shares:
  assumes "0 < trainable_count trainable_weights"
  shows "print_model_info layers trainable_weights =
    Inr [Model_info, Layer_counts (layer_counts layers), Trainable_weights (trainable_count trainable_weights),
         Shares (sum_list (map (\<lambda>l. opt_elements (lkernel l)) layers))
                (real (sum_list (map (\<lambda>l. opt_elements (lkernel l)) layers)) / real (trainable_count trainable_weights) * 100)
                (sum_list (map (\<lambda>l. opt_elements (lbias l)) layers))
                (real (sum_list (map (\<lambda>l. opt_elements (lbias l)) layers)) / real (trainable_count trainable_weights) * 100)
                (sum_list (map (\<lambda>l. opt_elements (lbeta l) + opt_elements (lgamma l)) layers))
                (real (sum_list (map (\<lambda>l. opt_elements (lbeta l) + opt_elements (lgamma l)) layers)) /
                   real (trainable_count trainable_weights) * 100)]"
  using assms by (simp add: print_model_info_def percent_def param_counts_sum Let_def)

theorem print_model_info_shares_witness:
  "0 < trainable_count [\<lparr>shape = [1], vals = [0]\<rparr>] \<and>
   print_model_info [\<lparr>lclasses = [Conv2D], lkernel = Some \<lparr>shape = [3, 3], vals = replicate 9 1\<rparr>,
                       lbias = Some \<lparr>shape = [1], vals = [0]\<rparr>, lbeta = None, lgamma = None\<rparr>]
                    [\<lparr>shape = [1], vals = [0]\<rparr>] =
     Inr [Model_info, Layer_counts [(''Conv2D'', 1)], Trainable_weights 1, Shares 9 900 1 100 0 0]"
proof -
  have t: "trainable_count [\<lparr>shape = [1], vals = [0::real]\<rparr>] = 1"
    by (simp add: trainable_count_def num_elements_def)
  have c: "layer_counts [\<lparr>lclasses = [Conv2D], lkernel = Some \<lparr>shape = [3, 3], vals = replicate 9 (1::real)\<rparr>,
                       lbias = Some \<lparr>shape = [1], vals = [0]\<rparr>, lbeta = None, lgamma = None\<rparr>] = [(''Conv2D'', 1)]"
    by (simp add: layer_counts_def count_layer_def counted_classes_def)
  have "0 < trainable_count [\<lparr>shape = [1], vals = [0::real]\<rparr>]" using t by simp
  from print_model_info_shares [OF this, where layers = "[\<lparr>lclasses = [Conv2D], lkernel = Some \<lparr>shape = [3, 3], vals = replicate 9 1\<rparr>,
                       lbias = Some \<lparr>shape = [1], vals = [0]\<rparr>, lbeta = None, lgamma = None\<rparr>]"] t c
  show ?thesis by (simp add: opt_elements_def num_elements_def)
qed
end
