(* ===== verification/EntryStates.thy ===== *)
theory EntryStates
  imports Runner
begin

text \<open>
  The life of one queue entry of \<^verbatim>\<open>src/run.py\<close> as the specification describes it:
  pending, then running or skipped, and a running entry completed and logged or
  interrupted. The code has one more end, \<open>Failed\<close>: an exception that is not
  a \<open>KeyboardInterrupt\<close>, or a log that cannot be written, aborts the queue. \<open>entry_step\<close> is that state
  machine, \<open>entry_outcome\<close> the end the specification assigns to an entry, and
  \<open>observed_status\<close> reads the end off the states before and after one
  \<open>run_entry\<close>: the lemmas show that the code refines the machine.
\<close>

datatype entry_status = Pending | Running | Completed | Skipped | Interrupted | Failed

inductive entry_step :: "entry_status \<Rightarrow> entry_status \<Rightarrow> bool" where
  start: "entry_step Pending Running"
| skip: "entry_step Pending Skipped"
| complete: "entry_step Running Completed"
| interrupt: "entry_step Running Interrupted"
| fail: "entry_step Running Failed"

code_pred entry_step .

definition terminal :: "entry_status \<Rightarrow> bool" where
  "terminal s \<longleftrightarrow> s \<in> {Completed, Skipped, Interrupted, Failed}"

text \<open>
  The end the specification assigns to entry \<open>i\<close> on the file system \<open>fs\<close>,
  \<open>ds\<close> it meets; \<open>queue_outcome\<close> is that end for entry \<open>j\<close> of a queue, on
  the file system the earlier entries leave.
\<close>

definition entry_outcome ::
  "run_args \<Rightarrow> nat \<Rightarrow> exp_dict \<Rightarrow> outcome \<Rightarrow> log_store \<Rightarrow> string set \<Rightarrow> entry_status" where
  "entry_outcome args i e out fs ds =
     (if \<not> selected args i e then Skipped
      else if out = Raises KeyboardInterrupt then Interrupted
      else if entry_aborts out fs ds then Failed
      else Completed)"

definition queue_outcome ::
  "run_args \<Rightarrow> (nat \<Rightarrow> outcome) \<Rightarrow> exp_dict list \<Rightarrow> log_store \<Rightarrow> string set \<Rightarrow> nat \<Rightarrow> entry_status" where
  "queue_outcome args out queue logs0 dirs0 j =
     (let cs = completed_docs args out 0 (take j queue) in
      entry_outcome args j (queue ! j) (out j) (logs_after logs0 cs) (dirs_after dirs0 cs))"

text \<open>
  The abstraction: an exception that leaves \<open>run_entry\<close> is a failure; an entry
  whose module was not run was skipped; one that ends with the interruption
  message was interrupted; otherwise it completed.
\<close>

definition observed_status :: "nat \<Rightarrow> run_state \<Rightarrow> (py_exc \<times> run_state) + run_state \<Rightarrow> entry_status" where
  "observed_status i st r =
     (case r of
        Inl _ \<Rightarrow> Failed
      | Inr st' \<Rightarrow>
          if executed st' = executed st then Skipped
          else if last (console st') = Skip_interrupted i then Interrupted
          else Completed)"

inductive_cases entry_step_CompletedE [elim!]: "entry_step Completed s"
inductive_cases entry_step_SkippedE [elim!]: "entry_step Skipped s"
inductive_cases entry_step_InterruptedE [elim!]: "entry_step Interrupted s"
inductive_cases entry_step_FailedE [elim!]: "entry_step Failed s"
inductive_cases entry_step_RunningE [elim!]: "entry_step Running s"

section \<open>Lemmas\<close>

lemma terminal_no_step: "terminal s \<Longrightarrow> \<not> entry_step s s'"
  by (auto simp: terminal_def)

lemma entry_outcome_reachable:
  "entry_step\<^sup>*\<^sup>* Pending (entry_outcome args i e out fs ds) \<and> terminal (entry_outcome args i e out fs ds)"
proof -
  have run: "entry_step\<^sup>*\<^sup>* Pending s" if "entry_step Running s" for s
    using that by (meson converse_rtranclp_into_rtranclp entry_step.start r_into_rtranclp)
  show ?thesis
    by (auto simp: entry_outcome_def terminal_def intro: entry_step.intros run)
qed

text \<open>
  C3: one iteration of the loop refines the specification's entry
  machine: the end read off the states before and after \<open>run_entry\<close> is the one
  the specification assigns (skipped when not selected, interrupted on
  \<open>KeyboardInterrupt\<close>, failed on any other exception and on a log that cannot
  be written on the file system of the state, completed otherwise), and it is a
  terminal state reachable from \<open>Pending\<close>.
\<close>

theorem run_entry_refines:
  "observed_status i st (run_entry args us i e out st) = entry_outcome args i e out (logs st) (dirs st) \<and>
   entry_step\<^sup>*\<^sup>* Pending (observed_status i st (run_entry args us i e out st)) \<and>
   terminal (observed_status i st (run_entry args us i e out st))"
proof -
  have "observed_status i st (run_entry args us i e out st) = entry_outcome args i e out (logs st) (dirs st)"
    by (auto simp: observed_status_def entry_outcome_def run_entry_def log_experiment_def selected_def
        entry_aborts_def log_error_def Let_def
        split: if_splits outcome.splits py_exc.splits yval.splits sum.splits option.splits)
  with entry_outcome_reachable show ?thesis by simp
qed

lemma entry_outcome_Failed:
  "entry_outcome args i e out fs ds = Failed \<longleftrightarrow> selected args i e \<and> entry_aborts out fs ds"
  by (auto simp: entry_outcome_def entry_aborts_def)

lemma run_entry_Inl_executed:
  "run_entry args us i e out st = Inl (x, st1) \<Longrightarrow> executed st1 = executed st @ [i]"
  by (auto simp: run_entry_def log_experiment_def Let_def
      split: if_splits outcome.splits py_exc.splits yval.splits sum.splits option.splits)

lemma run_loop_Inl:
  "run_loop args us out i es st = Inl (x, st') \<Longrightarrow>
   \<exists>k < length es.
     (\<forall>j < k. entry_outcome args (i + j) (es ! j) (out (i + j))
        (logs_after (logs st) (completed_docs args out i (take j es)))
        (dirs_after (dirs st) (completed_docs args out i (take j es))) \<noteq> Failed) \<and>
     entry_outcome args (i + k) (es ! k) (out (i + k))
        (logs_after (logs st) (completed_docs args out i (take k es)))
        (dirs_after (dirs st) (completed_docs args out i (take k es))) = Failed \<and>
     executed st' = executed st @ [j. (j, e) \<leftarrow> enumerate i (take (Suc k) es), selected args j e]"
proof (induction es arbitrary: i st)
  case Nil
  then show ?case by simp
next
  case (Cons e es)
  show ?case
  proof (cases "run_entry args us i e (out i) st")
    case (Inl r)
    obtain x1 st1 where r: "r = (x1, st1)" by fastforce
    with Inl Cons.prems have "st1 = st'" by simp
    moreover from Inl have "selected args i e \<and> entry_aborts (out i) (logs st) (dirs st)"
      using run_entry_isl [of args us i e "out i" st] by simp
    ultimately show ?thesis
      using run_entry_Inl_executed [of args us i e "out i" st x1 st1] Inl r
      by (intro exI [of _ 0]) (simp add: entry_outcome_Failed)
  next
    case (Inr st1)
    with Cons.prems have "run_loop args us out (Suc i) es st1 = Inl (x, st')" by simp
    from Cons.IH [OF this] obtain k where k: "k < length es"
      and before: "\<forall>j < k. entry_outcome args (Suc i + j) (es ! j) (out (Suc i + j))
        (logs_after (logs st1) (completed_docs args out (Suc i) (take j es)))
        (dirs_after (dirs st1) (completed_docs args out (Suc i) (take j es))) \<noteq> Failed"
      and at: "entry_outcome args (Suc i + k) (es ! k) (out (Suc i + k))
        (logs_after (logs st1) (completed_docs args out (Suc i) (take k es)))
        (dirs_after (dirs st1) (completed_docs args out (Suc i) (take k es))) = Failed"
      and ex: "executed st' = executed st1 @ [j. (j, e) \<leftarrow> enumerate (Suc i) (take (Suc k) es), selected args j e]"
      by blast
    from Inr have ok: "\<not> (selected args i e \<and> entry_aborts (out i) (logs st) (dirs st))"
      using run_entry_isl [of args us i e "out i" st] by simp
    from run_entry_Inr [OF Inr] have ex1: "executed st1 = executed st @ (if selected args i e then [i] else [])"
      and l1: "logs st1 = logs_after (logs st) (completed_docs args (\<lambda>_. out i) i [e])"
      and d1: "dirs st1 = dirs_after (dirs st) (completed_docs args (\<lambda>_. out i) i [e])"
      by simp_all
    have shift: "entry_outcome args (i + Suc j) ((e # es) ! Suc j) (out (i + Suc j))
        (logs_after (logs st) (completed_docs args out i (take (Suc j) (e # es))))
        (dirs_after (dirs st) (completed_docs args out i (take (Suc j) (e # es)))) =
      entry_outcome args (Suc i + j) (es ! j) (out (Suc i + j))
        (logs_after (logs st1) (completed_docs args out (Suc i) (take j es)))
        (dirs_after (dirs st1) (completed_docs args out (Suc i) (take j es)))" for j
      by (simp add: l1 d1 completed_docs_single [of args out i e] logs_after_append dirs_after_append)
    have "\<forall>j < Suc k. entry_outcome args (i + j) ((e # es) ! j) (out (i + j))
        (logs_after (logs st) (completed_docs args out i (take j (e # es))))
        (dirs_after (dirs st) (completed_docs args out i (take j (e # es)))) \<noteq> Failed"
    proof (intro allI impI)
      fix j assume "j < Suc k"
      then consider "j = 0" | j' where "j = Suc j'" "j' < k" by (cases j) auto
      then show "entry_outcome args (i + j) ((e # es) ! j) (out (i + j))
        (logs_after (logs st) (completed_docs args out i (take j (e # es))))
        (dirs_after (dirs st) (completed_docs args out i (take j (e # es)))) \<noteq> Failed"
      proof cases
        case 1
        with ok show ?thesis by (simp add: entry_outcome_Failed)
      next
        case 2
        with before shift [of j'] show ?thesis by simp
      qed
    qed
    with k at shift [of k] ex ex1 show ?thesis
      by (intro exI [of _ "Suc k"]) simp
  qed
qed

text \<open>
  C4: an aborted run stops at the first entry whose end
  is \<open>Failed\<close> on the file system the earlier entries leave: no earlier entry
  failed, and exactly the selected entries up to and including that one ran; no
  later module is started.
\<close>

theorem run_main_stops_at_failure:
  assumes "run_main args global queue yq out logs0 dirs0 = Aborted e st"
  shows "\<exists>k < length queue. (\<forall>j < k. queue_outcome args out queue logs0 dirs0 j \<noteq> Failed) \<and>
           queue_outcome args out queue logs0 dirs0 k = Failed \<and>
           executed st = [j. (j, x) \<leftarrow> enumerate 0 (take (Suc k) queue), selected args j x]"
proof -
  from assms have "run_loop args (use_slack global) out 0 queue (init_state logs0 dirs0) = Inl (e, st)"
    by (auto simp: run_main_def Let_def split: sum.splits)
  from run_loop_Inl [OF this] show ?thesis by (simp add: init_state_def queue_outcome_def Let_def)
qed
theorem run_main_stops_at_failure_witness:
  "case run_main \<lparr>dry = False, pick = None\<rparr> []
         [[(''Name'', YStr ''a'')], [(''Name'', YStr ''b'')], [(''Name'', YStr ''c'')]] False
         (\<lambda>j. if j = 1 then Returned [(''YamlLog'', YStr [])] 1 else Returned [(''YamlLog'', YStr ''l'')] 1) Map.empty {} of
     Finished st \<Rightarrow> False
   | Aborted e st \<Rightarrow> e = FileNotFoundError [] \<and> executed st = [0, 1] \<and>
       (\<exists>k < length [[(''Name'', YStr ''a'')], [(''Name'', YStr ''b'')], [(''Name'', YStr ''c'')]].
          (\<forall>j < k. queue_outcome \<lparr>dry = False, pick = None\<rparr>
             (\<lambda>j. if j = 1 then Returned [(''YamlLog'', YStr [])] 1 else Returned [(''YamlLog'', YStr ''l'')] 1)
             [[(''Name'', YStr ''a'')], [(''Name'', YStr ''b'')], [(''Name'', YStr ''c'')]] Map.empty {} j \<noteq> Failed) \<and>
          queue_outcome \<lparr>dry = False, pick = None\<rparr>
             (\<lambda>j. if j = 1 then Returned [(''YamlLog'', YStr [])] 1 else Returned [(''YamlLog'', YStr ''l'')] 1)
             [[(''Name'', YStr ''a'')], [(''Name'', YStr ''b'')], [(''Name'', YStr ''c'')]] Map.empty {} k = Failed \<and>
          executed st = [j. (j, x) \<leftarrow> enumerate 0 (take (Suc k)
             [[(''Name'', YStr ''a'')], [(''Name'', YStr ''b'')], [(''Name'', YStr ''c'')]]),
             selected \<lparr>dry = False, pick = None\<rparr> j x])"
proof -
  let ?q = "[[(''Name'', YStr ''a'')], [(''Name'', YStr ''b'')], [(''Name'', YStr ''c'')]]"
  let ?out = "\<lambda>j. if j = 1 then Returned [(''YamlLog'', YStr [])] 1 else Returned [(''YamlLog'', YStr ''l'')] 1"
  let ?r = "run_main \<lparr>dry = False, pick = None\<rparr> [] ?q False ?out Map.empty {}"
  have "case ?r of Finished st \<Rightarrow> False | Aborted e st \<Rightarrow> e = FileNotFoundError [] \<and> executed st = [0, 1]"
    by code_simp
  then obtain e st where r: "?r = Aborted e st" and x: "e = FileNotFoundError [] \<and> executed st = [0, 1]"
    by (auto split: run_result.splits)
  from run_main_stops_at_failure [OF r] x show ?thesis
    unfolding r run_result.case by blast
qed
end
