(* ===== verification/Devices.thy ===== *)
theory Devices
  imports Prelude
begin

text \<open>
  The GPU set-up of \<^verbatim>\<open>src/modules/tfhi/tools.py\<close>: \<open>set_memory_growth\<close> and
  \<open>set_visible_gpu\<close>, over TensorFlow's device configuration, a record of the
  physical GPUs, the visible ones, those with memory growth, and whether the
  runtime is initialised. Devices are named by their index; the model's devices
  are all GPUs. The two \<open>tf.config\<close> calls follow TensorFlow's \<open>context.py\<close>:
  \<^item> \<open>set_visible_devices(devices, "GPU")\<close> wraps an argument that is not a list in
    a list, raises \<open>ValueError\<close> for an element that is not a physical device,
    returns early when the visible list would not change, and otherwise raises
    \<open>RuntimeError\<close> once the runtime is initialised;
  \<^item> \<open>experimental.set_memory_growth(gpu, True)\<close> raises \<open>ValueError\<close> for a device
    that is not physical, returns early when growth is already on, and otherwise
    raises \<open>RuntimeError\<close> once the runtime is initialised.
  Virtual-device configurations (another \<open>ValueError\<close> of \<open>set_memory_growth\<close>)
  are not modelled.
\<close>

record device_state =
  physical :: "nat list"
  visible :: "nat list"
  growth :: "nat set"
  initialized :: bool

text \<open>
  A Python value where \<open>tf.config\<close> expects a device: a physical GPU, or any
  other object (an empty tuple, an integer, a tuple of devices).
\<close>

datatype py_dev = Dev nat | NotDev

definition wf_devices :: "device_state \<Rightarrow> bool" where
  "wf_devices ds \<longleftrightarrow> set (visible ds) \<subseteq> set (physical ds)"

text \<open>\<open>tf.config.set_visible_devices(devices, "GPU")\<close> with \<open>devices\<close> already a list.\<close>

definition set_visible_devices :: "py_dev list \<Rightarrow> device_state \<Rightarrow> py_exc + device_state" where
  "set_visible_devices devices ds =
     (if \<not> list_all (\<lambda>d. case d of Dev g \<Rightarrow> g \<in> set (physical ds) | NotDev \<Rightarrow> False) devices
      then Inl ValueError
      else let vis = [g. Dev g \<leftarrow> devices] in
        if vis = visible ds then Inr ds
        else if initialized ds then Inl (RaisedBy ''RuntimeError'')
        else Inr (ds\<lparr>visible := vis\<rparr>))"

text \<open>\<open>tf.config.experimental.set_memory_growth(gpu, True)\<close>.\<close>

definition set_growth :: "nat \<Rightarrow> device_state \<Rightarrow> py_exc + device_state" where
  "set_growth gpu ds =
     (if gpu \<notin> set (physical ds) then Inl ValueError
      else if gpu \<in> growth ds then Inr ds
      else if initialized ds then Inl (RaisedBy ''RuntimeError'')
      else Inr (ds\<lparr>growth := insert gpu (growth ds)\<rparr>))"

fun set_growth_all :: "nat list \<Rightarrow> device_state \<Rightarrow> py_exc + device_state" where
  "set_growth_all [] ds = Inr ds"
| "set_growth_all (g # gs) ds =
     (case set_growth g ds of Inl e \<Rightarrow> Inl e | Inr ds' \<Rightarrow> set_growth_all gs ds')"

text \<open>\<open>for gpu in tf.config.get_visible_devices("GPU")\<close>.\<close>

definition set_memory_growth :: "device_state \<Rightarrow> py_exc + device_state" where
  "set_memory_growth ds = set_growth_all (visible ds) ds"

text \<open>
  The argument of \<open>set_visible_gpu\<close>: a list, a tuple or other iterable that is not
  a list (the default is the empty tuple), or a single value. A
  \<open>PhysicalDevice\<close> is a named tuple, so it is iterable and reaches TensorFlow
  unwrapped; a value that is not iterable is wrapped by \<open>set_visible_gpu\<close>. Either
  way TensorFlow receives a list of that one value, and a tuple is wrapped by
  TensorFlow into a list holding the tuple, which is no device.
\<close>

datatype gpu_arg = GpuList "py_dev list" | GpuTuple "py_dev list" | GpuValue py_dev

definition set_visible_gpu :: "gpu_arg \<Rightarrow> device_state \<Rightarrow> py_exc + device_state" where
  "set_visible_gpu gpus ds =
     (case gpus of
        GpuList gs \<Rightarrow> set_visible_devices gs ds
      | GpuTuple gs \<Rightarrow> set_visible_devices [NotDev] ds
      | GpuValue g \<Rightarrow> set_visible_devices [g] ds)"

section \<open>Lemmas\<close>

lemma set_growth_wf: "set_growth g ds = Inr ds' \<Longrightarrow> wf_devices ds' = wf_devices ds \<and> visible ds' = visible ds \<and>
   physical ds' = physical ds \<and> initialized ds' = initialized ds"
  by (auto simp: set_growth_def wf_devices_def split: if_splits)

lemma set_growth_all_result:
  "set gs \<subseteq> set (physical ds) \<Longrightarrow>
   set_growth_all gs ds =
     (if initialized ds \<and> \<not> set gs \<subseteq> growth ds then Inl (RaisedBy ''RuntimeError'')
      else Inr (ds\<lparr>growth := growth ds \<union> set gs\<rparr>))"
proof (induction gs arbitrary: ds)
  case (Cons g gs)
  then have g: "g \<in> set (physical ds)" and gs: "set gs \<subseteq> set (physical ds)" by simp_all
  show ?case
  proof (cases "g \<in> growth ds")
    case True
    with g Cons.IH [OF gs] show ?thesis by (auto simp: set_growth_def insert_absorb)
  next
    case False
    show ?thesis
    proof (cases "initialized ds")
      case True
      with g False show ?thesis by (simp add: set_growth_def)
    next
      case init: False
      let ?ds' = "ds\<lparr>growth := insert g (growth ds)\<rparr>"
      from gs have "set gs \<subseteq> set (physical ?ds')" by simp
      from Cons.IH [OF this] g False init show ?thesis by (simp add: set_growth_def)
    qed
  qed
qed simp

lemma set_growth_all_wf:
  "set_growth_all gs ds = Inr ds' \<Longrightarrow> wf_devices ds' = wf_devices ds \<and> visible ds' = visible ds"
proof (induction gs arbitrary: ds)
  case (Cons g gs)
  then obtain ds1 where "set_growth g ds = Inr ds1" "set_growth_all gs ds1 = Inr ds'"
    by (auto split: sum.splits)
  with Cons.IH set_growth_wf [of g ds ds1] show ?case by simp
qed simp

lemma set_visible_devices_wf:
  "set_visible_devices devices ds = Inr ds' \<Longrightarrow> wf_devices ds \<Longrightarrow> wf_devices ds' \<and> physical ds' = physical ds"
  by (auto simp: set_visible_devices_def wf_devices_def list_all_iff Let_def split: if_splits py_dev.splits)

text \<open>
  C29: on a well-formed configuration, \<open>set_memory_growth\<close> enables memory growth on
  every visible GPU and changes nothing else; once the runtime is initialised it
  raises \<open>RuntimeError\<close> exactly when some visible GPU does not have growth yet.
\<close>

theorem set_memory_growth_result:
  assumes "wf_devices ds"
  shows "set_memory_growth ds =
     (if initialized ds \<and> \<not> set (visible ds) \<subseteq> growth ds then Inl (RaisedBy ''RuntimeError'')
      else Inr (ds\<lparr>growth := growth ds \<union> set (visible ds)\<rparr>))"
  using assms set_growth_all_result [of "visible ds" ds]
  by (simp add: set_memory_growth_def wf_devices_def)

theorem set_memory_growth_result_witness:
  "wf_devices \<lparr>physical = [0, 1], visible = [0, 1], growth = {0, 1}, initialized = True\<rparr> \<and>
   set_memory_growth \<lparr>physical = [0, 1], visible = [0, 1], growth = {0, 1}, initialized = True\<rparr> =
     Inr \<lparr>physical = [0, 1], visible = [0, 1], growth = {0, 1}, initialized = True\<rparr> \<and>
   wf_devices \<lparr>physical = [0, 1], visible = [0, 1], growth = {0}, initialized = True\<rparr> \<and>
   set_memory_growth \<lparr>physical = [0, 1], visible = [0, 1], growth = {0}, initialized = True\<rparr> =
     Inl (RaisedBy ''RuntimeError'')"
  using set_memory_growth_result [where ds = "\<lparr>physical = [0, 1], visible = [0, 1], growth = {0, 1}, initialized = True\<rparr>"]
    set_memory_growth_result [where ds = "\<lparr>physical = [0, 1], visible = [0, 1], growth = {0}, initialized = True\<rparr>"]
  by (simp add: wf_devices_def insert_absorb)

text \<open>
  C30: before the runtime starts, \<open>set_visible_gpu\<close> with a list of physical GPUs
  followed by \<open>set_memory_growth\<close> makes exactly those GPUs visible and enables
  growth on them; a tuple, the default empty tuple included, and a value that is
  no device raise \<open>ValueError\<close> instead.
\<close>

theorem set_visible_then_growth:
  assumes "\<not> initialized ds" and "set gs \<subseteq> set (physical ds)"
  shows "(case set_visible_gpu (GpuList (map Dev gs)) ds of
            Inl e \<Rightarrow> Inl e | Inr ds' \<Rightarrow> set_memory_growth ds') =
         Inr (ds\<lparr>visible := gs, growth := growth ds \<union> set gs\<rparr>) \<and>
         set_visible_gpu (GpuTuple xs) ds = Inl ValueError \<and>
         set_visible_gpu (GpuValue NotDev) ds = Inl ValueError"
proof -
  have "[g. Dev g \<leftarrow> map Dev gs] = gs" by (induction gs) auto
  with assms have v: "set_visible_gpu (GpuList (map Dev gs)) ds = Inr (ds\<lparr>visible := gs\<rparr>)"
    by (auto simp: set_visible_gpu_def set_visible_devices_def list_all_iff)
  have "set_memory_growth (ds\<lparr>visible := gs\<rparr>) = Inr (ds\<lparr>visible := gs, growth := growth ds \<union> set gs\<rparr>)"
    using assms set_growth_all_result [of gs "ds\<lparr>visible := gs\<rparr>"] by (simp add: set_memory_growth_def)
  with v show ?thesis
    by (simp add: set_visible_gpu_def set_visible_devices_def)
qed

theorem set_visible_then_growth_witness:
  "\<not> initialized \<lparr>physical = [0, 1], visible = [0, 1], growth = {}, initialized = False\<rparr> \<and>
   set [1] \<subseteq> set (physical \<lparr>physical = [0, 1], visible = [0, 1], growth = {}, initialized = False\<rparr>) \<and>
   (case set_visible_gpu (GpuList [Dev 1]) \<lparr>physical = [0, 1], visible = [0, 1], growth = {}, initialized = False\<rparr> of
      Inl e \<Rightarrow> Inl e | Inr ds' \<Rightarrow> set_memory_growth ds') =
     Inr \<lparr>physical = [0, 1], visible = [1], growth = {1}, initialized = False\<rparr> \<and>
   set_visible_gpu (GpuTuple []) \<lparr>physical = [0, 1], visible = [0, 1], growth = {}, initialized = False\<rparr> =
     Inl ValueError"
  using set_visible_then_growth [where ds = "\<lparr>physical = [0, 1], visible = [0, 1], growth = {}, initialized = False\<rparr>"
      and gs = "[1]" and xs = "[]"]
  by simp

end
