(* ===== verification/Epochs.thy ===== *)
theory Epochs
  imports Prelude
begin

text \<open>
  The epoch loops of \<^verbatim>\<open>src/experimental/truning/train_for_robustness.py\<close>:
  \<open>train_epoch\<close> runs a training step on each batch of \<open>ds['train'].take(steps)\<close>,
  \<open>valid_epoch\<close> runs \<open>valid_step\<close> on each batch of \<open>ds['valid']\<close>, and
  \<open>valid_step\<close> feeds the validation loss and accuracy to the logger's running
  means. A dataset (\<open>tools.datasets\<close>, not under src/) is the function from a
  batch index to the batch, \<open>None\<close> past its end; a finite one comes from a list,
  and a repeated one (\<open>ds.repeat()\<close>) never ends. Iterating a dataset with no
  bound may not end, so \<open>valid_epoch\<close> is a partial function whose \<open>None\<close> is
  "does not return". The model's outputs on a batch are an oracle \<open>eval\<close>.
\<close>

section \<open>Datasets\<close>

type_synonym 'b dataset = "nat \<Rightarrow> 'b option"

definition ds_of_list :: "'b list \<Rightarrow> 'b dataset" where
  "ds_of_list bs i = (if i < length bs then Some (bs ! i) else None)"

definition repeat_ds :: "'b list \<Rightarrow> 'b dataset" where
  "repeat_ds bs i = (if bs = [] then None else Some (bs ! (i mod length bs)))"

section \<open>Training epochs\<close>

text \<open>\<open>for x, y in ds['train'].take(steps)\<close>: at most \<open>steps\<close> batches, in order.\<close>

fun take_loop :: "('m \<Rightarrow> 'b \<Rightarrow> 'm) \<Rightarrow> 'b dataset \<Rightarrow> nat \<Rightarrow> nat \<Rightarrow> 'm \<Rightarrow> 'm" where
  "take_loop step ds i 0 m = m"
| "take_loop step ds i (Suc n) m =
     (case ds i of None \<Rightarrow> m | Some b \<Rightarrow> take_loop step ds (Suc i) n (step m b))"

definition train_epoch :: "'m \<Rightarrow> nat \<Rightarrow> ('m \<Rightarrow> 'b \<Rightarrow> 'm) \<Rightarrow> 'b dataset \<Rightarrow> 'm" where
  "train_epoch model steps train_step ds = take_loop train_step ds 0 steps model"

section \<open>Validation\<close>

text \<open>The logger's metrics: running means (\<open>tf.keras.metrics.Mean\<close>).\<close>

record metric =
  msum :: real
  mcount :: nat

definition metric_update :: "real \<Rightarrow> metric \<Rightarrow> metric" where
  "metric_update x mt = mt\<lparr>msum := msum mt + x, mcount := Suc (mcount mt)\<rparr>"

definition metric_result :: "metric \<Rightarrow> real" where
  "metric_result mt = (if mcount mt = 0 then 0 else msum mt / real (mcount mt))"

record valid_metrics =
  valid_loss :: metric
  valid_acc :: metric

definition valid_step ::
  "('m \<Rightarrow> 'b \<Rightarrow> real \<times> real) \<Rightarrow> 'm \<Rightarrow> valid_metrics \<Rightarrow> 'b \<Rightarrow> valid_metrics" where
  "valid_step eval model vm b =
     (let (loss, acc) = eval model b
      in vm\<lparr>valid_loss := metric_update loss (valid_loss vm),
            valid_acc := metric_update acc (valid_acc vm)\<rparr>)"

text \<open>\<open>for x, y in ds['valid']\<close>: every batch, with no bound.\<close>

partial_function (option) valid_loop :: "('m \<Rightarrow> 'b \<Rightarrow> 'm) \<Rightarrow> 'b dataset \<Rightarrow> nat \<Rightarrow> 'm \<Rightarrow> 'm option" where
  "valid_loop step ds i m =
     (case ds i of None \<Rightarrow> Some m | Some b \<Rightarrow> valid_loop step ds (Suc i) (step m b))"

definition valid_epoch ::
  "('m \<Rightarrow> 'b \<Rightarrow> real \<times> real) \<Rightarrow> 'm \<Rightarrow> 'b dataset \<Rightarrow> valid_metrics \<Rightarrow> valid_metrics option" where
  "valid_epoch eval model ds vm = valid_loop (valid_step eval model) ds 0 vm"

section \<open>Lemmas\<close>

lemma take_loop_list:
  "take_loop step (ds_of_list bs) i n m = fold (\<lambda>b m. step m b) (take n (drop i bs)) m"
proof (induction n arbitrary: i m)
  case (Suc n)
  show ?case
  proof (cases "i < length bs")
    case True
    then have "drop i bs = bs ! i # drop (Suc i) bs" by (rule Cons_nth_drop_Suc [symmetric])
    with True Suc.IH show ?thesis by (simp add: ds_of_list_def)
  qed (simp add: ds_of_list_def)
qed simp

lemma take_loop_repeat:
  "bs \<noteq> [] \<Longrightarrow>
   take_loop step (repeat_ds bs) i n m = fold (\<lambda>b m. step m b) (map (\<lambda>j. bs ! (j mod length bs)) [i..<i + n]) m"
  by (induction n arbitrary: i m) (simp_all add: repeat_ds_def upt_rec del: upt_Suc)

text \<open>
  C31: a training epoch always ends: on a finite dataset it
  runs the training step on the first \<open>steps\<close> batches (all of them when there
  are fewer), and on a repeated, endless dataset it runs exactly \<open>steps\<close> steps,
  cycling through the batches, because \<open>take(steps)\<close> bounds the loop.
\<close>

theorem train_epoch_bounded:
  "train_epoch model steps train_step (ds_of_list bs) = fold (\<lambda>b m. train_step m b) (take steps bs) model \<and>
   (bs \<noteq> [] \<longrightarrow> train_epoch model steps train_step (repeat_ds bs) =
      fold (\<lambda>b m. train_step m b) (map (\<lambda>j. bs ! (j mod length bs)) [0..<steps]) model)"
  by (simp add: train_epoch_def take_loop_list take_loop_repeat)

lemma valid_loop_Some: "ds (i + k) = None \<Longrightarrow> \<exists>r. valid_loop step ds i m = Some r"
proof (induction k arbitrary: i m)
  case 0
  then show ?case by (simp add: valid_loop.simps)
next
  case (Suc k)
  show ?case
  proof (cases "ds i")
    case None
    then show ?thesis by (simp add: valid_loop.simps)
  next
    case (Some b)
    from Suc.prems have "ds (Suc i + k) = None" by simp
    from Suc.IH [OF this] Some show ?thesis by (subst valid_loop.simps) simp
  qed
qed

lemma valid_loop_returns:
  assumes ret: "valid_loop step ds i m = Some r"
  shows "\<exists>n \<ge> i. ds n = None"
proof (rule valid_loop.raw_induct [where P = "\<lambda>step ds i m r. \<exists>n \<ge> i. ds n = None", OF _ ret])
  fix f step ds i m r
  assume IH: "\<And>step ds i m r. f step ds i m = Some r \<Longrightarrow> \<exists>n \<ge> i. ds n = None"
    and eq: "(case ds i of None \<Rightarrow> Some m | Some b \<Rightarrow> f step ds (Suc i) (step m b)) = Some r"
  show "\<exists>n \<ge> i. ds n = None"
  proof (cases "ds i")
    case None
    then show ?thesis by blast
  next
    case (Some b)
    with eq have "f step ds (Suc i) (step m b) = Some r" by simp
    from IH [OF this] show ?thesis by (meson Suc_leD)
  qed
qed

lemma valid_loop_None_iff: "(\<exists>r. valid_loop step ds 0 m = Some r) \<longleftrightarrow> (\<exists>n. ds n = None)"
proof
  assume "\<exists>r. valid_loop step ds 0 m = Some r"
  then show "\<exists>n. ds n = None" by (blast dest: valid_loop_returns)
next
  assume "\<exists>n. ds n = None"
  then obtain n where "ds (0 + n) = None" by auto
  then show "\<exists>r. valid_loop step ds 0 m = Some r" by (rule valid_loop_Some)
qed

text \<open>
  C32: a validation epoch, which iterates the dataset with
  no bound, returns exactly when the dataset ends; on a repeated dataset it never
  returns.
\<close>

theorem valid_epoch_terminates:
  "((\<exists>r. valid_epoch eval model ds vm = Some r) \<longleftrightarrow> (\<exists>n. ds n = None)) \<and>
   (bs \<noteq> [] \<longrightarrow> valid_epoch eval model (repeat_ds bs) vm = None)"
  using valid_loop_None_iff [of "valid_step eval model" ds vm]
    valid_loop_None_iff [of "valid_step eval model" "repeat_ds bs" vm]
  by (auto simp: valid_epoch_def repeat_ds_def)

theorem valid_epoch_terminates_witness:
  "(\<exists>r. valid_epoch (\<lambda>m b. (1, 1)) (0::nat) (ds_of_list [(), ()])
         \<lparr>valid_loss = \<lparr>msum = 0, mcount = 0\<rparr>, valid_acc = \<lparr>msum = 0, mcount = 0\<rparr>\<rparr> = Some r) \<and>
   [()] \<noteq> [] \<and>
   valid_epoch (\<lambda>m b. (1, 1)) (0::nat) (repeat_ds [()])
      \<lparr>valid_loss = \<lparr>msum = 0, mcount = 0\<rparr>, valid_acc = \<lparr>msum = 0, mcount = 0\<rparr>\<rparr> = None"
proof -
  have "ds_of_list [(), ()] 2 = None" by (simp add: ds_of_list_def)
  with valid_epoch_terminates [where eval = "\<lambda>m b. (1, 1)" and model = "0::nat" and ds = "ds_of_list [(), ()]"
      and bs = "[()]" and vm = "\<lparr>valid_loss = \<lparr>msum = 0, mcount = 0\<rparr>, valid_acc = \<lparr>msum = 0, mcount = 0\<rparr>\<rparr>"]
  show ?thesis by blast
qed

lemma valid_loop_list:
  "length bs = i + k \<Longrightarrow> valid_loop step (ds_of_list bs) i m = Some (fold (\<lambda>b m. step m b) (drop i bs) m)"
proof (induction k arbitrary: i m)
  case 0
  then show ?case by (simp add: valid_loop.simps ds_of_list_def)
next
  case (Suc k)
  then have i: "i < length bs" and "drop i bs = bs ! i # drop (Suc i) bs"
    by (simp_all add: Cons_nth_drop_Suc)
  moreover from Suc.prems have "length bs = Suc i + k" by simp
  note IH = Suc.IH [OF this]
  ultimately show ?case by (subst valid_loop.simps) (simp add: ds_of_list_def IH)
qed

lemma fold_valid_step_count:
  "mcount (valid_loss (fold (\<lambda>b m. valid_step eval model m b) bs vm)) = mcount (valid_loss vm) + length bs \<and>
   msum (valid_loss (fold (\<lambda>b m. valid_step eval model m b) bs vm)) =
     msum (valid_loss vm) + sum_list (map (\<lambda>b. fst (eval model b)) bs)"
  by (induction bs arbitrary: vm) (simp_all add: valid_step_def metric_update_def split_beta)

text \<open>
  C33: on a finite validation set, starting from fresh metrics,
  the reported validation loss is the mean of the batch losses (0 for an empty
  set, as the Keras mean reports).
\<close>

theorem valid_epoch_mean:
  "valid_epoch eval model (ds_of_list bs)
     \<lparr>valid_loss = \<lparr>msum = 0, mcount = 0\<rparr>, valid_acc = \<lparr>msum = 0, mcount = 0\<rparr>\<rparr> = Some vm \<Longrightarrow>
   metric_result (valid_loss vm) =
     (if bs = [] then 0 else sum_list (map (\<lambda>b. fst (eval model b)) bs) / real (length bs))"
  using valid_loop_list [of bs 0 "length bs" "valid_step eval model"]
    fold_valid_step_count [of eval model bs "\<lparr>valid_loss = \<lparr>msum = 0, mcount = 0\<rparr>, valid_acc = \<lparr>msum = 0, mcount = 0\<rparr>\<rparr>"]
  by (simp add: valid_epoch_def metric_result_def)

theorem train_epoch_bounded_witness:
  "train_epoch 0 5 (\<lambda>m b. m + b) (ds_of_list [1, 2::nat]) = 3 \<and>
   [1, 2::nat] \<noteq> [] \<and> train_epoch 0 5 (\<lambda>m b. m + b) (repeat_ds [1, 2::nat]) = 7"
proof -
  have r: "fold (\<lambda>b m. m + b) (map (\<lambda>j. [1, 2::nat] ! (j mod length [1, 2::nat])) [0..<5]) 0 = 7"
    by code_simp
  from train_epoch_bounded [where model = 0 and steps = 5 and train_step = "\<lambda>m b. m + b" and bs = "[1, 2::nat]"] r
  show ?thesis by simp
qed

theorem valid_epoch_mean_witness:
  "valid_epoch (\<lambda>m b. (b, 1)) (0::nat) (ds_of_list [1, 3])
     \<lparr>valid_loss = \<lparr>msum = 0, mcount = 0\<rparr>, valid_acc = \<lparr>msum = 0, mcount = 0\<rparr>\<rparr> =
     Some \<lparr>valid_loss = \<lparr>msum = 4, mcount = 2\<rparr>, valid_acc = \<lparr>msum = 2, mcount = 2\<rparr>\<rparr> \<and>
   metric_result \<lparr>msum = 4, mcount = 2\<rparr> = 2"
proof -
  have v: "valid_epoch (\<lambda>m b. (b, 1)) (0::nat) (ds_of_list [1, 3])
     \<lparr>valid_loss = \<lparr>msum = 0, mcount = 0\<rparr>, valid_acc = \<lparr>msum = 0, mcount = 0\<rparr>\<rparr> =
     Some \<lparr>valid_loss = \<lparr>msum = 4, mcount = 2\<rparr>, valid_acc = \<lparr>msum = 2, mcount = 2\<rparr>\<rparr>"
    by (simp add: valid_epoch_def valid_loop.simps ds_of_list_def valid_step_def metric_update_def)
  from valid_epoch_mean [OF v] show ?thesis by (simp add: v)
qed
end
