(* ===== verification/Optimizers.thy ===== *)
theory Optimizers
  imports Persistence
begin

text \<open>
  The two optimisers of \<^verbatim>\<open>src/experimental/truning/train_for_robustness.py\<close>
  (lines 110-114) and the loss scaling of its two training steps. The kernel
  optimiser is Keras \<open>SGD(0.1, momentum=0.9, nesterov=True)\<close>; the mask optimiser
  is \<open>SGD(10.0, momentum=0.999, nesterov=True)\<close> inside a \<open>LossScaleOptimizer\<close>
  with the fixed loss scale 2048. A Keras SGD with momentum has the weights
  \<open>[iterations, m_0, ..., m_(n-1)]\<close>, one momentum slot per variable, created
  with zeros when it first sees the variables; a step on variable \<open>i\<close>
  (\<open>ResourceApplyKerasMomentum\<close>) reads and writes slot \<open>m_i\<close> only. A fixed loss
  scale never skips a step, so \<open>apply_gradients\<close> of the wrapper is the inner
  optimiser's; \<open>get_scaled_loss\<close> multiplies the loss by the scale and
  \<open>get_unscaled_gradients\<close> multiplies every gradient by its reciprocal. Since
  the tape's gradient is linear, the gradients of the scaled loss are the scale
  times those of the loss.
\<close>

record sgd_config =
  sgd_lr :: real
  momentum :: real
  nesterov :: bool

record loss_scale_optimizer =
  inner_optimizer :: sgd_config
  loss_scale :: real

definition kernel_optimizer :: sgd_config where
  "kernel_optimizer = \<lparr>sgd_lr = 0.1, momentum = 0.9, nesterov = True\<rparr>"

definition mask_optimizer :: loss_scale_optimizer where
  "mask_optimizer =
     \<lparr>inner_optimizer = \<lparr>sgd_lr = 10.0, momentum = 0.999, nesterov = True\<rparr>, loss_scale = 2048\<rparr>"

text \<open>
  The weights a momentum SGD creates for the variables \<open>vs\<close> (\<open>_create_all_weights\<close>:
  the counter at 0 and a zero \<open>momentum\<close> slot per variable), and the optimiser
  object \<open>tf.keras.optimizers.SGD(...)\<close> as the persistence helpers see it: no
  weights until the first \<open>apply_gradients\<close>, and a constant rate.
\<close>

definition sgd_weights :: "tensor list \<Rightarrow> tensor list" where
  "sgd_weights vs = \<lparr>shape = [], vals = [0]\<rparr> # map zeros_like vs"

definition keras_sgd :: "sgd_config \<Rightarrow> optimizer" where
  "keras_sgd cfg = \<lparr>oweights = [], slot_init = sgd_weights, decayed_lr = Some (\<lambda>_. sgd_lr cfg)\<rparr>"

text \<open>
  One step of \<open>ResourceApplyKerasMomentum\<close> on a variable with momentum slot
  \<open>accum\<close>: \<open>accum := accum * momentum - lr * grad\<close>, then \<open>var += accum * momentum -
  lr * grad\<close> with Nesterov momentum and \<open>var += accum\<close> without.
\<close>

definition momentum_step :: "sgd_config \<Rightarrow> tensor \<Rightarrow> tensor \<Rightarrow> tensor \<Rightarrow> tensor \<times> tensor" where
  "momentum_step cfg accum grad var =
     (let accum' = tmap2 (\<lambda>a g. a * momentum cfg - sgd_lr cfg * g) accum grad;
          delta = (if nesterov cfg then tmap2 (\<lambda>a g. a * momentum cfg - sgd_lr cfg * g) accum' grad
                   else accum')
      in (accum', tmap2 (+) var delta))"

definition sgd_upd :: "sgd_config \<Rightarrow> tensor list \<Rightarrow> nat \<Rightarrow> tensor \<Rightarrow> tensor \<Rightarrow> tensor list \<times> tensor" where
  "sgd_upd cfg weights i grad var =
     (let (accum', var') = momentum_step cfg (weights ! Suc i) grad var in (weights[Suc i := accum'], var'))"

definition get_scaled_loss :: "loss_scale_optimizer \<Rightarrow> real \<Rightarrow> real" where
  "get_scaled_loss opt loss = loss * loss_scale opt"

definition get_unscaled_gradients :: "loss_scale_optimizer \<Rightarrow> tensor list \<Rightarrow> tensor list" where
  "get_unscaled_gradients opt grads = map (tmap (\<lambda>g. g * (1 / loss_scale opt))) grads"

text \<open>
  The optimiser half of \<open>update_masks\<close>: the tape's gradients of the scaled loss
  unscaled, clipped to \<open>0.1 / mask_optimizer.lr\<close> (a float, not a schedule) and
  applied by the mask optimiser, which counts the iteration.
\<close>

definition mask_step :: "tensor list \<Rightarrow> nat \<Rightarrow> tensor list \<Rightarrow> tensor list \<Rightarrow> tensor list \<times> tensor list" where
  "mask_step weights iterations scaled_grads mask_distributions =
     (let (weights', ds) = update_masks (sgd_upd (inner_optimizer mask_optimizer)) weights
            (Const_lr (sgd_lr (inner_optimizer mask_optimizer))) iterations
            (get_unscaled_gradients mask_optimizer scaled_grads) mask_distributions
      in (count_iteration weights', ds))"

text \<open>
  The optimiser half of \<open>update_kernels\<close>: the gradients are unscaled with the
  mask optimiser's loss scale and applied by the kernel optimiser, which counts the
  iteration.
\<close>

definition kernel_step :: "tensor list \<Rightarrow> tensor list \<Rightarrow> tensor list \<Rightarrow> tensor list \<times> tensor list" where
  "kernel_step weights scaled_grads trainable_weights =
     (let (weights', tw) = update_kernels (sgd_upd kernel_optimizer) weights
            (get_unscaled_gradients mask_optimizer scaled_grads) trainable_weights
      in (count_iteration weights', tw))"

section \<open>Lemmas\<close>

text \<open>
  Steps on distinct variables: applying gradients to the variables
  \<open>i, ..., i + length gs - 1\<close> one after another changes exactly their values and
  slots, each by one momentum step from its own slot.
\<close>

lemma apply_gradients_sgd_range:
  assumes "i + length gs \<le> length vs" and "length ws = Suc (length vs)"
  shows "apply_gradients (sgd_upd cfg) ws (zip gs [i..<i + length gs]) vs =
    (ws ! 0 # map (\<lambda>k. if i \<le> k \<and> k < i + length gs then fst (momentum_step cfg (ws ! Suc k) (gs ! (k - i)) (vs ! k))
                       else ws ! Suc k) [0..<length vs],
     map (\<lambda>k. if i \<le> k \<and> k < i + length gs then snd (momentum_step cfg (ws ! Suc k) (gs ! (k - i)) (vs ! k))
              else vs ! k) [0..<length vs])"
  using assms
proof (induction gs arbitrary: i vs ws)
  case Nil
  have f: "(i \<le> k \<and> k < i) = False" for k :: nat by simp
  from Nil show ?case by (cases ws) (auto simp: f intro!: nth_equalityI)
next
  case (Cons g gs)
  let ?s = "momentum_step cfg (ws ! Suc i) g (vs ! i)"
  let ?ws' = "ws[Suc i := fst ?s]" and ?vs' = "vs[i := snd ?s]"
  have up: "zip (g # gs) [i..<i + length (g # gs)] = (g, i) # zip gs [Suc i..<Suc i + length gs]"
    by (simp del: upt_Suc add: upt_rec)
  from Cons.prems have "Suc i + length gs \<le> length ?vs'" "length ?ws' = Suc (length ?vs')" by simp_all
  note IH = Cons.IH [OF this]
  have step: "apply_gradients (sgd_upd cfg) ws (zip (g # gs) [i..<i + length (g # gs)]) vs =
              apply_gradients (sgd_upd cfg) ?ws' (zip gs [Suc i..<Suc i + length gs]) ?vs'"
    unfolding up by (simp add: sgd_upd_def split_beta)
  have nth: "(g # gs) ! (k - i) = gs ! (k - Suc i)" if "i < k" for k
    using that by (simp add: nth_Cons' diff_Suc split: nat.split)
  from Cons.prems show ?case
    unfolding step IH by (auto simp: nth nth_list_update intro!: map_cong)
qed

lemma get_unscaled_gradients_scaled:
  "loss_scale opt \<noteq> 0 \<Longrightarrow>
   get_unscaled_gradients opt (map (tmap (\<lambda>g. loss_scale opt * g)) grads) = grads"
  by (simp add: get_unscaled_gradients_def comp_def tmap_def map_idI)

lemma mask_optimizer_scale: "loss_scale mask_optimizer = 2048"
  by (simp add: mask_optimizer_def)

lemma apply_gradients_sgd_all:
  assumes "length gs = length vs" and "length ws = Suc (length vs)"
  shows "apply_gradients (sgd_upd cfg) ws (zip gs [0..<length vs]) vs =
    (ws ! 0 # map (\<lambda>k. fst (momentum_step cfg (ws ! Suc k) (gs ! k) (vs ! k))) [0..<length vs],
     map (\<lambda>k. snd (momentum_step cfg (ws ! Suc k) (gs ! k) (vs ! k))) [0..<length vs])"
  using apply_gradients_sgd_range [of 0 gs vs ws cfg] assms by simp

text \<open>
  C37: a kernel step on the gradients of the scaled loss gives every
  trainable weight one Nesterov momentum step of the kernel optimiser with its own
  gradient of the loss: the loss scale cancels, each weight reads and writes only
  its own momentum slot, and the iteration counter goes up by one.
\<close>

theorem kernel_step_momentum:
  assumes "length grads = length tw" and "length ws = Suc (length tw)"
  shows "kernel_step ws (map (tmap (\<lambda>g. 2048 * g)) grads) tw =
    (tmap (\<lambda>x. x + 1) (ws ! 0) # map (\<lambda>k. fst (momentum_step kernel_optimizer (ws ! Suc k) (grads ! k) (tw ! k))) [0..<length tw],
     map (\<lambda>k. snd (momentum_step kernel_optimizer (ws ! Suc k) (grads ! k) (tw ! k))) [0..<length tw])"
proof -
  have "get_unscaled_gradients mask_optimizer (map (tmap (\<lambda>g. 2048 * g)) grads) = grads"
    using get_unscaled_gradients_scaled [of mask_optimizer grads] by (simp add: mask_optimizer_scale)
  with apply_gradients_sgd_all [OF assms, of kernel_optimizer] show ?thesis
    by (simp add: kernel_step_def update_kernels_def count_iteration_def)
qed

theorem kernel_step_momentum_witness:
  "length [\<lparr>shape = [1], vals = [1]\<rparr>] = length [\<lparr>shape = [1], vals = [2::real]\<rparr>] \<and>
   length (sgd_weights [\<lparr>shape = [1], vals = [2]\<rparr>]) = Suc (length [\<lparr>shape = [1::nat], vals = [2::real]\<rparr>]) \<and>
   kernel_step (sgd_weights [\<lparr>shape = [1], vals = [2]\<rparr>]) [\<lparr>shape = [1], vals = [2048]\<rparr>] [\<lparr>shape = [1], vals = [2]\<rparr>] =
     ([\<lparr>shape = [], vals = [1]\<rparr>, \<lparr>shape = [1], vals = [-1/10]\<rparr>], [\<lparr>shape = [1], vals = [181/100]\<rparr>])"
proof -
  have g: "[\<lparr>shape = [1::nat], vals = [2048::real]\<rparr>] = map (tmap (\<lambda>g. 2048 * g)) [\<lparr>shape = [1], vals = [1]\<rparr>]"
    by (simp add: tmap_def)
  show ?thesis
    unfolding g using kernel_step_momentum [where grads = "[\<lparr>shape = [1], vals = [1]\<rparr>]"
      and tw = "[\<lparr>shape = [1], vals = [2]\<rparr>]" and ws = "sgd_weights [\<lparr>shape = [1], vals = [2]\<rparr>]"]
    by (simp add: sgd_weights_def momentum_step_def kernel_optimizer_def zeros_like_def tmap_def tmap2_def Let_def)
qed

text \<open>
  C22: a mask step is two momentum steps of the mask
  optimiser on every distribution, not one: \<open>mask_updatable\<close> names each
  distribution twice, so its momentum slot and its value are advanced first with
  the clipped gradient of its kernel mask and then, from the state that step left,
  with the clipped gradient of the distribution itself; the result is clipped to
  \<open>[-10, 10]\<close>. The clipping bound is \<open>0.1 / 10\<close>, the mask optimiser's rate, and
  the iteration counter goes up by one.
\<close>

theorem mask_step_momentum_twice:
  assumes len: "length grads = 2 * length ds" and ws: "length ws = Suc (length ds)"
  shows "mask_step ws it (map (tmap (\<lambda>g. 2048 * g)) grads) ds =
    (let cfg = inner_optimizer mask_optimizer; cg = clip_mask_gradients (Const_lr 10) it grads;
         s1 = (\<lambda>k. momentum_step cfg (ws ! Suc k) (cg ! k) (ds ! k));
         s2 = (\<lambda>k. momentum_step cfg (fst (s1 k)) (cg ! (length ds + k)) (snd (s1 k)))
     in (tmap (\<lambda>x. x + 1) (ws ! 0) # map (\<lambda>k. fst (s2 k)) [0..<length ds],
         map (\<lambda>k. clip_by_value (snd (s2 k)) (-10) 10) [0..<length ds]))"
proof -
  let ?n = "length ds" and ?cfg = "inner_optimizer mask_optimizer"
  let ?cg = "clip_mask_gradients (Const_lr 10) it grads"
  let ?s1 = "\<lambda>k. momentum_step ?cfg (ws ! Suc k) (?cg ! k) (ds ! k)"
  have unsc: "get_unscaled_gradients mask_optimizer (map (tmap (\<lambda>g. 2048 * g)) grads) = grads"
    using get_unscaled_gradients_scaled [of mask_optimizer grads] by (simp add: mask_optimizer_scale)
  have lr: "sgd_lr ?cfg = 10" by (simp add: mask_optimizer_def)
  have lcg: "length ?cg = 2 * ?n" using len by (simp add: length_clip_mask_gradients)
  have z: "zip ?cg ([0..<?n] @ [0..<?n]) = zip (take ?n ?cg) [0..<?n] @ zip (drop ?n ?cg) [0..<?n]"
    using lcg by (subst zip_append [symmetric]) simp_all
  have first: "apply_gradients (sgd_upd ?cfg) ws (zip (take ?n ?cg) [0..<?n]) ds =
      (ws ! 0 # map (\<lambda>k. fst (?s1 k)) [0..<?n], map (\<lambda>k. snd (?s1 k)) [0..<?n])"
    using apply_gradients_sgd_all [of "take ?n ?cg" ds ws ?cfg] lcg ws by simp
  have second: "apply_gradients (sgd_upd ?cfg) (ws ! 0 # map (\<lambda>k. fst (?s1 k)) [0..<?n])
        (zip (drop ?n ?cg) [0..<?n]) (map (\<lambda>k. snd (?s1 k)) [0..<?n]) =
      (ws ! 0 # map (\<lambda>k. fst (momentum_step ?cfg (fst (?s1 k)) (?cg ! (?n + k)) (snd (?s1 k)))) [0..<?n],
       map (\<lambda>k. snd (momentum_step ?cfg (fst (?s1 k)) (?cg ! (?n + k)) (snd (?s1 k)))) [0..<?n])"
    using apply_gradients_sgd_all [of "drop ?n ?cg" "map (\<lambda>k. snd (?s1 k)) [0..<?n]"
        "ws ! 0 # map (\<lambda>k. fst (?s1 k)) [0..<?n]" ?cfg] lcg by simp
  show ?thesis
    unfolding mask_step_def update_masks_def unsc lr Let_def z apply_gradients_append first
    by (simp add: second clip_many_def count_iteration_def)
qed

theorem mask_step_momentum_twice_witness:
  "length [\<lparr>shape = [1], vals = [1/1000]\<rparr>, \<lparr>shape = [1], vals = [1/1000]\<rparr>] =
     2 * length [\<lparr>shape = [1::nat], vals = [0::real]\<rparr>] \<and>
   length (sgd_weights [\<lparr>shape = [1], vals = [0]\<rparr>]) = Suc (length [\<lparr>shape = [1::nat], vals = [0::real]\<rparr>]) \<and>
   mask_step (sgd_weights [\<lparr>shape = [1], vals = [0]\<rparr>]) 0
       [\<lparr>shape = [1], vals = [2048/1000]\<rparr>, \<lparr>shape = [1], vals = [2048/1000]\<rparr>] [\<lparr>shape = [1], vals = [0]\<rparr>] =
     ([\<lparr>shape = [], vals = [1]\<rparr>, \<lparr>shape = [1], vals = [-1999/100000]\<rparr>],
      [\<lparr>shape = [1], vals = [-4996001/100000000]\<rparr>])"
proof -
  have g: "[\<lparr>shape = [1::nat], vals = [2048/1000::real]\<rparr>, \<lparr>shape = [1], vals = [2048/1000]\<rparr>] =
      map (tmap (\<lambda>g. 2048 * g)) [\<lparr>shape = [1], vals = [1/1000]\<rparr>, \<lparr>shape = [1], vals = [1/1000]\<rparr>]"
    by (simp add: tmap_def)
  show ?thesis
    unfolding g using mask_step_momentum_twice [where grads = "[\<lparr>shape = [1], vals = [1/1000]\<rparr>, \<lparr>shape = [1], vals = [1/1000]\<rparr>]"
      and ds = "[\<lparr>shape = [1], vals = [0]\<rparr>]" and ws = "sgd_weights [\<lparr>shape = [1], vals = [0]\<rparr>]" and it = 0]
    by (simp add: sgd_weights_def momentum_step_def mask_optimizer_def zeros_like_def tmap_def tmap2_def Let_def
        clip_mask_gradients_def clip_many_def clip_by_value_def clip_value_def lr_at_def)
qed

text \<open>
  One momentum step with the sum of the two gradients of the witness above, the
  single step the documentation describes, moves the distribution less far.
\<close>

lemma mask_step_summed_differs:
  "snd (momentum_step (inner_optimizer mask_optimizer) \<lparr>shape = [1], vals = [0]\<rparr> \<lparr>shape = [1], vals = [2/1000]\<rparr>
          \<lparr>shape = [1], vals = [0]\<rparr>) = \<lparr>shape = [1], vals = [-3998/100000]\<rparr>"
  by (simp add: momentum_step_def mask_optimizer_def tmap2_def Let_def)

lemma momentum_step_zero: "momentum_step cfg (zeros_like v) (zeros_like v) v = (zeros_like v, v)"
  by (simp add: momentum_step_def zeros_like_def Let_def tmap_def tmap2_def zip_map1 zip_map2 zip_same_conv_map comp_def)

text \<open>
  C25: \<open>build_optimizer\<close> on a fresh Keras momentum SGD creates its weights, the
  iteration counter and one zero momentum slot per trainable weight; its zero
  gradients change neither the slots nor the model, and the counter ends at 1:
  the zero optimiser state the documentation expects after a failed restore.
\<close>

theorem build_optimizer_sgd:
  "build_optimizer (sgd_upd cfg) (keras_sgd cfg) tw =
     ((keras_sgd cfg)\<lparr>oweights := \<lparr>shape = [], vals = [1]\<rparr> # map zeros_like tw\<rparr>, tw)"
proof -
  have "map (\<lambda>k. fst (momentum_step cfg (map zeros_like tw ! k) (map zeros_like tw ! k) (tw ! k))) [0..<length tw] =
        map zeros_like tw"
    "map (\<lambda>k. snd (momentum_step cfg (map zeros_like tw ! k) (map zeros_like tw ! k) (tw ! k))) [0..<length tw] = tw"
    by (auto intro!: nth_equalityI simp: momentum_step_zero)
  with apply_gradients_sgd_all [of "map zeros_like tw" tw "sgd_weights tw" cfg]
  have "apply_gradients (sgd_upd cfg) (sgd_weights tw) (zip (map zeros_like tw) [0..<length tw]) tw =
        (sgd_weights tw, tw)"
    by (simp add: sgd_weights_def)
  then show ?thesis
    by (simp add: build_optimizer_def keras_sgd_def sgd_weights_def count_iteration_def)
qed

end
