(* ===== verification/Spec2Isabelle.thy ===== *)
theory Spec2Isabelle
  imports Tools Runner Masks Pruning Persistence ModelInfo EntryStates Devices Epochs Optimizers
begin

text \<open>
  Verification development of cool-runner, a research harness with two parts: an
  experiment-queue runner (\<^verbatim>\<open>src/run.py\<close>) and a pruning and robustness training
  recipe (\<^verbatim>\<open>src/experimental/truning/train_for_robustness.py\<close>) built on the weight
  utilities of \<^verbatim>\<open>src/modules/tfhi/tools.py\<close>. The model is a shallow embedding:
  every function and script section is a HOL definition that computes, every raise
  and early return is an \<open>Inl\<close> of the exception type \<open>py_exc\<close>, and loops are
  structural recursion or folds. Floats are reals (no rounding, no NaN).

  \<^bold>\<open>Theories.\<close>
  \<^item> \<open>Prelude\<close>: the exception type, Python string helpers (\<open>str.startswith\<close>,
    substring \<open>in\<close>, \<open>os.path.dirname\<close>), the file system both scripts write
    to (files, and directories closed under ancestors) with \<open>os.makedirs\<close>
    (\<open>makedirs\<close>, \<open>ensure_parent\<close>) and \<open>open\<close> (\<open>open_write_error\<close>,
    \<open>open_read\<close>) and their \<open>FileExistsError\<close>, \<open>NotADirectoryError\<close>,
    \<open>IsADirectoryError\<close> and \<open>FileNotFoundError\<close>, and tensors as a record of a shape and a
    flat value list with elementwise maps, reductions and their simp rules
    (collection \<open>tensor_simps\<close>).
  \<^item> \<open>Tools\<close> (\<^verbatim>\<open>tools.py\<close>): weights as named tensors; \<open>Variable.assign\<close>
    (\<open>ValueError\<close> on a shape mismatch) and \<open>Model.load_weights\<close> from a store of
    checkpoint files; \<open>set_precision\<close>, \<open>get_kernels\<close>,
    \<open>set_all_weights_from_model\<close>, \<open>clone_model\<close>,
    \<open>reset_weights_to_checkpoint\<close> (its loop is \<open>reset_loop\<close>), \<open>clip_many\<close>,
    \<open>concatenate_flattened\<close>, \<open>get_loss_fn_from_alias\<close>. \<open>reset_spec\<close> is the
    abstract contract of the reset (keyword weights kept, others from the
    checkpoint); the lemmas prove the loop implements it and characterise every
    error path.
  \<^item> \<open>Runner\<close> (\<^verbatim>\<open>run.py\<close>): the state the script mutates (log files as lists of
    YAML documents, the directories present, modules run, console lines, Slack reports
    pending and sent, queue closed) as the record \<open>run_state\<close>; one loop iteration
    is \<open>run_entry\<close>, the loop \<open>run_loop\<close>, the script after argument parsing
    \<open>run_main\<close>. The module each entry imports is an oracle \<open>out\<close> giving its
    outcome (return or exception) by queue index; logging an entry creates the
    log's directory and opens the log, either of which can raise. \<open>selected\<close>,
    \<open>completed_docs\<close>, \<open>logs_after\<close>, \<open>dirs_after\<close>, \<open>log_error\<close> and
    \<open>aborts_at\<close> are the runner's specification, and the lemmas show that
    finished runs log exactly the selected, returned entries in queue order, that a
    run finishes exactly when no selected entry aborts on the file system the
    earlier entries leave, and what an abort leaves unflushed.
  \<^item> \<open>Masks\<close> (the mask functions of the recipe): \<open>regularize\<close>,
    \<open>set_kernel_masks_from_distributions\<close> with \<open>tf.random.uniform\<close> drawing from a
    random source \<open>rng\<close> at a stream position, \<open>update_masks\<close> and \<open>update_kernels\<close>
    over an optimiser step \<open>upd\<close> (state, variable index, gradient, variable),
    gradient clipping by the learning rate, and the final binarisation.
  \<^item> \<open>Pruning\<close> (the recipe's script): its constants, the outer loop as
    \<open>prune_iteration\<close> and \<open>prune_loop\<close> over the record \<open>prune_state\<close> (network,
    regulariser coefficient, density), with training, SNIP pruning, reapplying the
    pruning and the fresh clone inside the reset as fields of an environment
    \<open>prune_env\<close> indexed by the iteration; the start of the script,
    \<open>recipe_start\<close> (both checkpoint loads and the two samplings), and the phase
    after the loop, \<open>final_phase\<close>. The kernel masks alias variables of the
    network: the model reads them from the network and writes them back.
  \<^item> \<open>Persistence\<close> (\<^verbatim>\<open>tools.py\<close> saving and restoring): the file system as
    the record \<open>fs_state\<close> (paths to pickled or HDF5 blobs, created directories),
    \<open>save_optimizer\<close>, \<open>save_model\<close>, \<open>update_optimizer\<close> (its tolerated
    \<open>ValueError\<close>), \<open>build_optimizer\<close> (one \<open>apply_gradients\<close>, which counts an
    iteration, \<open>count_iteration\<close>), \<open>get_optimizer_lr_metric\<close>, with the round
    trips save/restore and save/reset and the error behaviour.
  \<^item> \<open>ModelInfo\<close> (\<^verbatim>\<open>tools.py\<close> \<open>print_model_info\<close>): the
    \<open>collections.Counter\<close> of layer classes as an insertion-ordered association
    list (\<open>counter_inc\<close>, \<open>layer_counts\<close>), proved equal to the multiset count of
    the class keys; the parameter sums; the printed lines as the result, with the
    \<open>ZeroDivisionError\<close> of the share computation as an error carrying the
    lines already printed.
  \<^item> \<open>Devices\<close> (\<^verbatim>\<open>tools.py\<close> \<open>set_memory_growth\<close>, \<open>set_visible_gpu\<close>):
    TensorFlow's device configuration as a record (physical, visible, growth,
    initialised) with \<open>tf.config\<close>'s behaviour: a non-list argument wrapped in a
    list, \<open>ValueError\<close> for a value that is no physical device, an early return
    when the setting does not change, and \<open>RuntimeError\<close> after initialisation;
    \<open>wf_devices\<close> (visible GPUs are physical) is preserved by both calls.
  \<^item> \<open>Epochs\<close> (the recipe's \<open>train_epoch\<close>, \<open>valid_step\<close>,
    \<open>valid_epoch\<close>): a dataset is a function from batch index to batch, finite
    (\<open>ds_of_list\<close>) or repeated (\<open>repeat_ds\<close>); the bounded training loop is a
    \<open>fun\<close> on the step count, the unbounded validation loop a
    \<open>partial_function (option)\<close>, proved to return exactly on finite datasets;
    the logger's metrics are running means.
  \<^item> \<open>Optimizers\<close> (the recipe's \<open>kernel_optimizer\<close> and \<open>mask_optimizer\<close>,
    lines 110-114): Keras SGD with Nesterov momentum as \<open>momentum_step\<close> on a
    variable and its momentum slot, \<open>sgd_upd\<close> on the optimiser's weights
    \<open>[iterations, m_0, ...]\<close>; the fixed loss scale 2048 as
    \<open>get_scaled_loss\<close> and \<open>get_unscaled_gradients\<close>; \<open>mask_step\<close> and
    \<open>kernel_step\<close>, the optimiser halves of \<open>update_masks\<close> and
    \<open>update_kernels\<close> instantiated with them, each counting one iteration;
    \<open>keras_sgd\<close> is a freshly constructed SGD. The lemmas show that the loss scale
    cancels, that each kernel gets one momentum step on its own slot, that each
    distribution gets two (it is listed twice in \<open>mask_updatable\<close>), and what
    \<open>build_optimizer\<close> creates for a momentum SGD.
  \<^item> \<open>EntryStates\<close>: the specification's life of a queue entry as the inductive
    relation \<open>entry_step\<close> (pending, running, completed, skipped, interrupted, and
    the code's extra end, failed), and the refinement of it by \<open>run_entry\<close>
    through the abstraction \<open>observed_status\<close>; an aborted run stops at the
    first failing entry.
  \<^item> This theory: the recipe's set-up (\<open>recipe_setup\<close>, Devices and the precision
    policy of Tools) and properties across components.

  \<^bold>\<open>Bounds.\<close> The pruning loop runs \<open>range(50)\<close>, modelled by \<open>prune_loop\<close> with
  an explicit count, so its theorems hold for every count \<open>n\<close> and \<open>prune_cycle\<close>
  fixes 50. Every definition is total except \<open>valid_loop\<close>, the one loop of the
  code with no bound (\<open>for x, y in ds['valid']\<close>), whose \<open>None\<close> is
  non-termination; the training loop is bounded by \<open>take(steps)\<close>.

  \<^bold>\<open>Not modelled.\<close> The recipe's \<open>mask_sampling = False\<close> branch is dead
  (the flag is the constant \<open>True\<close>). \<open>update_masks\<close> receives the iteration
  count as an argument (it reads it only for a schedule, and the script's rate is a
  constant), and Keras's momentum-free SGD path is not modelled (both optimisers
  have momentum). The file system compares paths as strings: two spellings of one
  file (\<open>.\<close> or \<open>..\<close> components, repeated slashes, symbolic links) are two
  files of the model, and permissions, full disks and concurrent writers are not
  modelled. Devices are GPUs: CPU devices and virtual-device configurations are
  not modelled. TensorFlow's forward and
  backward passes are not modelled: gradients are inputs, and the gradients of the
  scaled loss are taken to be the scale times those of the loss (the tape is
  linear); floating-point rounding and float16 overflow, which a fixed loss scale
  cannot detect, are not modelled; the logger's display, the progress bar and visualisation
  are not modelled (they produce no value the training reads); file contents are the
  tensors written, not their bytes; the YAML parser and the
  experiment record of \<open>tools\<close> are modelled from their use only, as an association
  list with Python truthiness; Slack delivery is a list of reports.
\<close>

section \<open>The set-up of the recipe\<close>

text \<open>
  The first two statements of the recipe, \<open>utils.set_memory_growth()\<close> and
  \<open>utils.set_precision(16)\<close>: the device configuration and the mixed-precision
  policy the rest of the script runs under.
\<close>

definition recipe_setup :: "device_state \<Rightarrow> py_exc + device_state \<times> policy" where
  "recipe_setup ds =
     (case set_memory_growth ds of
        Inl e \<Rightarrow> Inl e
      | Inr ds' \<Rightarrow> (case set_precision 16 of Inl e \<Rightarrow> Inl e | Inr p \<Rightarrow> Inr (ds', p)))"

lemma recipe_setup_result:
  "wf_devices ds \<Longrightarrow>
   recipe_setup ds =
     (if initialized ds \<and> \<not> set (visible ds) \<subseteq> growth ds then Inl (RaisedBy ''RuntimeError'')
      else Inr (ds\<lparr>growth := growth ds \<union> set (visible ds)\<rparr>, Mixed_float16))"
  using set_growth_all_result [of "visible ds" ds]
  by (simp add: recipe_setup_def set_memory_growth_def set_precision_def wf_devices_def)

section \<open>The start of the recipe\<close>

text \<open>
  C16: the start of the recipe, with both checkpoints
  present and of the network's architecture, succeeds; the distributions are the
  initial ones, and after the two samplings every kernel mask of the network is
  all ones while every other weight holds the chosen checkpoint's value.
\<close>

theorem recipe_start_masks_ones:
  assumes rng: "\<forall>n. 0 \<le> rng n \<and> rng n < 1"
    and perf: "store perf_checkpoint = Some pvs" "list_all2 (\<lambda>w v. shape (wval w) = shape v) model pvs"
    and ckp: "store choosen_checkpoint = Some vs" "list_all2 (\<lambda>w v. shape (wval w) = shape v) model vs"
    and wf: "list_all (\<lambda>w. wf_tensor (wval w)) model"
  shows "\<exists>net2 pos. recipe_start store rng model = Inr (net2, initial_distributions (get_kernel_masks model), pos) \<and>
           get_kernel_masks net2 = map (tmap (\<lambda>_. 1)) (get_kernel_masks model) \<and>
           filter (Not \<circ> is_kernel_mask) net2 = filter (Not \<circ> is_kernel_mask) (map2 (\<lambda>w v. w\<lparr>wval := v\<rparr>) model vs)"
proof -
  let ?net1 = "map2 (\<lambda>w v. w\<lparr>wval := v\<rparr>) model vs"
  let ?ks = "get_kernel_masks model"
  let ?ones = "map (tmap (\<lambda>_. 1)) ?ks"
  have wfk: "list_all wf_tensor ?ks"
    using wf by (auto simp: get_kernel_masks_def list_all_iff)
  have sh1: "map shape (get_kernel_masks ?net1) = map shape ?ks"
    using map2_wval_names_shapes [OF ckp(2)] by (intro get_kernel_masks_shapes) simp_all
  obtain pos1 where s1: "set_kernel_masks_from_distributions (get_kernel_masks ?net1) (initial_distributions ?ks)
      mask_activation rng 0 = Inr (?ones, pos1)"
    using initial_sampling_ones [OF rng wfk sh1] by blast
  have "map shape ?ones = map shape ?ks" by simp
  then obtain pos2 where s2: "set_kernel_masks_from_distributions ?ones (initial_distributions ?ks)
      mask_activation rng pos1 = Inr (?ones, pos2)"
    using initial_sampling_ones [OF rng wfk] by blast
  have "list_all2 (\<lambda>t v. shape t = shape v) (get_kernel_masks ?net1) ?ones"
    using sh1 by (simp add: list_all2_conv_all_nth list_eq_iff_nth_eq)
  from set_kernel_masks_values_ok [OF this] obtain net2 where
    w: "set_kernel_masks_values ?net1 ?ones = Inr net2" "get_kernel_masks net2 = ?ones"
       "filter (Not \<circ> is_kernel_mask) net2 = filter (Not \<circ> is_kernel_mask) ?net1"
    by blast
  have "recipe_start store rng model = Inr (net2, initial_distributions ?ks, pos2)"
    using load_weights_Inr [where store = store and p = perf_checkpoint, OF perf(2) perf(1)]
      load_weights_Inr [where store = store and p = choosen_checkpoint, OF ckp(2) ckp(1)] s1 s2 w(1)
    by (simp add: recipe_start_def)
  with w show ?thesis by blast
qed

theorem recipe_start_masks_ones_witness:
  "let model = [\<lparr>wname = ''conv/kernel'', wval = \<lparr>shape = [1], vals = [3]\<rparr>\<rparr>,
               \<lparr>wname = ''conv/kernel_mask'', wval = \<lparr>shape = [1], vals = [0]\<rparr>\<rparr>];
       vs = [\<lparr>shape = [1], vals = [7]\<rparr>, \<lparr>shape = [1], vals = [0]\<rparr>];
       store = Map.empty(perf_checkpoint \<mapsto> vs, choosen_checkpoint \<mapsto> vs)
   in (\<forall>n::nat. 0 \<le> (1/2::real) \<and> (1/2::real) < 1) \<and>
      store perf_checkpoint = Some vs \<and> list_all2 (\<lambda>w v. shape (wval w) = shape v) model vs \<and>
      store choosen_checkpoint = Some vs \<and> list_all (\<lambda>w. wf_tensor (wval w)) model \<and>
      (\<exists>net2 pos. recipe_start store (\<lambda>n. 1/2) model = Inr (net2, initial_distributions (get_kernel_masks model), pos) \<and>
         get_kernel_masks net2 = [\<lparr>shape = [1], vals = [1]\<rparr>] \<and>
         filter (Not \<circ> is_kernel_mask) net2 = [\<lparr>wname = ''conv/kernel'', wval = \<lparr>shape = [1], vals = [7]\<rparr>\<rparr>])"
  unfolding Let_def
proof -
  let ?model = "[\<lparr>wname = ''conv/kernel'', wval = \<lparr>shape = [1], vals = [3::real]\<rparr>\<rparr>,
               \<lparr>wname = ''conv/kernel_mask'', wval = \<lparr>shape = [1], vals = [0]\<rparr>\<rparr>]"
  let ?vs = "[\<lparr>shape = [1::nat], vals = [7::real]\<rparr>, \<lparr>shape = [1], vals = [0]\<rparr>]"
  let ?store = "Map.empty(perf_checkpoint \<mapsto> ?vs, choosen_checkpoint \<mapsto> ?vs)"
  have r: "\<forall>n::nat. 0 \<le> (\<lambda>n. 1/2::real) n \<and> (\<lambda>n. 1/2::real) n < 1" by simp
  have p: "?store perf_checkpoint = Some ?vs" and c: "?store choosen_checkpoint = Some ?vs" by simp_all
  have l: "list_all2 (\<lambda>w v. shape (wval w) = shape v) ?model ?vs" by simp
  have wf: "list_all (\<lambda>w. wf_tensor (wval w)) ?model" by (simp add: wf_tensor_def num_elements_def)
  have k: "get_kernel_masks ?model = [\<lparr>shape = [1], vals = [0]\<rparr>]"
    by (simp add: get_kernel_masks_def is_kernel_mask_def)
  have f: "filter (Not \<circ> is_kernel_mask) (map2 (\<lambda>w v. w\<lparr>wval := v\<rparr>) ?model ?vs) =
           [\<lparr>wname = ''conv/kernel'', wval = \<lparr>shape = [1], vals = [7]\<rparr>\<rparr>]"
    by (simp add: is_kernel_mask_def)
  from recipe_start_masks_ones [where store = ?store and rng = "\<lambda>n. 1/2", OF r p l c l wf] k f p c l wf
  show "(\<forall>n::nat. 0 \<le> (1/2::real) \<and> (1/2::real) < 1) \<and>
      ?store perf_checkpoint = Some ?vs \<and> list_all2 (\<lambda>w v. shape (wval w) = shape v) ?model ?vs \<and>
      ?store choosen_checkpoint = Some ?vs \<and> list_all (\<lambda>w. wf_tensor (wval w)) ?model \<and>
      (\<exists>net2 pos. recipe_start ?store (\<lambda>n. 1/2) ?model = Inr (net2, initial_distributions (get_kernel_masks ?model), pos) \<and>
         get_kernel_masks net2 = [\<lparr>shape = [1], vals = [1]\<rparr>] \<and>
         filter (Not \<circ> is_kernel_mask) net2 = [\<lparr>wname = ''conv/kernel'', wval = \<lparr>shape = [1], vals = [7]\<rparr>\<rparr>])"
    by (simp add: tmap_def)
qed
end
